theory Spec2Isabelle
  imports Main "HOL-Library.Char_ord" "HOL-Library.List_Lexorder"
begin

section \<open>Python values, exceptions and the builtins the two modules use\<close>

text \<open>
  The two modules (\<^verbatim>\<open>fate_flow/utils/model_utils.py\<close> and
  \<^verbatim>\<open>fate_flow/pipelined_model/migrate_model.py\<close>) work on JSON-like
  configuration data. The values the code inspects are \<^verbatim>\<open>None\<close>, integers,
  strings, lists and string-keyed dictionaries; a dictionary is an association list in
  insertion order (its keys are distinct in a well-formed dictionary). Booleans and floats
  do not occur in the identifiers and role tables these functions read and are not part
  of the value type.
\<close>

datatype pyval =
    VNone
  | VInt (the_int: int)
  | VStr (the_str: string)
  | VList (the_list: "pyval list")
  | VDict (the_dict: "(string \<times> pyval) list")

text \<open>
  Exceptions are values. Errors raised by the interpreter itself (\<^verbatim>\<open>TypeError\<close>,
  \<^verbatim>\<open>ValueError\<close>, \<^verbatim>\<open>AttributeError\<close>) carry no message in the model: their wording
  is the interpreter's business. All constructors stand for subclasses of Python's
  \<^verbatim>\<open>Exception\<close>.
\<close>

datatype exn =
    KeyError string
  | TypeError
  | ValueError
  | AttributeError
  | RuntimeError string
  | FileNotFoundError string
  | FileExistsError string
  | IntegrityError int string
  | Exception string

type_synonym pydict = "(string \<times> pyval) list"

fun truthy :: "pyval \<Rightarrow> bool" where
  "truthy VNone = False"
| "truthy (VInt i) = (i \<noteq> 0)"
| "truthy (VStr s) = (s \<noteq> [])"
| "truthy (VList xs) = (xs \<noteq> [])"
| "truthy (VDict kvs) = (kvs \<noteq> [])"

subsection \<open>\<^verbatim>\<open>str\<close> and \<^verbatim>\<open>repr\<close>\<close>

definition digit_char :: "nat \<Rightarrow> char" where
  "digit_char d = ''0123456789abcdef'' ! d"

fun str_nat :: "nat \<Rightarrow> string" where
  "str_nat n = (if n < 10 then [digit_char n] else str_nat (n div 10) @ [digit_char (n mod 10)])"

declare str_nat.simps [simp del]

definition str_int :: "int \<Rightarrow> string" where
  "str_int i = (if i < 0 then CHR ''-'' # str_nat (nat (- i)) else str_nat (nat i))"

text \<open>
  \<^verbatim>\<open>repr\<close> of a string, with the characters of the model read as the code points
  0 to 255: the quote is \<^verbatim>\<open>'\<close> unless the string holds a \<^verbatim>\<open>'\<close> and no \<^verbatim>\<open>"\<close>;
  the quote and the backslash are escaped, tab, newline and carriage return have their
  letters, and every other non-printable character is written \<^verbatim>\<open>\xhh\<close>.
\<close>

definition printable :: "char \<Rightarrow> bool" where
  "printable c = (let n = (of_char c :: nat) in (32 \<le> n \<and> n < 127) \<or> (161 \<le> n \<and> n \<noteq> 173))"

definition repr_char :: "char \<Rightarrow> char \<Rightarrow> string" where
  "repr_char q c =
     (if c = q \<or> c = CHR 0x5C then [CHR 0x5C, c]
      else if c = CHR 0x09 then [CHR 0x5C, CHR ''t'']
      else if c = CHR 0x0A then [CHR 0x5C, CHR ''n'']
      else if c = CHR 0x0D then [CHR 0x5C, CHR ''r'']
      else if \<not> printable c then
        [CHR 0x5C, CHR ''x'', digit_char (of_char c div 16), digit_char (of_char c mod 16)]
      else [c])"

definition repr_str :: "string \<Rightarrow> string" where
  "repr_str s =
     (let q = (if CHR 0x27 \<in> set s \<and> CHR 0x22 \<notin> set s then CHR 0x22 else CHR 0x27)
      in q # concat (map (repr_char q) s) @ [q])"

fun py_join :: "string \<Rightarrow> string list \<Rightarrow> string" where
  "py_join sep [] = []"
| "py_join sep [x] = x"
| "py_join sep (x # y # ys) = x @ sep @ py_join sep (y # ys)"

primrec py_repr :: "pyval \<Rightarrow> string" where
  "py_repr VNone = ''None''"
| "py_repr (VInt i) = str_int i"
| "py_repr (VStr s) = repr_str s"
| "py_repr (VList xs) = ''['' @ py_join '', '' (map py_repr xs) @ '']''"
| "py_repr (VDict kvs) =
     ''{'' @ py_join '', '' (map (\<lambda>kv. repr_str (fst kv) @ '': '' @ snd kv) (map (map_prod id py_repr) kvs)) @ ''}''"

definition py_str :: "pyval \<Rightarrow> string" where
  "py_str v = (case v of VStr s \<Rightarrow> s | _ \<Rightarrow> py_repr v)"

subsection \<open>Iteration, length, subscripting, \<^verbatim>\<open>join\<close>, \<^verbatim>\<open>split\<close>\<close>

fun py_iter :: "pyval \<Rightarrow> exn + pyval list" where
  "py_iter (VList xs) = Inr xs"
| "py_iter (VStr s) = Inr (map (\<lambda>c. VStr [c]) s)"
| "py_iter (VDict kvs) = Inr (map (\<lambda>kv. VStr (fst kv)) kvs)"
| "py_iter VNone = Inl TypeError"
| "py_iter (VInt i) = Inl TypeError"

fun py_len :: "pyval \<Rightarrow> exn + nat" where
  "py_len (VList xs) = Inr (length xs)"
| "py_len (VStr s) = Inr (length s)"
| "py_len (VDict kvs) = Inr (length kvs)"
| "py_len VNone = Inl TypeError"
| "py_len (VInt i) = Inl TypeError"

text \<open>\<^verbatim>\<open>d[k]\<close> on a dictionary.\<close>

definition dict_getitem :: "pydict \<Rightarrow> string \<Rightarrow> exn + pyval" where
  "dict_getitem d k = (case map_of d k of None \<Rightarrow> Inl (KeyError k) | Some v \<Rightarrow> Inr v)"

text \<open>\<^verbatim>\<open>v[k]\<close> with a string key \<open>k\<close> on any value: only a dictionary can be subscripted so.\<close>

definition py_getitem :: "pyval \<Rightarrow> string \<Rightarrow> exn + pyval" where
  "py_getitem v k = (case v of VDict d \<Rightarrow> dict_getitem d k | _ \<Rightarrow> Inl TypeError)"

text \<open>\<^verbatim>\<open>d[k] = v\<close> and \<^verbatim>\<open>d.get(k, default)\<close> on a dictionary: a key that is present keeps its place.\<close>

fun dict_setitem :: "('k \<times> 'v) list \<Rightarrow> 'k \<Rightarrow> 'v \<Rightarrow> ('k \<times> 'v) list" where
  "dict_setitem [] k v = [(k, v)]"
| "dict_setitem (kv # d) k v = (if fst kv = k then (k, v) # d else kv # dict_setitem d k v)"

definition dict_get :: "pydict \<Rightarrow> string \<Rightarrow> pyval \<Rightarrow> pyval" where
  "dict_get d k dflt = (case map_of d k of None \<Rightarrow> dflt | Some v \<Rightarrow> v)"

text \<open>\<^verbatim>\<open>v[k] = x\<close> with a string key on any value.\<close>

definition py_setitem :: "pyval \<Rightarrow> string \<Rightarrow> pyval \<Rightarrow> exn + pyval" where
  "py_setitem v k x = (case v of VDict d \<Rightarrow> Inr (VDict (dict_setitem d k x)) | _ \<Rightarrow> Inl TypeError)"

text \<open>\<^verbatim>\<open>v.get(k, default)\<close> on any value: only a dictionary has the method.\<close>

definition py_get :: "pyval \<Rightarrow> string \<Rightarrow> pyval \<Rightarrow> exn + pyval" where
  "py_get v k dflt = (case v of VDict d \<Rightarrow> Inr (dict_get d k dflt) | _ \<Rightarrow> Inl AttributeError)"

text \<open>
  \<^verbatim>\<open>bytes(v, "utf-8")\<close>: only a string can be encoded; the characters of the model
  are the code points 0 to 255.
\<close>

definition utf8_encode :: "string \<Rightarrow> string" where
  "utf8_encode s =
     concat (map (\<lambda>c. let n = (of_char c :: nat) in
                        if n < 128 then [c] else [char_of (192 + n div 64), char_of (128 + n mod 64)]) s)"

definition py_bytes :: "pyval \<Rightarrow> exn + string" where
  "py_bytes v = (case v of VStr s \<Rightarrow> Inr (utf8_encode s) | _ \<Rightarrow> Inl TypeError)"

text \<open>\<^verbatim>\<open>set(v)\<close>: the distinct items of an iterable of hashable values.\<close>

definition py_set :: "pyval \<Rightarrow> exn + pyval list" where
  "py_set v =
     (case py_iter v of
        Inl e \<Rightarrow> Inl e
      | Inr xs \<Rightarrow> if list_all (\<lambda>x. \<not> is_VList x \<and> \<not> is_VDict x) xs then Inr (remdups xs) else Inl TypeError)"

text \<open>\<^verbatim>\<open>sep.join(xs)\<close>: every item must be a string.\<close>

definition str_join :: "string \<Rightarrow> pyval list \<Rightarrow> exn + string" where
  "str_join sep xs =
     (if list_all is_VStr xs then Inr (py_join sep (map the_str xs)) else Inl TypeError)"

fun split_once :: "char \<Rightarrow> string \<Rightarrow> (string \<times> string) option" where
  "split_once c [] = None"
| "split_once c (x # xs) =
     (if x = c then Some ([], xs)
      else (case split_once c xs of None \<Rightarrow> None | Some (a, b) \<Rightarrow> Some (x # a, b)))"

text \<open>\<^verbatim>\<open>s.split(c, n)\<close> and \<^verbatim>\<open>s.rsplit(c, n)\<close> for a one-character separator.\<close>

fun py_split :: "char \<Rightarrow> nat \<Rightarrow> string \<Rightarrow> string list" where
  "py_split c 0 s = [s]"
| "py_split c (Suc n) s =
     (case split_once c s of None \<Rightarrow> [s] | Some (a, b) \<Rightarrow> a # py_split c n b)"

definition py_rsplit :: "char \<Rightarrow> nat \<Rightarrow> string \<Rightarrow> string list" where
  "py_rsplit c n s = rev (map rev (py_split c n (rev s)))"

text \<open>
  \<^verbatim>\<open>sorted(set(v))\<close>: the items of \<open>v\<close> must be hashable; the distinct items are
  ordered by \<^verbatim>\<open><\<close>, which Python defines among integers and among strings and
  between no other two values of the model, so a set of two or more items of mixed or
  other types raises \<^verbatim>\<open>TypeError\<close>.
\<close>

definition hashable :: "pyval \<Rightarrow> bool" where
  "hashable v = (case v of VList _ \<Rightarrow> False | VDict _ \<Rightarrow> False | _ \<Rightarrow> True)"

definition sorted_set :: "pyval \<Rightarrow> exn + pyval list" where
  "sorted_set v =
     (case py_iter v of
        Inl e \<Rightarrow> Inl e
      | Inr xs \<Rightarrow>
          if \<not> list_all hashable xs then Inl TypeError
          else if list_all is_VInt xs then Inr (map VInt (sort (remdups (map the_int xs))))
          else if list_all is_VStr xs then Inr (map VStr (sort (remdups (map the_str xs))))
          else if list_all (\<lambda>x. x = VNone) xs then Inr [VNone]
          else Inl TypeError)"

text \<open>The first exception of a sequence of results, or all their values.\<close>

fun collect :: "(exn + 'a) list \<Rightarrow> exn + 'a list" where
  "collect [] = Inr []"
| "collect (Inl e # rs) = Inl e"
| "collect (Inr x # rs) = (case collect rs of Inl e \<Rightarrow> Inl e | Inr xs \<Rightarrow> Inr (x # xs))"

section \<open>\<^verbatim>\<open>model_utils.py\<close>: model identifiers\<close>

text \<open>One item of the list comprehension of \<^verbatim>\<open>all_party_key\<close>.\<close>

definition role_party_key :: "pydict \<Rightarrow> string \<Rightarrow> exn + string" where
  "role_party_key all_party role_name =
     (case dict_getitem all_party role_name of
        Inl e \<Rightarrow> Inl e
      | Inr v \<Rightarrow>
          (case sorted_set v of
             Inl e \<Rightarrow> Inl e
           | Inr ps \<Rightarrow> Inr (role_name @ ''-'' @ py_join ''_'' (map py_str ps))))"

definition all_party_key :: "pyval \<Rightarrow> exn + pyval" where
  "all_party_key all_party =
     (if \<not> truthy all_party then Inr (VStr ''all'')
      else (case all_party of
              VDict d \<Rightarrow>
                (let sorted_role_name = sort (map fst d) in
                   case collect (map (role_party_key d) sorted_role_name) of
                     Inl e \<Rightarrow> Inl e
                   | Inr parts \<Rightarrow> Inr (VStr (py_join ''#'' parts)))
            | _ \<Rightarrow> Inr VNone))"

definition gen_party_model_id :: "pyval \<Rightarrow> pyval \<Rightarrow> pyval \<Rightarrow> exn + pyval" where
  "gen_party_model_id model_id role party_id =
     (if truthy model_id then
        (case str_join ''#'' [role, VStr (py_str party_id), model_id] of
           Inl e \<Rightarrow> Inl e
         | Inr s \<Rightarrow> Inr (VStr s))
      else Inr VNone)"

definition gen_model_id :: "pyval \<Rightarrow> exn + pyval" where
  "gen_model_id all_party =
     (case all_party_key all_party of
        Inl e \<Rightarrow> Inl e
      | Inr k \<Rightarrow>
          (case str_join ''#'' [k, VStr ''model''] of
             Inl e \<Rightarrow> Inl e
           | Inr s \<Rightarrow> Inr (VStr s)))"

text \<open>
  The glob pattern of \<^verbatim>\<open>query_model_info_from_file\<close>, an f-string:
  \<^verbatim>\<open>f"{root}/{role}#{party_id}#{model_id}/{model_version}"\<close>.
\<close>

definition model_path_pattern :: "string \<Rightarrow> pyval \<Rightarrow> pyval \<Rightarrow> pyval \<Rightarrow> pyval \<Rightarrow> string" where
  "model_path_pattern root role party_id model_id model_version =
     root @ ''/'' @ py_str role @ ''#'' @ py_str party_id @ ''#'' @ py_str model_id
       @ ''/'' @ py_str model_version"

text \<open>
  The two unpackings at the head of the loop of \<^verbatim>\<open>query_model_info_from_file\<close>:
  \<^verbatim>\<open>_, party_model_id, model_version = fp.rsplit('/', 2)\<close> and
  \<^verbatim>\<open>role, party_id, model_id = party_model_id.split('#', 2)\<close>. An unpacking of
  fewer than three parts raises \<^verbatim>\<open>ValueError\<close>.
\<close>

definition parse_fp :: "string \<Rightarrow> exn + (string \<times> string \<times> string \<times> string \<times> string)" where
  "parse_fp fp =
     (case py_rsplit CHR ''/'' 2 fp of
        [u, party_model_id, model_version] \<Rightarrow>
          (case py_split CHR ''#'' 2 party_model_id of
             [role, party_id, model_id] \<Rightarrow>
               Inr (party_model_id, role, party_id, model_id, model_version)
           | _ \<Rightarrow> Inl ValueError)
      | _ \<Rightarrow> Inl ValueError)"

section \<open>\<^verbatim>\<open>migrate_model.py\<close>: \<^verbatim>\<open>compare_roles\<close>\<close>

definition roles_mismatch :: exn where
  "roles_mismatch =
     Exception (''The structure of roles data of local configuration is different from ''
       @ ''model runtime configuration'' @ [CHR 0x27] @ ''s. Migration aborting.'')"

text \<open>\<^verbatim>\<open>set(str(item) for item in v)\<close>.\<close>

definition str_set :: "pyval \<Rightarrow> exn + string set" where
  "str_set v = (case py_iter v of Inl e \<Rightarrow> Inl e | Inr xs \<Rightarrow> Inr (set (map py_str xs)))"

text \<open>
  One pass of the loop body of \<^verbatim>\<open>compare_roles\<close> on the pair
  (\<^verbatim>\<open>verify_format\<close>, \<^verbatim>\<open>verify_equality\<close>). The chained \<^verbatim>\<open>and\<close> evaluates the
  lengths only while \<^verbatim>\<open>verify_format\<close> is still true; both sets are always built.
\<close>

definition compare_step :: "pydict \<Rightarrow> pydict \<Rightarrow> string \<Rightarrow> bool \<times> bool \<Rightarrow> exn + bool \<times> bool" where
  "compare_step request_conf_roles run_time_conf_roles key st =
     (case dict_getitem request_conf_roles key of
        Inl e \<Rightarrow> Inl e
      | Inr r \<Rightarrow>
         (case dict_getitem run_time_conf_roles key of
            Inl e \<Rightarrow> Inl e
          | Inr t \<Rightarrow>
             (case (if fst st
                    then (case py_len r of
                            Inl e \<Rightarrow> Inl e
                          | Inr n \<Rightarrow> (case py_len t of
                                        Inl e \<Rightarrow> Inl e
                                      | Inr m \<Rightarrow> Inr (n = m \<and> is_VList r)))
                    else Inr False) of
                Inl e \<Rightarrow> Inl e
              | Inr verify_format \<Rightarrow>
                 (case str_set r of
                    Inl e \<Rightarrow> Inl e
                  | Inr request_conf_roles_set \<Rightarrow>
                     (case str_set t of
                        Inl e \<Rightarrow> Inl e
                      | Inr run_time_conf_roles_set \<Rightarrow>
                          Inr (verify_format,
                               snd st \<and> request_conf_roles_set = run_time_conf_roles_set))))))"

fun compare_loop :: "pydict \<Rightarrow> pydict \<Rightarrow> string list \<Rightarrow> bool \<times> bool \<Rightarrow> exn + bool \<times> bool" where
  "compare_loop req run [] st = Inr st"
| "compare_loop req run (key # keys) st =
     (case compare_step req run key st of
        Inl e \<Rightarrow> Inl e
      | Inr st' \<Rightarrow> compare_loop req run keys st')"

definition compare_roles :: "pydict \<Rightarrow> pydict \<Rightarrow> exn + bool" where
  "compare_roles request_conf_roles run_time_conf_roles =
     (if set (map fst request_conf_roles) = set (map fst run_time_conf_roles) then
        (case compare_loop request_conf_roles run_time_conf_roles
                (map fst request_conf_roles) (True, True) of
           Inl e \<Rightarrow> Inl e
         | Inr st \<Rightarrow> if \<not> fst st then Inl roles_mismatch else Inr (snd st))
      else Inl roles_mismatch)"

section \<open>The collaborators: stores, files and helper classes\<close>

text \<open>
  The relational store (the \<^verbatim>\<open>MLModel\<close> table behind peewee), the file store
  (\<^verbatim>\<open>PipelinedModel\<close>), the remote store (\<^verbatim>\<open>SyncModel\<close>), the settings, the JSON
  codec, \<^verbatim>\<open>compare_version\<close> and \<^verbatim>\<open>JobRuntimeConfigAdapter\<close> are not part of the
  two modules. They are parameters of the model: a record of functions, each of which may
  raise. A function that reads a store takes the history of the calls made to the stores
  so far (the \<open>world\<close>), so its answer may depend on everything that happened before.
\<close>

text \<open>A protobuf field holds bytes or another value; a pipeline blob is its set fields, in order.\<close>

datatype pbval = PBytes string | PVal pyval

type_synonym pipeline = "(string \<times> pbval) list"

text \<open>
  A \<^verbatim>\<open>PipelinedModel\<close> object: the party model id and the model version it was
  constructed with (its attributes \<^verbatim>\<open>model_id\<close> and \<^verbatim>\<open>model_version\<close>).
\<close>

datatype pmodel = PipelinedModel (pm_model_id: pyval) (pm_model_version: pyval)

text \<open>A row of the component table, with the four columns \<^verbatim>\<open>migration\<close> reads.\<close>

record component_meta =
  f_component_name :: pyval
  f_component_module_name :: pyval
  f_model_alias :: pyval
  f_run_parameters :: pyval

text \<open>(role, party id, model id, model version)\<close>

type_synonym model_key = "pyval \<times> pyval \<times> pyval \<times> pyval"

text \<open>The calls that write to a store or to a log, recorded when they are made.\<close>

datatype event =
    SyncDownload model_key
  | SyncUpload model_key
  | SaveComponentModel pmodel pyval pyval pyval pyval pyval
  | SavePipelineModel pmodel pipeline
  | GenModelImportConfig pmodel
  | GatherAndSaveModelInfo pmodel pyval pyval
  | PackagingModel pmodel
  | ModelSave pydict
  | RegisterModel pyval pyval
  | LogException exn
  | LogWarning pyval exn

type_synonym world = "event list"

type_synonym 'a action = "world \<Rightarrow> (exn + 'a) \<times> world"

record env =
  ENABLE_MODEL_STORE :: bool
  remote_exists :: "world \<Rightarrow> model_key \<Rightarrow> exn + bool"
  download :: "world \<Rightarrow> model_key \<Rightarrow> exn option"
  upload :: "world \<Rightarrow> model_key \<Rightarrow> exn option"
  pm_init :: "pyval \<Rightarrow> pyval \<Rightarrow> exn option"
  pm_exists :: "world \<Rightarrow> pmodel \<Rightarrow> exn + bool"
  get_or_none :: "world \<Rightarrow> model_key \<Rightarrow> exn + bool"
  get_model_migrate_tool :: "world \<Rightarrow> pmodel \<Rightarrow> exn option"
  model_migration :: "pyval \<Rightarrow> pyval \<Rightarrow> pyval \<Rightarrow> pyval \<Rightarrow> pyval \<Rightarrow> pyval \<Rightarrow> pyval \<Rightarrow> pyval \<Rightarrow> exn + pyval"
  get_define_meta_from_db :: "world \<Rightarrow> pmodel \<Rightarrow> exn + component_meta list"
  read_component_model :: "world \<Rightarrow> pmodel \<Rightarrow> pyval \<Rightarrow> pyval \<Rightarrow> exn + pyval"
  save_component_model :: "world \<Rightarrow> pmodel \<Rightarrow> pyval \<Rightarrow> pyval \<Rightarrow> pyval \<Rightarrow> pyval \<Rightarrow> pyval \<Rightarrow> exn option"
  read_pipeline_model :: "world \<Rightarrow> pmodel \<Rightarrow> exn + pipeline"
  save_pipeline_model :: "world \<Rightarrow> pmodel \<Rightarrow> pipeline \<Rightarrow> exn option"
  gen_model_import_config :: "world \<Rightarrow> pmodel \<Rightarrow> exn option"
  gather_and_save_model_info :: "world \<Rightarrow> pmodel \<Rightarrow> pyval \<Rightarrow> pyval \<Rightarrow> exn option"
  packaging_model :: "world \<Rightarrow> pmodel \<Rightarrow> exn option"
  archive_abspath :: "world \<Rightarrow> pmodel \<Rightarrow> exn + string"
  json_loads :: "string \<Rightarrow> exn + pyval"
  json_dumps :: "pyval \<Rightarrow> exn + string"
  update_model_id_version :: "pyval \<Rightarrow> pyval \<Rightarrow> pyval \<Rightarrow> exn + pyval \<times> pyval"
  common_parameters :: "pyval \<Rightarrow> exn + pydict"
  compare_version :: "pyval \<Rightarrow> pyval \<Rightarrow> exn + pyval"
  has_field :: "string \<Rightarrow> bool"
  select_models :: "world \<Rightarrow> string list \<Rightarrow> pydict \<Rightarrow> exn + pydict list"
  model_local_cache :: string
  glob :: "world \<Rightarrow> string \<Rightarrow> string list"
  calculate_model_file_size :: "world \<Rightarrow> pmodel \<Rightarrow> exn + pyval"
  current_timestamp :: "world \<Rightarrow> pyval"
  model_save :: "world \<Rightarrow> pydict \<Rightarrow> exn + int"
  register_model :: "world \<Rightarrow> pyval \<Rightarrow> pyval \<Rightarrow> exn option"

section \<open>Sequencing\<close>

text \<open>
  A result is an exception or a value; an action also changes the world. \<open>and_then\<close> and
  \<open>then_do\<close> run the next statement unless the one before raised. \<open>ask\<close> reads a store,
  \<open>call\<close> records a writing call and makes it (a call that raises has been made all the
  same), and \<open>catch_log\<close> is \<^verbatim>\<open>try: ... except Exception as e: stat_logger.exception(e)\<close>.
\<close>

definition and_then :: "exn + 'a \<Rightarrow> ('a \<Rightarrow> exn + 'b) \<Rightarrow> exn + 'b" where
  "and_then r f = (case r of Inl e \<Rightarrow> Inl e | Inr a \<Rightarrow> f a)"

definition ret :: "'a \<Rightarrow> 'a action" where
  "ret a w = (Inr a, w)"

definition raise :: "exn \<Rightarrow> 'a action" where
  "raise e w = (Inl e, w)"

definition pure :: "exn + 'a \<Rightarrow> 'a action" where
  "pure r w = (r, w)"

definition ask :: "(world \<Rightarrow> exn + 'a) \<Rightarrow> 'a action" where
  "ask f w = (f w, w)"

definition call :: "event \<Rightarrow> (world \<Rightarrow> exn option) \<Rightarrow> unit action" where
  "call ev f w = ((case f w of None \<Rightarrow> Inr () | Some e \<Rightarrow> Inl e), w @ [ev])"

definition then_do :: "'a action \<Rightarrow> ('a \<Rightarrow> 'b action) \<Rightarrow> 'b action" where
  "then_do m f w = (case m w of (Inl e, w') \<Rightarrow> (Inl e, w') | (Inr a, w') \<Rightarrow> f a w')"

definition catch_log :: "'a action \<Rightarrow> unit action" where
  "catch_log m w =
     (case m w of (Inl e, w') \<Rightarrow> (Inr (), w' @ [LogException e]) | (Inr a, w') \<Rightarrow> (Inr (), w'))"

text \<open>The constructor of \<^verbatim>\<open>PipelinedModel\<close>, which may raise.\<close>

definition new_model :: "env \<Rightarrow> pyval \<Rightarrow> pyval \<Rightarrow> pmodel action" where
  "new_model env model_id model_version =
     (case pm_init env model_id model_version of
        Some e \<Rightarrow> raise e
      | None \<Rightarrow> ret (PipelinedModel model_id model_version))"

section \<open>\<^verbatim>\<open>model_utils.py\<close>: queries and registration\<close>

text \<open>
  The two loops at the head of \<^verbatim>\<open>query_model_info_from_db\<close>: a keyword \<open>k\<close> with the
  value \<open>v\<close> becomes the condition \<^verbatim>\<open>MLModel.f_k == v\<close> and a filter \<open>k\<close> the column
  \<^verbatim>\<open>MLModel.f_k\<close>, when the table has the field.
\<close>

definition db_conditions :: "env \<Rightarrow> pydict \<Rightarrow> pydict" where
  "db_conditions env kwargs =
     filter (\<lambda>kv. has_field env (fst kv)) (map (\<lambda>kv. (''f_'' @ fst kv, snd kv)) kwargs)"

definition db_filters :: "env \<Rightarrow> pyval list \<Rightarrow> string list" where
  "db_filters env query_filters = filter (has_field env) (map (\<lambda>k. ''f_'' @ py_str k) query_filters)"

definition query_model_info_from_db ::
  "env \<Rightarrow> pyval list option \<Rightarrow> pydict \<Rightarrow> (int \<times> string \<times> pydict list) action" where
  "query_model_info_from_db env query_filters kwargs =
     (let conditions = db_conditions env kwargs in
      case query_filters of
        None \<Rightarrow> raise TypeError
      | Some qf \<Rightarrow>
          (let filters = db_filters env qf in
           then_do (ask (\<lambda>w. select_models env w filters conditions)) (\<lambda>models.
             if models = []
             then ret (100, ''Query model info failed, cannot find model from db.'', [])
             else ret (0, ''Query model info from db success.'', models))))"

text \<open>The loop over \<^verbatim>\<open>pipeline.ListFields()\<close> of \<^verbatim>\<open>gather_model_info_data\<close>.\<close>

fun list_fields_loop :: "env \<Rightarrow> pipeline \<Rightarrow> pydict \<Rightarrow> exn + pydict" where
  "list_fields_loop env [] model_info = Inr model_info"
| "list_fields_loop env (af # rest) model_info =
     (case (case snd af of PBytes b \<Rightarrow> json_loads env b | PVal v \<Rightarrow> Inr v) of
        Inl e \<Rightarrow> Inl e
      | Inr field \<Rightarrow> list_fields_loop env rest (dict_setitem model_info (''f_'' @ fst af) field))"

text \<open>The three assignments under \<^verbatim>\<open>compare_version(...) == 'lt'\<close>.\<close>

definition lt_fields :: "pydict \<Rightarrow> exn + pydict" where
  "lt_fields model_info =
     and_then (py_get (dict_get model_info ''f_train_runtime_conf'' (VDict [])) ''role'' (VDict []))
       (\<lambda>roles.
     let model_info = dict_setitem model_info ''f_roles'' roles in
     and_then (and_then (py_get (dict_get model_info ''f_train_runtime_conf'' (VDict [])) ''initiator'' (VDict []))
                 (\<lambda>i. py_get i ''role'' VNone))
       (\<lambda>initiator_role.
     let model_info = dict_setitem model_info ''f_initiator_role'' initiator_role in
     and_then (and_then (py_get (dict_get model_info ''f_train_runtime_conf'' (VDict [])) ''initiator'' (VDict []))
                 (\<lambda>i. py_get i ''party_id'' VNone))
       (\<lambda>initiator_party_id.
     Inr (dict_setitem model_info ''f_initiator_party_id'' initiator_party_id))))"

definition dict_update :: "pydict \<Rightarrow> pydict \<Rightarrow> pydict" where
  "dict_update d kwargs = foldl (\<lambda>d kv. dict_setitem d (fst kv) (snd kv)) d kwargs"

definition gather_model_info_data ::
  "env \<Rightarrow> pmodel \<Rightarrow> pyval \<Rightarrow> pyval \<Rightarrow> pydict \<Rightarrow> pydict action" where
  "gather_model_info_data env model local_role local_party_id kwargs =
     (let kwargs = dict_update []
            (map (\<lambda>kv. (if take 2 (fst kv) = ''f_'' then fst kv else ''f_'' @ fst kv, snd kv)) kwargs) in
      then_do (ask (\<lambda>w. read_pipeline_model env w model)) (\<lambda>pipeline.
      then_do (pure (list_fields_loop env pipeline [])) (\<lambda>model_info.
      then_do (pure (dict_getitem model_info ''f_model_version'')) (\<lambda>model_version.
      let model_info = dict_setitem model_info ''f_job_id'' model_version;
          model_info = dict_setitem model_info ''f_role'' local_role;
          model_info = dict_setitem model_info ''f_party_id'' local_party_id in
      then_do (pure (dict_getitem model_info ''f_train_runtime_conf'')) (\<lambda>train_runtime_conf.
      let model_info = dict_setitem model_info ''f_runtime_conf'' train_runtime_conf in
      then_do (ask (\<lambda>w. calculate_model_file_size env w model)) (\<lambda>size.
      let model_info = dict_setitem model_info ''f_size'' size in
      then_do (pure (and_then (dict_getitem model_info ''f_fate_version'')
                       (\<lambda>fate_version. compare_version env fate_version (VStr ''1.5.1'')))) (\<lambda>c.
      then_do (pure (if c = VStr ''lt'' then lt_fields model_info else Inr model_info)) (\<lambda>model_info.
      ret (dict_update model_info kwargs)))))))))"

text \<open>
  The head of \<^verbatim>\<open>save_model_info\<close>: a new \<^verbatim>\<open>MLModel\<close> gets its creation time, and
  the loop copies the fields of \<^verbatim>\<open>model_info\<close> onto it.
\<close>

fun set_model_attrs :: "env \<Rightarrow> pydict \<Rightarrow> pydict \<Rightarrow> pydict" where
  "set_model_attrs env [] model = model"
| "set_model_attrs env (kv # rest) model =
     set_model_attrs env rest
       (if has_field env (''f_'' @ fst kv) then dict_setitem model (''f_'' @ fst kv) (snd kv)
        else if has_field env (fst kv) then dict_setitem model (fst kv) (snd kv)
        else model)"

text \<open>
  \<^verbatim>\<open>save_model_info\<close>. The \<^verbatim>\<open>try\<close> holds the insert and the check of the row count;
  only an \<^verbatim>\<open>IntegrityError\<close> is handled, and only one whose first argument is 1062 is
  swallowed (logged as a warning, the function then returns \<^verbatim>\<open>None\<close>).
\<close>

definition new_mlmodel :: "env \<Rightarrow> world \<Rightarrow> pydict \<Rightarrow> pydict" where
  "new_mlmodel env w model_info =
     set_model_attrs env model_info [(''f_create_time'', current_timestamp env w)]"

definition save_model_info :: "env \<Rightarrow> pydict \<Rightarrow> pydict option action" where
  "save_model_info env model_info w =
     (let model = new_mlmodel env w model_info;
          key = (dict_get model ''f_role'' VNone, dict_get model ''f_party_id'' VNone,
                 dict_get model ''f_model_id'' VNone, dict_get model ''f_model_version'' VNone);
          w1 = w @ [ModelSave model]
      in case (case model_save env w model of
                 Inl e \<Rightarrow> Inl e
               | Inr rows \<Rightarrow> if rows \<noteq> 1 then Inl (Exception ''Save to database failed'') else Inr ()) of
           Inl (IntegrityError code msg) \<Rightarrow>
             if code \<noteq> 1062 then (Inl (IntegrityError code msg), w1)
             else (Inr None,
                   w1 @ [LogWarning (dict_get model_info ''job_id'' (VStr ''fate_flow''))
                                    (IntegrityError code msg)])
         | Inl e \<Rightarrow> (Inl e, w1)
         | Inr u \<Rightarrow>
             then_do (if ENABLE_MODEL_STORE env then call (SyncUpload key) (\<lambda>w. upload env w key)
                      else ret ()) (\<lambda>u.
             then_do (pure (gen_party_model_id (dict_get model ''f_model_id'' VNone)
                              (dict_get model ''f_role'' VNone) (dict_get model ''f_party_id'' VNone)))
               (\<lambda>party_model_id.
             then_do (call (RegisterModel party_model_id (dict_get model ''f_model_version'' VNone))
                        (\<lambda>w. register_model env w party_model_id
                                (dict_get model ''f_model_version'' VNone))) (\<lambda>u.
             ret (Some model)))) w1)"

text \<open>
  The filter loop of \<^verbatim>\<open>query_model_info_from_file\<close>:
  \<^verbatim>\<open>for k, v in model_info.items(): if k not in query_filters: del model_info[k]\<close>.
  The loop deletes from the dictionary it iterates over. After a deletion the dictionary
  has changed size, and the iterator raises \<^verbatim>\<open>RuntimeError\<close> when it is asked for the
  next item, also when the deleted item was the last one. So the loop ends normally only
  when it deletes nothing. \<open>keys\<close> are the keys the iterator still has to yield.
\<close>

fun filter_loop :: "pyval list \<Rightarrow> string list \<Rightarrow> pydict \<Rightarrow> exn + pydict" where
  "filter_loop query_filters [] model_info = Inr model_info"
| "filter_loop query_filters (k # keys) model_info =
     (if VStr k \<notin> set query_filters
      then Inl (RuntimeError ''dictionary changed size during iteration'')
      else filter_loop query_filters keys model_info)"

text \<open>One pass of the loop over \<^verbatim>\<open>fp_list\<close>: \<open>None\<close> is \<^verbatim>\<open>continue\<close>.\<close>

definition query_one_fp :: "env \<Rightarrow> pyval list option \<Rightarrow> bool \<Rightarrow> string \<Rightarrow> pydict option action" where
  "query_one_fp env query_filters save_to_db fp =
     then_do (pure (parse_fp fp)) (\<lambda>(party_model_id, role, party_id, model_id, model_version).
     then_do (new_model env (VStr party_model_id) (VStr model_version)) (\<lambda>pipeline_model.
     then_do (ask (\<lambda>w. pm_exists env w pipeline_model)) (\<lambda>ex.
     if \<not> ex then ret None
     else
       then_do (gather_model_info_data env pipeline_model (VStr role) (VStr party_id) []) (\<lambda>model_info.
       then_do (if save_to_db then catch_log (save_model_info env model_info) else ret ()) (\<lambda>u.
       then_do (pure (case query_filters of
                        None \<Rightarrow> Inr model_info
                      | Some qf \<Rightarrow> if qf \<noteq> [] then filter_loop qf (map fst model_info) model_info
                                  else Inr model_info)) (\<lambda>model_info.
       ret (Some model_info)))))))"

fun query_fp_loop ::
  "env \<Rightarrow> pyval list option \<Rightarrow> bool \<Rightarrow> string list \<Rightarrow> pydict list \<Rightarrow> pydict list action" where
  "query_fp_loop env query_filters save_to_db [] models w = (Inr models, w)"
| "query_fp_loop env query_filters save_to_db (fp # fp_list) models w =
     (case query_one_fp env query_filters save_to_db fp w of
        (Inl e, w') \<Rightarrow> (Inl e, w')
      | (Inr None, w') \<Rightarrow> query_fp_loop env query_filters save_to_db fp_list models w'
      | (Inr (Some model_info), w') \<Rightarrow>
          query_fp_loop env query_filters save_to_db fp_list (models @ [model_info]) w')"

definition query_model_info_from_file ::
  "env \<Rightarrow> pyval \<Rightarrow> pyval \<Rightarrow> pyval \<Rightarrow> pyval \<Rightarrow> pyval list option \<Rightarrow> bool
     \<Rightarrow> (int \<times> string \<times> pydict list) action" where
  "query_model_info_from_file env model_id model_version role party_id query_filters save_to_db =
     then_do (ask (\<lambda>w. Inr (glob env w
                (model_path_pattern (model_local_cache env) role party_id model_id model_version))))
       (\<lambda>fp_list.
     then_do (query_fp_loop env query_filters save_to_db fp_list []) (\<lambda>models.
       if models = []
       then ret (100, ''Query model info failed, cannot find model from local model files.'', [])
       else ret (0, ''Query model info from local model success.'', models)))"

text \<open>
  The call \<^verbatim>\<open>query_model_info_from_file(**kwargs)\<close>: the function has the parameters
  \<^verbatim>\<open>model_id\<close>, \<^verbatim>\<open>model_version\<close>, \<^verbatim>\<open>role\<close>, \<^verbatim>\<open>party_id\<close> (each \<^verbatim>\<open>'*'\<close> by default),
  \<^verbatim>\<open>query_filters\<close> and \<^verbatim>\<open>save_to_db\<close>; any other keyword is a \<^verbatim>\<open>TypeError\<close>.
  \<open>kwargs\<close> are the keywords other than \<^verbatim>\<open>query_filters\<close> and \<^verbatim>\<open>save_to_db\<close>.
\<close>

definition call_from_file ::
  "env \<Rightarrow> pydict \<Rightarrow> pyval list \<Rightarrow> bool \<Rightarrow> (int \<times> string \<times> pydict list) action" where
  "call_from_file env kwargs query_filters save_to_db =
     (if list_all (\<lambda>kv. fst kv \<in> {''model_id'', ''model_version'', ''role'', ''party_id''}) kwargs
      then query_model_info_from_file env
             (dict_get kwargs ''model_id'' (VStr ''*'')) (dict_get kwargs ''model_version'' (VStr ''*''))
             (dict_get kwargs ''role'' (VStr ''*'')) (dict_get kwargs ''party_id'' (VStr ''*''))
             (Some query_filters) save_to_db
      else raise TypeError)"

definition dict_pop :: "pydict \<Rightarrow> string \<Rightarrow> pydict" where
  "dict_pop d k = filter (\<lambda>kv. fst kv \<noteq> k) d"

text \<open>
  \<^verbatim>\<open>set(kwargs['query_filters']) if kwargs.get('query_filters') else set()\<close>: the
  distinct filters, as a list.
\<close>

definition query_filters_arg :: "pydict \<Rightarrow> exn + pyval list" where
  "query_filters_arg kwargs =
     (if truthy (dict_get kwargs ''query_filters'' VNone)
      then py_set (dict_get kwargs ''query_filters'' VNone) else Inr [])"

definition both_miss_msg :: string where
  "both_miss_msg =
     ''Query model info failed, cannot find model from db and local model files. ''
     @ ''Try use both model id and model version to query model info from local models.''"

definition query_model_info :: "env \<Rightarrow> pydict \<Rightarrow> (int \<times> string \<times> pydict list) action" where
  "query_model_info env kwargs =
     (let file_only = truthy (dict_get kwargs ''file_only'' VNone);
          kwargs = dict_pop kwargs ''file_only'' in
      then_do (pure (query_filters_arg kwargs)) (\<lambda>query_filters.
      let kwargs = dict_pop kwargs ''query_filters'' in
      then_do (if \<not> file_only
               then then_do (query_model_info_from_db env (Some query_filters) kwargs) (\<lambda>r.
                      if fst r = 0 then ret (Some r) else ret None)
               else ret None) (\<lambda>from_db.
      case from_db of
        Some r \<Rightarrow> ret r
      | None \<Rightarrow>
          then_do (call_from_file env (dict_pop kwargs ''save_to_db'') query_filters
                     (if \<not> file_only then True else truthy (dict_get kwargs ''save_to_db'' VNone)))
            (\<lambda>r.
          if fst r = 0 then ret r
          else ret (100, both_miss_msg, [])))))"

section \<open>\<^verbatim>\<open>migrate_model.py\<close>: \<^verbatim>\<open>migration\<close>\<close>

text \<open>
  The five reads at the head of \<^verbatim>\<open>migration\<close>, before the \<^verbatim>\<open>try\<close>:
  \<^verbatim>\<open>model_id\<close>, \<^verbatim>\<open>model_version\<close>, \<^verbatim>\<open>local_role\<close>, \<^verbatim>\<open>local_party_id\<close> and
  \<^verbatim>\<open>unify_model_version\<close>.
\<close>

definition read_identity :: "pydict \<Rightarrow> exn + (pyval \<times> pyval \<times> pyval \<times> pyval \<times> pyval)" where
  "read_identity config_data =
     and_then (dict_getitem config_data ''model_id'') (\<lambda>model_id.
     and_then (dict_getitem config_data ''model_version'') (\<lambda>model_version.
     and_then (and_then (dict_getitem config_data ''local'') (\<lambda>l. py_getitem l ''role'')) (\<lambda>local_role.
     and_then (and_then (dict_getitem config_data ''local'') (\<lambda>l. py_getitem l ''party_id'')) (\<lambda>local_party_id.
     and_then (dict_getitem config_data ''unify_model_version'') (\<lambda>unify_model_version.
     Inr (model_id, model_version, local_role, local_party_id, unify_model_version))))))"

text \<open>Lines 60 to 66: the download from the remote store.\<close>

definition sync_source :: "env \<Rightarrow> model_key \<Rightarrow> unit action" where
  "sync_source env key =
     (if ENABLE_MODEL_STORE env then
        then_do (ask (\<lambda>w. remote_exists env w key)) (\<lambda>re.
          if re then call (SyncDownload key) (\<lambda>w. download env w key) else ret ())
      else ret ())"

text \<open>Lines 68 to 75: the source model must be in the local cache.\<close>

definition open_source :: "env \<Rightarrow> pyval \<Rightarrow> pyval \<Rightarrow> pyval \<Rightarrow> pyval \<Rightarrow> pmodel action" where
  "open_source env model_id model_version local_role local_party_id =
     then_do (pure (gen_party_model_id model_id local_role local_party_id)) (\<lambda>party_model_id.
     then_do (new_model env party_model_id model_version) (\<lambda>source_model.
     then_do (ask (\<lambda>w. pm_exists env w source_model)) (\<lambda>ex.
       if \<not> ex then
         raise (FileNotFoundError (''Can not found '' @ py_str model_id @ '' ''
                  @ py_str model_version @ '' model local cache.''))
       else ret source_model)))"

text \<open>Lines 77 to 87: the unify model version must be free in the database.\<close>

definition occupied_error :: "pyval \<Rightarrow> exn" where
  "occupied_error unify_model_version =
     FileExistsError (''Unify model version '' @ py_str unify_model_version
        @ '' has been occupied in database. ''
        @ ''Please choose another unify model version and try again.'')"

definition check_unify_version :: "env \<Rightarrow> pyval \<Rightarrow> pyval \<Rightarrow> pyval \<Rightarrow> pyval \<Rightarrow> unit action" where
  "check_unify_version env local_role local_party_id model_id unify_model_version =
     then_do (ask (\<lambda>w. get_or_none env w (local_role, local_party_id, model_id, unify_model_version)))
       (\<lambda>found.
       if found then raise (occupied_error unify_model_version) else ret ())"

text \<open>Lines 90 to 97: the model under the new identity.\<close>

definition migrate_party_model_id :: "pydict \<Rightarrow> pyval \<Rightarrow> exn + pyval" where
  "migrate_party_model_id config_data local_role =
     and_then (dict_getitem config_data ''migrate_role'') (\<lambda>migrate_role.
     and_then (gen_model_id migrate_role) (\<lambda>new_model_id.
     and_then (and_then (dict_getitem config_data ''local'') (\<lambda>l. py_getitem l ''migrate_party_id''))
       (\<lambda>migrate_party_id.
     gen_party_model_id new_model_id local_role migrate_party_id)))"

definition new_migrate_model :: "env \<Rightarrow> pydict \<Rightarrow> pyval \<Rightarrow> pyval \<Rightarrow> pmodel action" where
  "new_migrate_model env config_data local_role unify_model_version =
     then_do (pure (migrate_party_model_id config_data local_role))
       (\<lambda>party_model_id. new_model env party_model_id unify_model_version)"

text \<open>Lines 108 to 113: the six role lists, read in the order of the call's arguments.\<close>

definition migration_lists ::
  "pydict \<Rightarrow> exn + (pyval \<times> pyval \<times> pyval \<times> pyval \<times> pyval \<times> pyval)" where
  "migration_lists config_data =
     and_then (and_then (dict_getitem config_data ''role'') (\<lambda>r. py_getitem r ''guest'')) (\<lambda>old_guest_list.
     and_then (and_then (dict_getitem config_data ''migrate_role'') (\<lambda>r. py_getitem r ''guest'')) (\<lambda>new_guest_list.
     and_then (and_then (dict_getitem config_data ''role'') (\<lambda>r. py_getitem r ''host'')) (\<lambda>old_host_list.
     and_then (and_then (dict_getitem config_data ''migrate_role'') (\<lambda>r. py_getitem r ''host'')) (\<lambda>new_host_list.
     and_then (py_get (dict_get config_data ''role'' (VDict [])) ''arbiter'' VNone) (\<lambda>old_arbiter_list.
     and_then (py_get (dict_get config_data ''migrate_role'' (VDict [])) ''arbiter'' VNone) (\<lambda>new_arbiter_list.
     Inr (old_guest_list, new_guest_list, old_host_list, new_host_list,
          old_arbiter_list, new_arbiter_list)))))))"

text \<open>Lines 103 to 119: one component model is read, transformed and saved.\<close>

definition migrate_component :: "env \<Rightarrow> pydict \<Rightarrow> pmodel \<Rightarrow> pmodel \<Rightarrow> component_meta \<Rightarrow> unit action" where
  "migrate_component env config_data source_model migrate_model row =
     then_do (ask (\<lambda>w. read_component_model env w source_model
                          (f_component_name row) (f_model_alias row))) (\<lambda>buffer_obj.
     then_do (pure (and_then (migration_lists config_data) (\<lambda>(og, ng, oh, nh, oa, na).
                model_migration env buffer_obj (f_component_module_name row) og ng oh nh oa na)))
       (\<lambda>modified_buffer.
     call (SaveComponentModel migrate_model (f_component_name row) (f_component_module_name row)
             (f_model_alias row) modified_buffer (f_run_parameters row))
          (\<lambda>w. save_component_model env w migrate_model (f_component_name row)
                  (f_component_module_name row) (f_model_alias row) modified_buffer
                  (f_run_parameters row))))"

fun migrate_components ::
  "env \<Rightarrow> pydict \<Rightarrow> pmodel \<Rightarrow> pmodel \<Rightarrow> component_meta list \<Rightarrow> unit action" where
  "migrate_components env config_data source_model migrate_model [] w = (Inr (), w)"
| "migrate_components env config_data source_model migrate_model (row # query) w =
     (case migrate_component env config_data source_model migrate_model row w of
        (Inl e, w') \<Rightarrow> (Inl e, w')
      | (Inr u, w') \<Rightarrow> migrate_components env config_data source_model migrate_model query w')"

text \<open>
  Attribute reads and writes on the pipeline blob. An unset bytes field reads as the empty
  bytes, an unset string field as the empty string.
\<close>

definition pb_bytes :: "pipeline \<Rightarrow> string \<Rightarrow> string" where
  "pb_bytes p name = (case map_of p name of Some (PBytes b) \<Rightarrow> b | _ \<Rightarrow> [])"

definition pb_val :: "pipeline \<Rightarrow> string \<Rightarrow> pyval" where
  "pb_val p name = (case map_of p name of Some (PVal v) \<Rightarrow> v | _ \<Rightarrow> VStr [])"

text \<open>
  Lines 121 to 139: the pipeline blob of the source model is rewritten. The result is the
  new blob and the state of the \<^verbatim>\<open>JobRuntimeConfigAdapter\<close>.
\<close>

definition update_pipeline :: "env \<Rightarrow> pydict \<Rightarrow> pmodel \<Rightarrow> pipeline \<Rightarrow> exn + pipeline \<times> pyval" where
  "update_pipeline env config_data migrate_model pipeline_model =
     and_then (json_loads env (pb_bytes pipeline_model ''train_runtime_conf'')) (\<lambda>train_runtime_conf.
     and_then (and_then (dict_getitem config_data ''migrate_role'')
                 (py_setitem train_runtime_conf ''role'')) (\<lambda>train_runtime_conf.
     and_then (and_then (dict_getitem config_data ''migrate_initiator'')
                 (py_setitem train_runtime_conf ''initiator'')) (\<lambda>train_runtime_conf.
     and_then (and_then (py_getitem train_runtime_conf ''role'') gen_model_id) (\<lambda>new_model_id.
     and_then (update_model_id_version env train_runtime_conf new_model_id
                 (pm_model_version migrate_model)) (\<lambda>(train_runtime_conf, adapter).
     and_then (json_dumps env train_runtime_conf) (\<lambda>dumped.
     let pipeline_model = dict_setitem pipeline_model ''train_runtime_conf'' (PBytes dumped) in
     and_then (and_then (common_parameters env adapter)
                 (\<lambda>cp. py_bytes (dict_get cp ''model_id'' VNone))) (\<lambda>b.
     let pipeline_model = dict_setitem pipeline_model ''model_id'' (PBytes b) in
     and_then (and_then (common_parameters env adapter)
                 (\<lambda>cp. py_bytes (dict_get cp ''model_version'' VNone))) (\<lambda>b.
     let pipeline_model = dict_setitem pipeline_model ''model_version'' (PBytes b) in
     and_then (compare_version env (pb_val pipeline_model ''fate_version'') (VStr ''1.5.0'')) (\<lambda>c.
     if c = VStr ''gt'' then
       and_then (and_then (dict_getitem config_data ''migrate_initiator'') (\<lambda>i. py_getitem i ''role''))
         (\<lambda>initiator_role.
       let pipeline_model = dict_setitem pipeline_model ''initiator_role'' (PVal initiator_role) in
       and_then (and_then (dict_getitem config_data ''migrate_initiator'') (\<lambda>i. py_getitem i ''party_id''))
         (\<lambda>initiator_party_id.
       Inr (dict_setitem pipeline_model ''initiator_party_id'' (PVal initiator_party_id), adapter)))
     else Inr (pipeline_model, adapter))))))))))"

text \<open>Lines 148 to 156: the message and the result dictionary of a successful migration.\<close>

definition migration_result :: "env \<Rightarrow> pmodel \<Rightarrow> pyval \<Rightarrow> (string \<times> pydict) action" where
  "migration_result env migrate_model adapter =
     then_do (pure (and_then (common_parameters env adapter)
                      (\<lambda>cp. Inr (dict_get cp ''model_id'' VNone)))) (\<lambda>new_model_id.
     then_do (ask (\<lambda>w. archive_abspath env w migrate_model)) (\<lambda>path.
     then_do (ask (\<lambda>w. archive_abspath env w migrate_model)) (\<lambda>path'.
     ret (''Migrating model successfully. ''
            @ ''The configuration of model has been modified automatically. ''
            @ ''New model id is: '' @ py_str new_model_id
            @ '', model version is: '' @ py_str (pm_model_version migrate_model) @ ''. ''
            @ ''Model files can be found at '' @ [CHR 0x27] @ path @ [CHR 0x27] @ ''.'',
          [(''model_id'', pm_model_id migrate_model),
           (''model_version'', pm_model_version migrate_model),
           (''path'', VStr path')]))))"

text \<open>
  Lines 89 to 119: the migrate tool, the model under the new identity, and the loop over
  the component models of the source.
\<close>

definition migrate_models :: "env \<Rightarrow> pydict \<Rightarrow> pmodel \<Rightarrow> pyval \<Rightarrow> pyval \<Rightarrow> pmodel action" where
  "migrate_models env config_data source_model local_role unify_model_version =
     then_do (ask (\<lambda>w. case get_model_migrate_tool env w source_model of
                          None \<Rightarrow> Inr () | Some e \<Rightarrow> Inl e)) (\<lambda>migrate_tool.
     then_do (new_migrate_model env config_data local_role unify_model_version) (\<lambda>migrate_model.
     then_do (ask (\<lambda>w. get_define_meta_from_db env w source_model)) (\<lambda>query.
     then_do (migrate_components env config_data source_model migrate_model query) (\<lambda>u.
     ret migrate_model))))"

text \<open>
  Lines 121 to 156: the pipeline blob is read, rewritten and saved, the import
  configuration generated, the model info registered, the archive packed, and the result
  built.
\<close>

definition migrate_pipeline ::
  "env \<Rightarrow> pydict \<Rightarrow> pmodel \<Rightarrow> pmodel \<Rightarrow> pyval \<Rightarrow> pyval \<Rightarrow> (string \<times> pydict) action" where
  "migrate_pipeline env config_data source_model migrate_model local_role local_party_id =
     then_do (ask (\<lambda>w. read_pipeline_model env w source_model)) (\<lambda>pipeline_model.
     then_do (pure (update_pipeline env config_data migrate_model pipeline_model))
       (\<lambda>(pipeline_model, adapter).
     then_do (call (SavePipelineModel migrate_model pipeline_model)
                (\<lambda>w. save_pipeline_model env w migrate_model pipeline_model)) (\<lambda>u.
     then_do (call (GenModelImportConfig migrate_model)
                (\<lambda>w. gen_model_import_config env w migrate_model)) (\<lambda>u.
     then_do (call (GatherAndSaveModelInfo migrate_model local_role local_party_id)
                (\<lambda>w. gather_and_save_model_info env w migrate_model local_role local_party_id)) (\<lambda>u.
     then_do (call (PackagingModel migrate_model)
                (\<lambda>w. packaging_model env w migrate_model)) (\<lambda>u.
     migration_result env migrate_model adapter))))))"

text \<open>The body of the \<^verbatim>\<open>try\<close>.\<close>

definition migration_try ::
  "env \<Rightarrow> pydict \<Rightarrow> pyval \<Rightarrow> pyval \<Rightarrow> pyval \<Rightarrow> pyval \<Rightarrow> pyval \<Rightarrow> (string \<times> pydict) action" where
  "migration_try env config_data model_id model_version local_role local_party_id unify_model_version =
     then_do (sync_source env (local_role, local_party_id, model_id, model_version)) (\<lambda>u.
     then_do (open_source env model_id model_version local_role local_party_id) (\<lambda>source_model.
     then_do (check_unify_version env local_role local_party_id model_id unify_model_version) (\<lambda>u.
     then_do (migrate_models env config_data source_model local_role unify_model_version)
       (\<lambda>migrate_model.
     migrate_pipeline env config_data source_model migrate_model local_role local_party_id))))"

text \<open>
  The message of a returned triple: a text, or \<^verbatim>\<open>str(e)\<close> of the exception caught.
\<close>

datatype message = Text string | StrOf exn

text \<open>
  \<^verbatim>\<open>migration\<close>: an exception of the five reads before the \<^verbatim>\<open>try\<close> leaves the
  function (\<open>Inl\<close>); everything after them is inside the \<^verbatim>\<open>try\<close>, whose handler logs
  the exception and returns the triple \<^verbatim>\<open>100, str(e), {}\<close>.
\<close>

definition migration :: "env \<Rightarrow> pydict \<Rightarrow> (int \<times> message \<times> pydict) action" where
  "migration env config_data w =
     (case read_identity config_data of
        Inl e \<Rightarrow> (Inl e, w)
      | Inr (model_id, model_version, local_role, local_party_id, unify_model_version) \<Rightarrow>
          (case migration_try env config_data model_id model_version local_role local_party_id
                  unify_model_version w of
             (Inr (msg, data), w') \<Rightarrow> (Inr (0, Text msg, data), w')
           | (Inl e, w') \<Rightarrow> (Inr (100, StrOf e, []), w' @ [LogException e])))"


section \<open>Predicates of the statements\<close>

text \<open>
  Two role tables agree up to the order of their keys and the order and the repetitions
  of the party ids of each role.
\<close>

fun same_parties :: "pyval option \<Rightarrow> pyval option \<Rightarrow> bool" where
  "same_parties (Some (VList xs)) (Some (VList ys)) = (set xs = set ys)"
| "same_parties a b = False"

definition roles_equiv :: "pydict \<Rightarrow> pydict \<Rightarrow> bool" where
  "roles_equiv d1 d2 =
     (distinct (map fst d1) \<and> distinct (map fst d2) \<and> set (map fst d1) = set (map fst d2)
      \<and> list_all (\<lambda>k. same_parties (map_of d1 k) (map_of d2 k)) (map fst d1))"

text \<open>The value of a role is a list; the items of that list (none when it is no list).\<close>

definition role_is_list :: "pydict \<Rightarrow> string \<Rightarrow> bool" where
  "role_is_list d k = (case map_of d k of Some (VList xs) \<Rightarrow> True | _ \<Rightarrow> False)"

definition role_items :: "pydict \<Rightarrow> string \<Rightarrow> pyval list" where
  "role_items d k = (case map_of d k of Some (VList xs) \<Rightarrow> xs | _ \<Rightarrow> [])"

definition all_lists :: "pydict \<Rightarrow> bool" where
  "all_lists d = list_all (role_is_list d) (map fst d)"

definition same_lengths :: "pydict \<Rightarrow> pydict \<Rightarrow> bool" where
  "same_lengths req run =
     list_all (\<lambda>k. length (role_items req k) = length (role_items run k)) (map fst req)"

definition same_str_sets :: "pydict \<Rightarrow> pydict \<Rightarrow> bool" where
  "same_str_sets req run =
     list_all (\<lambda>k. set (map py_str (role_items req k)) = set (map py_str (role_items run k)))
       (map fst req)"



text \<open>
  The keywords of a call of \<^verbatim>\<open>query_model_info\<close> that are left after \<^verbatim>\<open>file_only\<close> and
  \<^verbatim>\<open>query_filters\<close> are taken out.
\<close>

definition query_kwargs :: "pydict \<Rightarrow> pydict" where
  "query_kwargs kwargs = dict_pop (dict_pop kwargs ''file_only'') ''query_filters''"

text \<open>
  Every collaborator of \<^verbatim>\<open>migration\<close> that touches a store answers without raising,
  whatever happened before.
\<close>

definition collaborators_succeed :: "env \<Rightarrow> bool" where
  "collaborators_succeed env \<longleftrightarrow>
     (ENABLE_MODEL_STORE env \<longrightarrow>
        (\<forall>w key. \<not> isl (remote_exists env w key)) \<and> (\<forall>w key. download env w key = None))
     \<and> (\<forall>model_id model_version. pm_init env model_id model_version = None)
     \<and> (\<forall>w m. get_model_migrate_tool env w m = None)
     \<and> (\<forall>w m. \<not> isl (get_define_meta_from_db env w m))
     \<and> (\<forall>w m name alias. \<not> isl (read_component_model env w m name alias))
     \<and> (\<forall>buffer module og ng oh nh oa na. \<not> isl (model_migration env buffer module og ng oh nh oa na))
     \<and> (\<forall>w m name module alias buffer params.
           save_component_model env w m name module alias buffer params = None)
     \<and> (\<forall>w m. \<not> isl (read_pipeline_model env w m))
     \<and> (\<forall>w m p. save_pipeline_model env w m p = None)
     \<and> (\<forall>w m. gen_model_import_config env w m = None)
     \<and> (\<forall>w m role party_id. gather_and_save_model_info env w m role party_id = None)
     \<and> (\<forall>w m. packaging_model env w m = None)
     \<and> (\<forall>w m. \<not> isl (archive_abspath env w m))"

text \<open>
  What \<^verbatim>\<open>migration\<close> needs of \<^verbatim>\<open>JobRuntimeConfigAdapter\<close>: updating the model id and
  version with truthy values leaves the role and the initiator of the configuration as
  they are, and the common parameters then hold the new model id and version.
\<close>

definition adapter_contract :: "env \<Rightarrow> bool" where
  "adapter_contract env \<longleftrightarrow>
     (\<forall>conf model_id model_version conf' adapter.
        update_model_id_version env conf model_id model_version = Inr (conf', adapter)
        \<and> truthy model_id \<and> truthy model_version \<longrightarrow>
          py_getitem conf' ''role'' = py_getitem conf ''role''
          \<and> py_getitem conf' ''initiator'' = py_getitem conf ''initiator''
          \<and> (\<forall>cp. common_parameters env adapter = Inr cp \<longrightarrow>
                 dict_get cp ''model_id'' VNone = model_id
                 \<and> dict_get cp ''model_version'' VNone = model_version))"

text \<open>The calls that write a component model or a pipeline blob.\<close>

fun is_save :: "event \<Rightarrow> bool" where
  "is_save (SaveComponentModel m name module alias buffer params) = True"
| "is_save (SavePipelineModel m p) = True"
| "is_save ev = False"

text \<open>The four calls that follow the component models of a migration.\<close>

definition closing_calls :: "pmodel \<Rightarrow> pipeline \<Rightarrow> pyval \<Rightarrow> pyval \<Rightarrow> event list" where
  "closing_calls migrate_model blob local_role local_party_id =
     [SavePipelineModel migrate_model blob, GenModelImportConfig migrate_model,
      GatherAndSaveModelInfo migrate_model local_role local_party_id,
      PackagingModel migrate_model]"


text \<open>
  A role table as \<^verbatim>\<open>migration\<close> expects it: the value of every role is a list of party
  ids, all of them integers or all of them strings.
\<close>

definition party_list :: "pyval \<Rightarrow> bool" where
  "party_list v = (case v of VList xs \<Rightarrow> list_all is_VInt xs \<or> list_all is_VStr xs | _ \<Rightarrow> False)"

definition party_table :: "pydict \<Rightarrow> bool" where
  "party_table role = list_all (\<lambda>kv. party_list (snd kv)) role"

text \<open>
  The codec, the adapter and the comparison of versions answer without raising, and the
  runtime configuration that a stored pipeline blob holds is a JSON object.
\<close>

definition codec_and_adapter_succeed :: "env \<Rightarrow> bool" where
  "codec_and_adapter_succeed env \<longleftrightarrow>
     (\<forall>w m p. read_pipeline_model env w m = Inr p \<longrightarrow>
        (\<exists>d. json_loads env (pb_bytes p ''train_runtime_conf'') = Inr (VDict d)))
     \<and> (\<forall>d model_id model_version. \<exists>conf adapter cp.
           update_model_id_version env (VDict d) model_id model_version = Inr (conf, adapter)
           \<and> common_parameters env adapter = Inr cp)
     \<and> (\<forall>v. \<not> isl (json_dumps env v))
     \<and> (\<forall>a b. \<not> isl (compare_version env a b))"

section \<open>A concrete deployment\<close>

text \<open>
  One environment and one configuration on which the functions can be evaluated: a guest
  party 9999 with a model trained with host 10000, one component model, and a pipeline
  blob of FATE 1.5.1. \<open>registered\<close> are the keys the relational store holds; the
  adapter keeps model id and version under \<^verbatim>\<open>job_parameters\<close>.
\<close>

definition example_pipeline :: pipeline where
  "example_pipeline =
     [(''train_runtime_conf'', PBytes ''{}''),
      (''model_id'', PBytes ''guest-9999#host-10000#model''),
      (''model_version'', PBytes ''v1''),
      (''fate_version'', PVal (VStr ''1.5.1'')),
      (''initiator_role'', PVal (VStr ''guest'')),
      (''initiator_party_id'', PVal (VInt 9999))]"

definition example_component :: component_meta where
  "example_component =
     \<lparr> f_component_name = VStr ''hetero_lr_0'', f_component_module_name = VStr ''HeteroLR'',
       f_model_alias = VStr ''model'', f_run_parameters = VDict [] \<rparr>"

definition example_adapter_update :: "pyval \<Rightarrow> pyval \<Rightarrow> pyval \<Rightarrow> exn + pyval \<times> pyval" where
  "example_adapter_update conf model_id model_version =
     and_then (py_setitem conf ''job_parameters''
                 (VDict [(''model_id'', model_id), (''model_version'', model_version)]))
       (\<lambda>c. Inr (c, c))"

definition example_adapter_parameters :: "pyval \<Rightarrow> exn + pydict" where
  "example_adapter_parameters adapter =
     and_then (py_getitem adapter ''job_parameters'')
       (\<lambda>jp. case jp of VDict d \<Rightarrow> Inr d | _ \<Rightarrow> Inl TypeError)"

text \<open>The example codec writes a value as \<^verbatim>\<open>repr\<close> does.\<close>

definition example_dumps :: "pyval \<Rightarrow> string" where
  "example_dumps v = py_repr v"

definition example_env :: "model_key list \<Rightarrow> env" where
  "example_env registered =
     \<lparr> ENABLE_MODEL_STORE = False,
       remote_exists = (\<lambda>w key. Inr False),
       download = (\<lambda>w key. None),
       upload = (\<lambda>w key. None),
       pm_init = (\<lambda>model_id model_version. None),
       pm_exists = (\<lambda>w m. Inr True),
       get_or_none = (\<lambda>w key. Inr (key \<in> set registered)),
       get_model_migrate_tool = (\<lambda>w m. None),
       model_migration = (\<lambda>buffer module og ng oh nh oa na. Inr (VList [buffer, ng, nh])),
       get_define_meta_from_db = (\<lambda>w m. Inr [example_component]),
       read_component_model = (\<lambda>w m name alias. Inr (VStr ''weights'')),
       save_component_model = (\<lambda>w m name module alias buffer params. None),
       read_pipeline_model = (\<lambda>w m. Inr example_pipeline),
       save_pipeline_model = (\<lambda>w m p. None),
       gen_model_import_config = (\<lambda>w m. None),
       gather_and_save_model_info = (\<lambda>w m role party_id. None),
       packaging_model = (\<lambda>w m. None),
       archive_abspath = (\<lambda>w m. Inr ''/data/model.zip''),
       json_loads = (\<lambda>b. Inr (if b = ''{}'' then VDict [] else VStr b)),
       json_dumps = (\<lambda>v. Inr (example_dumps v)),
       update_model_id_version = example_adapter_update,
       common_parameters = example_adapter_parameters,
       compare_version = (\<lambda>a b. Inr (VStr (if a = b then ''eq'' else ''gt''))),
       has_field = (\<lambda>k. k \<in> set [''f_role'', ''f_party_id'', ''f_model_id'', ''f_model_version'',
                                   ''f_job_id'', ''f_size'']),
       select_models = (\<lambda>w filters conditions. Inr []),
       model_local_cache = ''/data/model_local_cache'',
       glob = (\<lambda>w pattern. [''/data/model_local_cache/guest#9999#guest-9999#host-10000#model/v1'']),
       calculate_model_file_size = (\<lambda>w m. Inr (VInt 1024)),
       current_timestamp = (\<lambda>w. VInt 0),
       model_save = (\<lambda>w m. Inr 1),
       register_model = (\<lambda>w party_model_id model_version. None) \<rparr>"

definition example_config :: "string \<Rightarrow> int \<Rightarrow> pyval \<Rightarrow> pydict" where
  "example_config unify_model_version migrate_party_id migrate_role =
     [(''model_id'', VStr ''guest-9999#host-10000#model''),
      (''model_version'', VStr ''v1''),
      (''local'', VDict [(''role'', VStr ''guest''), (''party_id'', VInt 9999),
                         (''migrate_party_id'', VInt migrate_party_id)]),
      (''unify_model_version'', VStr unify_model_version),
      (''role'', VDict [(''guest'', VList [VInt 9999]), (''host'', VList [VInt 10000])]),
      (''migrate_role'', migrate_role),
      (''migrate_initiator'', VDict [(''role'', VStr ''guest''), (''party_id'', VInt migrate_party_id)])]"

definition example_migrate_role :: pyval where
  "example_migrate_role = VDict [(''guest'', VList [VInt 99]), (''host'', VList [VInt 100])]"

definition example_role :: pyval where
  "example_role = VDict [(''guest'', VList [VInt 9999]), (''host'', VList [VInt 10000])]"

text \<open>The model the example file store holds, its path and the info gathered from it.\<close>

definition example_fp :: string where
  "example_fp = ''/data/model_local_cache/guest#9999#guest-9999#host-10000#model/v1''"

definition example_model :: pmodel where
  "example_model = PipelinedModel (VStr ''guest#9999#guest-9999#host-10000#model'') (VStr ''v1'')"

definition example_model_info :: pydict where
  "example_model_info =
     [(''f_train_runtime_conf'', VDict []),
      (''f_model_id'', VStr ''guest-9999#host-10000#model''),
      (''f_model_version'', VStr ''v1''),
      (''f_fate_version'', VStr ''1.5.1''),
      (''f_initiator_role'', VStr ''guest''),
      (''f_initiator_party_id'', VInt 9999),
      (''f_job_id'', VStr ''v1''),
      (''f_role'', VStr ''guest''),
      (''f_party_id'', VStr ''9999''),
      (''f_runtime_conf'', VDict []),
      (''f_size'', VInt 1024)]"


text \<open>The keywords of a query for the model of version \<^verbatim>\<open>v1\<close> of the guest.\<close>

definition example_kwargs :: pydict where
  "example_kwargs = [(''model_version'', VStr ''v1''), (''role'', VStr ''guest'')]"


text \<open>
  What the example migration leaves: the configuration the adapter returns, the pipeline
  blob, the message, and the calls made.
\<close>

definition example_new_conf :: "pyval \<Rightarrow> int \<Rightarrow> string \<Rightarrow> string \<Rightarrow> pyval" where
  "example_new_conf role party_id model_id model_version =
     VDict [(''role'', role),
            (''initiator'', VDict [(''role'', VStr ''guest''), (''party_id'', VInt party_id)]),
            (''job_parameters'', VDict [(''model_id'', VStr model_id),
                                        (''model_version'', VStr model_version)])]"

definition example_blob :: "pyval \<Rightarrow> int \<Rightarrow> string \<Rightarrow> string \<Rightarrow> pipeline" where
  "example_blob role party_id model_id model_version =
     [(''train_runtime_conf'', PBytes (example_dumps (example_new_conf role party_id model_id model_version))),
      (''model_id'', PBytes model_id),
      (''model_version'', PBytes model_version),
      (''fate_version'', PVal (VStr ''1.5.1'')),
      (''initiator_role'', PVal (VStr ''guest'')),
      (''initiator_party_id'', PVal (VInt party_id))]"

definition example_message :: "string \<Rightarrow> string \<Rightarrow> string" where
  "example_message model_id model_version =
     ''Migrating model successfully. ''
     @ ''The configuration of model has been modified automatically. ''
     @ ''New model id is: '' @ model_id @ '', model version is: '' @ model_version @ ''. ''
     @ ''Model files can be found at '' @ [CHR 0x27] @ ''/data/model.zip'' @ [CHR 0x27] @ ''.''"

definition example_trace :: "pmodel \<Rightarrow> pyval \<Rightarrow> pyval \<Rightarrow> pipeline \<Rightarrow> event list" where
  "example_trace migrate_model new_guest_list new_host_list blob =
     SaveComponentModel migrate_model (VStr ''hetero_lr_0'') (VStr ''HeteroLR'') (VStr ''model'')
       (VList [VStr ''weights'', new_guest_list, new_host_list]) (VDict [])
     # closing_calls migrate_model blob (VStr ''guest'') (VInt 9999)"

text \<open>
  A configuration whose \<^verbatim>\<open>role\<close> is the \<^verbatim>\<open>migrate_role\<close> given, and a role table with
  the guest alone.
\<close>

definition example_same_roles_config :: "string \<Rightarrow> int \<Rightarrow> pyval \<Rightarrow> pydict" where
  "example_same_roles_config unify_model_version migrate_party_id role =
     dict_setitem (example_config unify_model_version migrate_party_id role) ''role'' role"

definition example_guest_only :: pyval where
  "example_guest_only = VDict [(''guest'', VList [VInt 9999])]"

section \<open>Evaluation and sequencing lemmas\<close>

lemmas eval_simps = str_int_def str_nat.simps digit_char_def py_str_def

lemmas compare_eval = compare_roles_def compare_step_def dict_getitem_def str_set_def

lemma then_do_ret: "then_do (ret a) f w = f a w"
  by (simp add: then_do_def ret_def)

lemma then_do_raise: "then_do (raise e) f w = (Inl e, w)"
  by (simp add: then_do_def raise_def)

lemma then_do_pure: "then_do (pure r) f w = (case r of Inl e \<Rightarrow> (Inl e, w) | Inr a \<Rightarrow> f a w)"
  by (simp add: then_do_def pure_def split: sum.splits)

lemma then_do_ask: "then_do (ask g) f w = (case g w of Inl e \<Rightarrow> (Inl e, w) | Inr a \<Rightarrow> f a w)"
  by (simp add: then_do_def ask_def split: sum.splits)

lemma then_do_call:
  "then_do (call ev g) f w = (case g w of None \<Rightarrow> f () (w @ [ev]) | Some e \<Rightarrow> (Inl e, w @ [ev]))"
  by (simp add: then_do_def call_def split: option.splits)

lemma then_do_if: "then_do (if c then m else n) f w = (if c then then_do m f w else then_do n f w)"
  by simp

lemma then_do_Inr:
  "then_do m f w = (Inr b, w') \<longleftrightarrow> (\<exists>a w1. m w = (Inr a, w1) \<and> f a w1 = (Inr b, w'))"
  by (auto simp: then_do_def split: prod.splits sum.splits)

lemma then_do_Inl:
  "then_do m f w = (Inl e, w') \<longleftrightarrow>
     m w = (Inl e, w') \<or> (\<exists>a w1. m w = (Inr a, w1) \<and> f a w1 = (Inl e, w'))"
  by (auto simp: then_do_def split: prod.splits sum.splits)

lemma and_then_Inr: "and_then r f = Inr b \<longleftrightarrow> (\<exists>a. r = Inr a \<and> f a = Inr b)"
  by (cases r) (simp_all add: and_then_def)

lemma and_then_simps: "and_then (Inr a) f = f a" "and_then (Inl e) f = Inl e"
  by (simp_all add: and_then_def)

lemma then_do_step: "m w = (Inr a, w1) \<Longrightarrow> then_do m f w = f a w1"
  by (simp add: then_do_def)

lemma then_do_fail: "m w = (Inl e, w1) \<Longrightarrow> then_do m f w = (Inl e, w1)"
  by (simp add: then_do_def)


lemmas action_simps = then_do_ret then_do_raise then_do_pure then_do_ask then_do_call

lemma example_env_simps:
  "ENABLE_MODEL_STORE (example_env registered) = False"
  "remote_exists (example_env registered) = (\<lambda>w key. Inr False)"
  "download (example_env registered) = (\<lambda>w key. None)"
  "upload (example_env registered) = (\<lambda>w key. None)"
  "pm_init (example_env registered) = (\<lambda>model_id model_version. None)"
  "pm_exists (example_env registered) = (\<lambda>w m. Inr True)"
  "get_or_none (example_env registered) = (\<lambda>w key. Inr (key \<in> set registered))"
  "get_model_migrate_tool (example_env registered) = (\<lambda>w m. None)"
  "model_migration (example_env registered) = (\<lambda>buffer module og ng oh nh oa na. Inr (VList [buffer, ng, nh]))"
  "get_define_meta_from_db (example_env registered) = (\<lambda>w m. Inr [example_component])"
  "read_component_model (example_env registered) = (\<lambda>w m name alias. Inr (VStr ''weights''))"
  "save_component_model (example_env registered) = (\<lambda>w m name module alias buffer params. None)"
  "read_pipeline_model (example_env registered) = (\<lambda>w m. Inr example_pipeline)"
  "save_pipeline_model (example_env registered) = (\<lambda>w m p. None)"
  "gen_model_import_config (example_env registered) = (\<lambda>w m. None)"
  "gather_and_save_model_info (example_env registered) = (\<lambda>w m role party_id. None)"
  "packaging_model (example_env registered) = (\<lambda>w m. None)"
  "archive_abspath (example_env registered) = (\<lambda>w m. Inr ''/data/model.zip'')"
  "json_loads (example_env registered) = (\<lambda>b. Inr (if b = ''{}'' then VDict [] else VStr b))"
  "json_dumps (example_env registered) = (\<lambda>v. Inr (example_dumps v))"
  "update_model_id_version (example_env registered) = example_adapter_update"
  "common_parameters (example_env registered) = example_adapter_parameters"
  "compare_version (example_env registered) = (\<lambda>a b. Inr (VStr (if a = b then ''eq'' else ''gt'')))"
  "has_field (example_env registered) = (\<lambda>k. k \<in> set [''f_role'', ''f_party_id'', ''f_model_id'', ''f_model_version'', ''f_job_id'', ''f_size''])"
  "select_models (example_env registered) = (\<lambda>w filters conditions. Inr [])"
  "model_local_cache (example_env registered) = ''/data/model_local_cache''"
  "glob (example_env registered) = (\<lambda>w pattern. [''/data/model_local_cache/guest#9999#guest-9999#host-10000#model/v1''])"
  "calculate_model_file_size (example_env registered) = (\<lambda>w m. Inr (VInt 1024))"
  "current_timestamp (example_env registered) = (\<lambda>w. VInt 0)"
  "model_save (example_env registered) = (\<lambda>w m. Inr 1)"
  "register_model (example_env registered) = (\<lambda>w party_model_id model_version. None)"
  by (simp_all add: example_env_def)

lemma example_parse_fp:
  "parse_fp example_fp = Inr (''guest#9999#guest-9999#host-10000#model'', ''guest'', ''9999'',
      ''guest-9999#host-10000#model'', ''v1'')"
  by (simp add: example_fp_def parse_fp_def py_rsplit_def numeral_2_eq_2)

lemma example_gather_gen:
  assumes "read_pipeline_model e = (\<lambda>w m. Inr example_pipeline)"
    and "json_loads e = (\<lambda>b. Inr (if b = ''{}'' then VDict [] else VStr b))"
    and "calculate_model_file_size e = (\<lambda>w m. Inr (VInt 1024))"
    and "compare_version e = (\<lambda>a b. Inr (VStr (if a = b then ''eq'' else ''gt'')))"
  shows "gather_model_info_data e example_model (VStr ''guest'') (VStr ''9999'') [] w
           = (Inr example_model_info, w)"
  by (simp add: gather_model_info_data_def assms example_model_def example_pipeline_def
      action_simps dict_update_def dict_getitem_def and_then_def example_model_info_def Let_def ret_def)

lemma example_gather:
  "gather_model_info_data (example_env reg) example_model (VStr ''guest'') (VStr ''9999'') [] w
     = (Inr example_model_info, w)"
  "gather_model_info_data (example_env reg\<lparr>model_save := sv\<rparr>) example_model
     (VStr ''guest'') (VStr ''9999'') [] w = (Inr example_model_info, w)"
  by (rule example_gather_gen; simp add: example_env_simps)+



section \<open>Model identifiers do not depend on the order of roles and parties\<close>

lemma sorted_set_cong:
  assumes "set xs = set ys"
  shows "sorted_set (VList xs) = sorted_set (VList ys)"
proof -
  have a: "list_all P xs = list_all P ys" for P :: "pyval \<Rightarrow> bool"
    using assms by (simp add: list_all_iff)
  have b: "sort (remdups (map f xs)) = sort (remdups (map f ys))" for f :: "pyval \<Rightarrow> 'b::linorder"
  proof -
    have "set (map f xs) = set (map f ys)" using assms by simp
    then show ?thesis
      by (metis sorted_list_of_set_sort_remdups)
  qed
  show ?thesis
    unfolding sorted_set_def by (simp add: a b)
qed

lemma role_party_key_cong:
  assumes "same_parties (map_of d1 k) (map_of d2 k)"
  shows "role_party_key d1 k = role_party_key d2 k"
proof -
  from assms obtain xs ys where m: "map_of d1 k = Some (VList xs)" "map_of d2 k = Some (VList ys)"
    and s: "set xs = set ys"
    by (cases "(map_of d1 k, map_of d2 k)" rule: same_parties.cases) auto
  show ?thesis
    using sorted_set_cong[OF s] by (simp add: role_party_key_def dict_getitem_def m)
qed

lemma sort_keys_eq:
  assumes "distinct xs" "distinct ys" "set xs = set ys"
  shows "sort xs = sort (ys :: string list)"
  using assms by (metis distinct_remdups_id sorted_list_of_set_sort_remdups)

lemma all_party_key_cong:
  assumes "roles_equiv d1 d2"
  shows "all_party_key (VDict d1) = all_party_key (VDict d2)"
proof -
  have k: "sort (map fst d1) = sort (map fst d2)"
    using assms by (intro sort_keys_eq) (auto simp: roles_equiv_def)
  have e: "d1 = [] \<longleftrightarrow> d2 = []"
    using assms by (auto simp: roles_equiv_def)
  have "list_all (\<lambda>k. same_parties (map_of d1 k) (map_of d2 k)) (map fst d1)"
    using assms by (simp add: roles_equiv_def)
  then have "\<forall>k\<in>set (map fst d1). role_party_key d1 k = role_party_key d2 k"
    unfolding list_all_iff by (blast intro: role_party_key_cong)
  then have "map (role_party_key d1) (sort (map fst d1)) = map (role_party_key d2) (sort (map fst d1))"
    by (intro map_cong) auto
  then have m: "collect (map (role_party_key d1) (sort (map fst d1)))
                  = collect (map (role_party_key d2) (sort (map fst d2)))"
    by (simp only: k)
  show ?thesis
    using e by (simp add: all_party_key_def m)
qed

text \<open>
  Claim C10. Two role dictionaries that are equal up to the order of the role keys and the
  order and the repetitions of the party ids in each role's list get the same party key
  and the same model id from \<^verbatim>\<open>gen_model_id\<close>; \<^verbatim>\<open>all_party_key\<close> returns
  \<^verbatim>\<open>'all'\<close> for a falsy input and \<^verbatim>\<open>None\<close> for a truthy input that is no dictionary.
  (The party ids are deduplicated and sorted as values, then turned into strings.)
\<close>

theorem gen_model_id_order_invariant:
  "(roles_equiv d1 d2 \<longrightarrow>
      all_party_key (VDict d1) = all_party_key (VDict d2)
      \<and> gen_model_id (VDict d1) = gen_model_id (VDict d2))
   \<and> (\<not> truthy v \<longrightarrow> all_party_key v = Inr (VStr ''all''))
   \<and> (truthy v \<and> \<not> is_VDict v \<longrightarrow> all_party_key v = Inr VNone)"
proof (intro conjI impI)
  assume "roles_equiv d1 d2"
  then show "all_party_key (VDict d1) = all_party_key (VDict d2)" by (rule all_party_key_cong)
  then show "gen_model_id (VDict d1) = gen_model_id (VDict d2)" by (simp add: gen_model_id_def)
next
  assume "\<not> truthy v" then show "all_party_key v = Inr (VStr ''all'')"
    by (simp add: all_party_key_def)
next
  assume "truthy v \<and> \<not> is_VDict v" then show "all_party_key v = Inr VNone"
    by (cases v) (simp_all add: all_party_key_def)
qed

theorem gen_model_id_order_invariant_witness:
  "roles_equiv [(''host'', VList [VInt 10000, VInt 9]), (''guest'', VList [VInt 9999, VInt 9999])]
               [(''guest'', VList [VInt 9999]), (''host'', VList [VInt 9, VInt 10000, VInt 9])]
   \<and> gen_model_id (VDict [(''host'', VList [VInt 10000, VInt 9]), (''guest'', VList [VInt 9999, VInt 9999])])
       = Inr (VStr ''guest-9999#host-9_10000#model'')
   \<and> gen_model_id (VDict [(''guest'', VList [VInt 9999]), (''host'', VList [VInt 9, VInt 10000, VInt 9])])
       = Inr (VStr ''guest-9999#host-9_10000#model'')
   \<and> \<not> truthy (VList []) \<and> all_party_key (VList []) = Inr (VStr ''all'')
   \<and> truthy (VInt 7) \<and> \<not> is_VDict (VInt 7) \<and> all_party_key (VInt 7) = Inr VNone"
proof -
  let ?d1 = "[(''host'', VList [VInt 10000, VInt 9]), (''guest'', VList [VInt 9999, VInt 9999])]"
  let ?d2 = "[(''guest'', VList [VInt 9999]), (''host'', VList [VInt 9, VInt 10000, VInt 9])]"
  have r: "roles_equiv ?d1 ?d2"
    by (simp add: roles_equiv_def) auto
  have g: "gen_model_id (VDict ?d2) = Inr (VStr ''guest-9999#host-9_10000#model'')"
    by (simp add: gen_model_id_def all_party_key_def role_party_key_def dict_getitem_def
        sorted_set_def hashable_def str_join_def eval_simps)
  from gen_model_id_order_invariant[of ?d1 ?d2 "VList []"] r
  have 1: "gen_model_id (VDict ?d1) = gen_model_id (VDict ?d2)"
    and 2: "all_party_key (VList []) = Inr (VStr ''all'')" by simp_all
  from gen_model_id_order_invariant[of ?d1 ?d2 "VInt 7"]
  have 3: "all_party_key (VInt 7) = Inr VNone" by simp
  show ?thesis using r g 1 2 3 by simp
qed


section \<open>\<^verbatim>\<open>compare_roles\<close>\<close>

lemma compare_step_lists:
  assumes "role_is_list req k" "role_is_list run k"
  shows "compare_step req run k (vf, ve) =
           Inr (vf \<and> length (role_items req k) = length (role_items run k),
                ve \<and> set (map py_str (role_items req k)) = set (map py_str (role_items run k)))"
proof -
  from assms obtain xs ys where "map_of req k = Some (VList xs)" "map_of run k = Some (VList ys)"
    by (auto simp: role_is_list_def split: option.splits pyval.splits)
  then show ?thesis
    by (simp add: compare_step_def dict_getitem_def str_set_def role_items_def)
qed

lemma compare_loop_lists:
  assumes "list_all (role_is_list req) ks" "list_all (role_is_list run) ks"
  shows "compare_loop req run ks (vf, ve) =
           Inr (vf \<and> list_all (\<lambda>k. length (role_items req k) = length (role_items run k)) ks,
                ve \<and> list_all (\<lambda>k. set (map py_str (role_items req k))
                                     = set (map py_str (role_items run k))) ks)"
  using assms
proof (induction ks arbitrary: vf ve)
  case Nil
  then show ?case by simp
next
  case (Cons k ks)
  then show ?case
    by (auto simp: compare_step_lists)
qed

lemma compare_step_False:
  "compare_step req run k (False, ve) = Inr st \<Longrightarrow> \<not> fst st"
  by (auto simp: compare_step_def split: sum.splits)

lemma compare_loop_False:
  "compare_loop req run ks (False, ve) = Inr st \<Longrightarrow> \<not> fst st"
proof (induction ks arbitrary: ve st)
  case Nil
  then show ?case by auto
next
  case (Cons k ks)
  from Cons.prems obtain st' where s: "compare_step req run k (False, ve) = Inr st'"
    and l: "compare_loop req run ks st' = Inr st"
    by (auto split: sum.splits)
  from compare_step_False[OF s] have "st' = (False, snd st')" by (cases st') simp
  with l Cons.IH show ?case by metis
qed

lemma compare_step_not_list:
  assumes "\<not> role_is_list req k" "compare_step req run k (vf, ve) = Inr st"
  shows "\<not> fst st"
proof (cases vf)
  case False
  with assms(2) have "compare_step req run k (False, ve) = Inr st" by simp
  then show ?thesis by (rule compare_step_False)
next
  case True
  from assms(2) obtain r t where r: "map_of req k = Some r" and t: "map_of run k = Some t"
    by (auto simp: compare_step_def dict_getitem_def and_then_def split: option.splits sum.splits)
  from assms(1) r have nl: "\<not> is_VList r"
    by (cases r) (auto simp: role_is_list_def)
  show ?thesis
    using assms(2) r t nl True
    by (auto simp: compare_step_def dict_getitem_def split: sum.splits)
qed

lemma compare_loop_not_list:
  assumes "\<not> list_all (role_is_list req) ks" "compare_loop req run ks (vf, ve) = Inr st"
  shows "\<not> fst st"
  using assms
proof (induction ks arbitrary: vf ve)
  case Nil
  then show ?case by simp
next
  case (Cons k ks)
  from Cons.prems(2) obtain st' where s: "compare_step req run k (vf, ve) = Inr st'"
    and l: "compare_loop req run ks st' = Inr st"
    by (auto split: sum.splits)
  show ?case
  proof (cases "role_is_list req k")
    case False
    from compare_step_not_list[OF False s] have "st' = (False, snd st')" by (cases st') simp
    with l show ?thesis using compare_loop_False by metis
  next
    case True
    with Cons.prems(1) have "\<not> list_all (role_is_list req) ks" by simp
    from Cons.IH[OF this, of "fst st'" "snd st'"] l show ?thesis by simp
  qed
qed

text \<open>
  Claim C3, as amended. \<^verbatim>\<open>compare_roles\<close> raises when the key sets differ, and when
  the key sets are equal and the request's value of some role is not a list. When the key
  sets are equal and every value of both dictionaries is a list, it raises if the lengths
  of the two lists of some role differ, and otherwise raises nothing and returns whether,
  for every role, the two lists have the same set of stringified items: \<^verbatim>\<open>True\<close> or
  \<^verbatim>\<open>False\<close>.
\<close>

theorem compare_roles_amended:
  "(set (map fst req) \<noteq> set (map fst run) \<longrightarrow> compare_roles req run = Inl roles_mismatch)
   \<and> (set (map fst req) = set (map fst run) \<and> \<not> all_lists req \<longrightarrow> isl (compare_roles req run))
   \<and> (set (map fst req) = set (map fst run) \<and> all_lists req \<and> all_lists run \<longrightarrow>
        compare_roles req run =
          (if same_lengths req run then Inr (same_str_sets req run) else Inl roles_mismatch))"
proof (intro conjI impI)
  assume "set (map fst req) \<noteq> set (map fst run)"
  then show "compare_roles req run = Inl roles_mismatch"
    by (simp add: compare_roles_def)
next
  assume a: "set (map fst req) = set (map fst run) \<and> \<not> all_lists req"
  then have n: "\<not> list_all (role_is_list req) (map fst req)" by (simp add: all_lists_def)
  show "isl (compare_roles req run)"
  proof (cases "compare_loop req run (map fst req) (True, True)")
    case (Inl e)
    with a show ?thesis by (simp add: compare_roles_def)
  next
    case (Inr st)
    from compare_loop_not_list[OF n Inr] a Inr show ?thesis
      by (simp add: compare_roles_def)
  qed
next
  assume a: "set (map fst req) = set (map fst run) \<and> all_lists req \<and> all_lists run"
  then have 1: "list_all (role_is_list req) (map fst req)" by (simp add: all_lists_def)
  from a have "list_all (role_is_list run) (map fst run)" by (simp add: all_lists_def)
  with a have 2: "list_all (role_is_list run) (map fst req)"
    unfolding list_all_iff by simp
  show "compare_roles req run =
          (if same_lengths req run then Inr (same_str_sets req run) else Inl roles_mismatch)"
    using a by (simp add: compare_roles_def compare_loop_lists[OF 1 2] same_lengths_def same_str_sets_def)
qed

text \<open>
  Claim C3 as stated fails: with matching shapes and different party ids the function
  returns \<^verbatim>\<open>False\<close> and raises nothing; lists that differ as multisets but not as
  sets are equal for it; and a runtime value that is no list is accepted when the request's
  value is a list of the same length.
\<close>

theorem compare_roles_counterexample:
  "compare_roles [(''guest'', VList [VInt 9999])] [(''guest'', VList [VInt 10000])] = Inr False
   \<and> compare_roles [(''guest'', VList [VInt 1, VInt 1, VInt 2])]
                    [(''guest'', VList [VInt 1, VInt 2, VInt 2])] = Inr True
   \<and> compare_roles [(''guest'', VList [VStr ''a'', VStr ''b''])] [(''guest'', VStr ''ab'')] = Inr True"
  by (simp add: compare_eval eval_simps)

theorem compare_roles_amended_witness:
  "set (map fst [(''guest'', VList [VInt 1])]) \<noteq> set (map fst [(''host'', VList [VInt 1])])
   \<and> compare_roles [(''guest'', VList [VInt 1])] [(''host'', VList [VInt 1])] = Inl roles_mismatch
   \<and> \<not> all_lists [(''guest'', VStr ''ab'')]
   \<and> isl (compare_roles [(''guest'', VStr ''ab'')] [(''guest'', VStr ''ab'')])
   \<and> all_lists [(''guest'', VList [VInt 1, VInt 2])] \<and> all_lists [(''guest'', VList [VInt 3])]
   \<and> \<not> same_lengths [(''guest'', VList [VInt 1, VInt 2])] [(''guest'', VList [VInt 3])]
   \<and> compare_roles [(''guest'', VList [VInt 1, VInt 2])] [(''guest'', VList [VInt 3])] = Inl roles_mismatch
   \<and> same_lengths [(''guest'', VList [VInt 1, VInt 2])] [(''guest'', VList [VStr ''2'', VInt 1])]
   \<and> same_str_sets [(''guest'', VList [VInt 1, VInt 2])] [(''guest'', VList [VStr ''2'', VInt 1])]
   \<and> compare_roles [(''guest'', VList [VInt 1, VInt 2])] [(''guest'', VList [VStr ''2'', VInt 1])] = Inr True"
proof -
  have a: "all_lists [(''guest'', VList [VInt 1, VInt 2])]" "all_lists [(''guest'', VList [VInt 3])]"
    "all_lists [(''guest'', VList [VStr ''2'', VInt 1])]" "\<not> all_lists [(''guest'', VStr ''ab'')]"
    by (simp_all add: all_lists_def role_is_list_def)
  have l: "\<not> same_lengths [(''guest'', VList [VInt 1, VInt 2])] [(''guest'', VList [VInt 3])]"
    "same_lengths [(''guest'', VList [VInt 1, VInt 2])] [(''guest'', VList [VStr ''2'', VInt 1])]"
    by (simp_all add: same_lengths_def role_items_def)
  have i: "str_int 1 = ''1''" "str_int 2 = ''2''"
    by (simp_all add: str_int_def str_nat.simps digit_char_def)
  have s: "same_str_sets [(''guest'', VList [VInt 1, VInt 2])] [(''guest'', VList [VStr ''2'', VInt 1])]"
    by (simp add: same_str_sets_def role_items_def py_str_def i image_iff set_eq_iff
        conj_disj_distribR ex_disj_distrib) blast
  show ?thesis
    using a l s
      compare_roles_amended[of "[(''guest'', VList [VInt 1])]" "[(''host'', VList [VInt 1])]"]
      compare_roles_amended[of "[(''guest'', VStr ''ab'')]" "[(''guest'', VStr ''ab'')]"]
      compare_roles_amended[of "[(''guest'', VList [VInt 1, VInt 2])]" "[(''guest'', VList [VInt 3])]"]
      compare_roles_amended[of "[(''guest'', VList [VInt 1, VInt 2])]" "[(''guest'', VList [VStr ''2'', VInt 1])]"]
    by simp
qed


section \<open>The path of a model in the file store\<close>

lemma split_once_absent: "c \<notin> set s \<Longrightarrow> split_once c s = None"
  by (induction s) auto

lemma split_once_first: "c \<notin> set a \<Longrightarrow> split_once c (a @ c # b) = Some (a, b)"
  by (induction a) auto

lemma py_split_two:
  assumes "c \<notin> set a" "c \<notin> set b"
  shows "py_split c 2 (a @ c # b @ c # r) = [a, b, r]"
proof -
  have "py_split c (Suc (Suc 0)) (a @ c # (b @ c # r)) = [a, b, r]"
    using assms by (simp add: split_once_first)
  then show ?thesis by (simp add: numeral_2_eq_2)
qed

lemma py_rsplit_two:
  assumes "c \<notin> set a" "c \<notin> set b"
  shows "py_rsplit c 2 (r @ c # b @ c # a) = [r, b, a]"
proof -
  have "rev (r @ c # b @ c # a) = rev a @ c # rev b @ c # rev r" by simp
  moreover have "py_split c 2 (rev a @ c # rev b @ c # rev r) = [rev a, rev b, rev r]"
    using assms by (intro py_split_two) auto
  ultimately show ?thesis by (simp add: py_rsplit_def)
qed

text \<open>
  Claim C7. \<^verbatim>\<open>gen_party_model_id\<close> joins role, party id and model id with \<^verbatim>\<open>#\<close>;
  the path of a model is the cache root, the party model id and the model version joined
  with \<^verbatim>\<open>/\<close>; and the file-store query splits such a path back into the party model
  id, role, party id, model id and model version, when role and party id hold neither
  \<^verbatim>\<open>#\<close> nor \<^verbatim>\<open>/\<close> and model id and model version hold no \<^verbatim>\<open>/\<close>.
\<close>

theorem party_model_path_roundtrip:
  assumes "model_id \<noteq> []"
    and "CHR ''#'' \<notin> set role" and "CHR ''/'' \<notin> set role"
    and "CHR ''#'' \<notin> set (py_str party_id)" and "CHR ''/'' \<notin> set (py_str party_id)"
    and "CHR ''/'' \<notin> set model_id" and "CHR ''/'' \<notin> set model_version"
  shows "gen_party_model_id (VStr model_id) (VStr role) party_id
           = Inr (VStr (role @ ''#'' @ py_str party_id @ ''#'' @ model_id))
       \<and> model_path_pattern root (VStr role) party_id (VStr model_id) (VStr model_version)
           = root @ ''/'' @ (role @ ''#'' @ py_str party_id @ ''#'' @ model_id) @ ''/'' @ model_version
       \<and> parse_fp (model_path_pattern root (VStr role) party_id (VStr model_id) (VStr model_version))
           = Inr (role @ ''#'' @ py_str party_id @ ''#'' @ model_id,
                  role, py_str party_id, model_id, model_version)"
proof -
  let ?pmid = "role @ CHR ''#'' # py_str party_id @ CHR ''#'' # model_id"
  have g: "gen_party_model_id (VStr model_id) (VStr role) party_id = Inr (VStr ?pmid)"
    using assms(1) by (simp add: gen_party_model_id_def str_join_def)
  have p: "model_path_pattern root (VStr role) party_id (VStr model_id) (VStr model_version)
             = root @ CHR ''/'' # ?pmid @ CHR ''/'' # model_version"
    by (simp add: model_path_pattern_def py_str_def)
  have "CHR ''/'' \<notin> set ?pmid" using assms by auto
  then have r: "py_rsplit CHR ''/'' 2 (root @ CHR ''/'' # ?pmid @ CHR ''/'' # model_version)
                  = [root, ?pmid, model_version]"
    using assms(7) by (rule py_rsplit_two[where b = ?pmid and a = model_version and r = root, rotated])
  have s: "py_split CHR ''#'' 2 ?pmid = [role, py_str party_id, model_id]"
    using assms(2,4) by (rule py_split_two)
  show ?thesis
    using g p r s by (simp add: parse_fp_def)
qed

theorem party_model_path_roundtrip_witness:
  "gen_party_model_id (VStr ''guest-9999#host-10000#model'') (VStr ''guest'') (VInt 9999)
     = Inr (VStr ''guest#9999#guest-9999#host-10000#model'')
   \<and> model_path_pattern ''/data/model_local_cache'' (VStr ''guest'') (VInt 9999)
        (VStr ''guest-9999#host-10000#model'') (VStr ''v1'')
     = ''/data/model_local_cache/guest#9999#guest-9999#host-10000#model/v1''
   \<and> parse_fp ''/data/model_local_cache/guest#9999#guest-9999#host-10000#model/v1''
     = Inr (''guest#9999#guest-9999#host-10000#model'', ''guest'', ''9999'',
            ''guest-9999#host-10000#model'', ''v1'')"
proof -
  have s: "py_str (VInt 9999) = ''9999''"
    by (simp add: eval_simps)
  note t = party_model_path_roundtrip[of "''guest-9999#host-10000#model''" "''guest''" "VInt 9999"
      "''v1''" "''/data/model_local_cache''"]
  have a: "gen_party_model_id (VStr ''guest-9999#host-10000#model'') (VStr ''guest'') (VInt 9999)
             = Inr (VStr ''guest#9999#guest-9999#host-10000#model'')"
    using t by (simp add: s)
  have b: "model_path_pattern ''/data/model_local_cache'' (VStr ''guest'') (VInt 9999)
             (VStr ''guest-9999#host-10000#model'') (VStr ''v1'')
           = ''/data/model_local_cache/guest#9999#guest-9999#host-10000#model/v1''"
    using t by (simp add: s)
  have c: "parse_fp ''/data/model_local_cache/guest#9999#guest-9999#host-10000#model/v1''
        = Inr (''guest#9999#guest-9999#host-10000#model'', ''guest'', ''9999'',
               ''guest-9999#host-10000#model'', ''v1'')"
    using t by (simp add: model_path_pattern_def eval_simps)
  show ?thesis
    by (intro conjI a b c)
qed


section \<open>The query filters of the file-store query\<close>








section \<open>\<^verbatim>\<open>query_model_info\<close>: the relational store first\<close>

lemma query_model_info_from_db_eq:
  "query_model_info_from_db env (Some qf) kwargs w =
     (case select_models env w (db_filters env qf) (db_conditions env kwargs) of
        Inl e \<Rightarrow> (Inl e, w)
      | Inr models \<Rightarrow>
          if models = []
          then (Inr (100, ''Query model info failed, cannot find model from db.'', []), w)
          else (Inr (0, ''Query model info from db success.'', models), w))"
  by (simp add: query_model_info_from_db_def action_simps ret_def split: sum.splits)

lemma query_model_info_not_file_only:
  assumes "\<not> truthy (dict_get kwargs ''file_only'' VNone)"
    and "query_filters_arg (dict_pop kwargs ''file_only'') = Inr qf"
  shows "query_model_info env kwargs w =
     (case select_models env w (db_filters env qf) (db_conditions env (query_kwargs kwargs)) of
        Inl e \<Rightarrow> (Inl e, w)
      | Inr models \<Rightarrow>
          if models \<noteq> [] then (Inr (0, ''Query model info from db success.'', models), w)
          else (case call_from_file env (dict_pop (query_kwargs kwargs) ''save_to_db'') qf True w of
                  (Inl e, w') \<Rightarrow> (Inl e, w')
                | (Inr r, w') \<Rightarrow>
                    if fst r = 0 then (Inr r, w') else (Inr (100, both_miss_msg, []), w')))"
proof -
  let ?sel = "select_models env w (db_filters env qf) (db_conditions env (query_kwargs kwargs))"
  let ?db = "query_model_info_from_db env (Some qf) (query_kwargs kwargs)"
  let ?file = "call_from_file env (dict_pop (query_kwargs kwargs) ''save_to_db'') qf True"
  have q: "query_model_info env kwargs w =
      then_do (then_do ?db (\<lambda>r. if fst r = 0 then ret (Some r) else ret None))
        (\<lambda>from_db. case from_db of
            Some r \<Rightarrow> ret r
          | None \<Rightarrow> then_do ?file
              (\<lambda>r. if fst r = 0 then ret r else ret (100, both_miss_msg, []))) w"
    using assms unfolding query_kwargs_def
    by (simp add: query_model_info_def Let_def then_do_pure)
  show ?thesis
  proof (cases ?sel)
    case (Inl e)
    then have "?db w = (Inl e, w)" by (simp add: query_model_info_from_db_eq)
    then show ?thesis unfolding q using Inl by (simp add: then_do_def)
  next
    case (Inr models)
    show ?thesis
    proof (cases "models = []")
      case True
      with Inr have "?db w = (Inr (100, ''Query model info failed, cannot find model from db.'', []), w)"
        by (simp add: query_model_info_from_db_eq)
      then show ?thesis unfolding q using Inr True
        by (cases "?file w") (auto simp: then_do_def ret_def split: sum.splits)
    next
      case False
      with Inr have "?db w = (Inr (0, ''Query model info from db success.'', models), w)"
        by (simp add: query_model_info_from_db_eq)
      then show ?thesis unfolding q using Inr False
        by (simp add: then_do_def ret_def)
    qed
  qed
qed

lemma call_from_file_extra_keyword:
  assumes "(k, v) \<in> set kwargs"
    and "k \<notin> {''model_id'', ''model_version'', ''role'', ''party_id''}"
  shows "call_from_file env kwargs query_filters save_to_db w = (Inl TypeError, w)"
proof -
  from assms have "\<not> list_all (\<lambda>kv. fst kv \<in> {''model_id'', ''model_version'', ''role'', ''party_id''}) kwargs"
    unfolding list_all_iff by force
  then show ?thesis by (simp add: call_from_file_def raise_def)
qed

text \<open>
  Claim C4. \<^verbatim>\<open>query_model_info\<close> hands all its keywords to
  \<^verbatim>\<open>query_model_info_from_db\<close>, which takes any keyword, and on a miss hands them, with
  \<^verbatim>\<open>save_to_db\<close>, to \<^verbatim>\<open>query_model_info_from_file\<close>, which takes only \<^verbatim>\<open>model_id\<close>,
  \<^verbatim>\<open>model_version\<close>, \<^verbatim>\<open>role\<close>, \<^verbatim>\<open>party_id\<close>, \<^verbatim>\<open>query_filters\<close> and \<^verbatim>\<open>save_to_db\<close>.
  So a query without \<^verbatim>\<open>file_only\<close> that has any other keyword and misses the
  relational store does not scan the file store and does not return the retcode 100:
  the call of \<^verbatim>\<open>query_model_info_from_file\<close> raises \<^verbatim>\<open>TypeError\<close>, and so does
  \<^verbatim>\<open>query_model_info\<close>, before anything is read or written.
\<close>

theorem query_model_info_extra_keyword:
  assumes "\<not> truthy (dict_get kwargs ''file_only'' VNone)"
    and "query_filters_arg (dict_pop kwargs ''file_only'') = Inr qf"
    and "select_models env w (db_filters env qf) (db_conditions env (query_kwargs kwargs)) = Inr []"
    and "(k, v) \<in> set kwargs"
    and "k \<notin> {''file_only'', ''query_filters'', ''save_to_db'',
               ''model_id'', ''model_version'', ''role'', ''party_id''}"
  shows "query_model_info_from_db env (Some qf) (query_kwargs kwargs) w
           = (Inr (100, ''Query model info failed, cannot find model from db.'', []), w)
         \<and> query_model_info env kwargs w = (Inl TypeError, w)"
proof
  from assms(3) show "query_model_info_from_db env (Some qf) (query_kwargs kwargs) w
           = (Inr (100, ''Query model info failed, cannot find model from db.'', []), w)"
    by (simp add: query_model_info_from_db_eq)
next
  from assms(4,5) have "(k, v) \<in> set (dict_pop (query_kwargs kwargs) ''save_to_db'')"
    by (simp add: query_kwargs_def dict_pop_def)
  moreover from assms(5) have "k \<notin> {''model_id'', ''model_version'', ''role'', ''party_id''}"
    by simp
  ultimately have "call_from_file env (dict_pop (query_kwargs kwargs) ''save_to_db'') qf True w
                     = (Inl TypeError, w)"
    by (rule call_from_file_extra_keyword)
  with assms(3) show "query_model_info env kwargs w = (Inl TypeError, w)"
    by (simp add: query_model_info_not_file_only[OF assms(1,2)])
qed

theorem query_model_info_extra_keyword_witness:
  "query_model_info_from_db (example_env []) (Some []) [(''job_id'', VStr ''v1'')] []
     = (Inr (100, ''Query model info failed, cannot find model from db.'', []), [])
   \<and> query_model_info (example_env []) [(''job_id'', VStr ''v1'')] [] = (Inl TypeError, [])"
proof -
  have h1: "\<not> truthy (dict_get [(''job_id'', VStr ''v1'')] ''file_only'' VNone)"
    by (simp add: dict_get_def)
  have h2: "query_filters_arg (dict_pop [(''job_id'', VStr ''v1'')] ''file_only'') = Inr []"
    by (simp add: dict_get_def query_filters_arg_def dict_pop_def)
  have q: "query_kwargs [(''job_id'', VStr ''v1'')] = [(''job_id'', VStr ''v1'')]"
    by (simp add: query_kwargs_def dict_pop_def)
  show ?thesis
    using query_model_info_extra_keyword[OF h1 h2, where env = "example_env []" and w = "[]"
        and k = "''job_id''" and v = "VStr ''v1''"]
    by (simp add: q example_env_simps)
qed

section \<open>The backfill of the relational store\<close>

lemma save_model_info_duplicate:
  assumes "model_save env w (new_mlmodel env w model_info) = Inl (IntegrityError 1062 msg)"
  shows "save_model_info env model_info w =
           (Inr None, w @ [ModelSave (new_mlmodel env w model_info),
                           LogWarning (dict_get model_info ''job_id'' (VStr ''fate_flow''))
                                      (IntegrityError 1062 msg)])"
  using assms by (simp add: save_model_info_def Let_def)

lemma save_model_info_raises:
  assumes "model_save env w (new_mlmodel env w model_info) = Inl e"
    and "\<forall>msg. e \<noteq> IntegrityError 1062 msg"
  shows "save_model_info env model_info w = (Inl e, w @ [ModelSave (new_mlmodel env w model_info)])"
  using assms by (cases e) (auto simp: save_model_info_def Let_def)

lemma save_model_info_rows:
  assumes "model_save env w (new_mlmodel env w model_info) = Inr rows" and "rows \<noteq> 1"
  shows "save_model_info env model_info w =
           (Inl (Exception ''Save to database failed''), w @ [ModelSave (new_mlmodel env w model_info)])"
  using assms by (simp add: save_model_info_def Let_def)

lemma query_one_fp_backfill:
  assumes "parse_fp fp = Inr (party_model_id, role, party_id, model_id, model_version)"
    and "pm_init env (VStr party_model_id) (VStr model_version) = None"
    and "pm_exists env w (PipelinedModel (VStr party_model_id) (VStr model_version)) = Inr True"
    and "gather_model_info_data env (PipelinedModel (VStr party_model_id) (VStr model_version))
           (VStr role) (VStr party_id) [] w = (Inr model_info, w1)"
    and "save_model_info env model_info w1 = (r, w2)"
  shows "query_one_fp env query_filters True fp w =
           (case (case query_filters of
                    None \<Rightarrow> Inr model_info
                  | Some qf \<Rightarrow> if qf \<noteq> [] then filter_loop qf (map fst model_info) model_info
                              else Inr model_info) of
              Inl e \<Rightarrow> (Inl e, (case r of Inl e \<Rightarrow> w2 @ [LogException e] | Inr m \<Rightarrow> w2))
            | Inr filtered \<Rightarrow>
                (Inr (Some filtered), (case r of Inl e \<Rightarrow> w2 @ [LogException e] | Inr m \<Rightarrow> w2)))"
proof -
  let ?pm = "PipelinedModel (VStr party_model_id) (VStr model_version)"
  let ?w3 = "case r of Inl e \<Rightarrow> w2 @ [LogException e] | Inr m \<Rightarrow> w2"
  have g: "then_do (gather_model_info_data env ?pm (VStr role) (VStr party_id) []) k w
             = k model_info w1" for k :: "pydict \<Rightarrow> pydict option action"
    using assms(4) by (rule then_do_step)
  have "catch_log (save_model_info env model_info) w1 = (Inr (), ?w3)"
    using assms(5) by (cases r) (simp_all add: catch_log_def)
  then have c: "then_do (catch_log (save_model_info env model_info)) k w1 = k () ?w3"
    for k :: "unit \<Rightarrow> pydict option action"
    by (rule then_do_step)
  show ?thesis
    using assms(1,2,3)
    by (simp add: query_one_fp_def action_simps new_model_def g c ret_def split: sum.splits)
qed

lemma query_model_info_backfill:
  assumes nf: "\<not> truthy (dict_get kwargs ''file_only'' VNone)"
    and qfa: "query_filters_arg (dict_pop kwargs ''file_only'') = Inr qf"
    and miss: "select_models env w (db_filters env qf) (db_conditions env (query_kwargs kwargs)) = Inr []"
    and ids: "list_all (\<lambda>kv. fst kv \<in> {''model_id'', ''model_version'', ''role'', ''party_id''})
                (dict_pop (query_kwargs kwargs) ''save_to_db'')"
    and found: "glob env w (model_path_pattern (model_local_cache env)
                  (dict_get (dict_pop (query_kwargs kwargs) ''save_to_db'') ''role'' (VStr ''*''))
                  (dict_get (dict_pop (query_kwargs kwargs) ''save_to_db'') ''party_id'' (VStr ''*''))
                  (dict_get (dict_pop (query_kwargs kwargs) ''save_to_db'') ''model_id'' (VStr ''*''))
                  (dict_get (dict_pop (query_kwargs kwargs) ''save_to_db'') ''model_version'' (VStr ''*'')))
                = [fp]"
    and parse: "parse_fp fp = Inr (party_model_id, role, party_id, model_id, model_version)"
    and init: "pm_init env (VStr party_model_id) (VStr model_version) = None"
    and ex: "pm_exists env w (PipelinedModel (VStr party_model_id) (VStr model_version)) = Inr True"
    and gather: "gather_model_info_data env (PipelinedModel (VStr party_model_id) (VStr model_version))
           (VStr role) (VStr party_id) [] w = (Inr model_info, w1)"
    and save: "save_model_info env model_info w1 = (r, w2)"
  shows "query_model_info env kwargs w =
           (case (if qf \<noteq> [] then filter_loop qf (map fst model_info) model_info
                  else Inr model_info) of
              Inl e \<Rightarrow> (Inl e, (case r of Inl e \<Rightarrow> w2 @ [LogException e] | Inr m \<Rightarrow> w2))
            | Inr filtered \<Rightarrow>
                (Inr (0, ''Query model info from local model success.'', [filtered]),
                 (case r of Inl e \<Rightarrow> w2 @ [LogException e] | Inr m \<Rightarrow> w2)))"
proof -
  let ?ids = "dict_pop (query_kwargs kwargs) ''save_to_db''"
  let ?w3 = "case r of Inl e \<Rightarrow> w2 @ [LogException e] | Inr m \<Rightarrow> w2"
  let ?f = "if qf \<noteq> [] then filter_loop qf (map fst model_info) model_info else Inr model_info"
  have one: "query_one_fp env (Some qf) True fp w =
               (case ?f of Inl e \<Rightarrow> (Inl e, ?w3) | Inr filtered \<Rightarrow> (Inr (Some filtered), ?w3))"
    using query_one_fp_backfill[OF parse init ex gather save, of "Some qf"] by simp
  have fc: "call_from_file env ?ids qf True w =
                (case ?f of
                   Inl e \<Rightarrow> (Inl e, ?w3)
                 | Inr filtered \<Rightarrow>
                     (Inr (0, ''Query model info from local model success.'', [filtered]), ?w3))"
    using ids found one
    by (simp add: call_from_file_def query_model_info_from_file_def then_do_def ask_def ret_def
        split: sum.splits)
  show ?thesis
    using miss fc
    by (simp add: query_model_info_not_file_only[OF nf qfa] split: sum.splits)
qed

lemma example_backfill_query:
  assumes "save_model_info (example_env reg\<lparr>model_save := sv\<rparr>) example_model_info [] = (r, w2)"
  shows "query_model_info (example_env reg\<lparr>model_save := sv\<rparr>) example_kwargs []
           = (Inr (0, ''Query model info from local model success.'', [example_model_info]),
              (case r of Inl e \<Rightarrow> w2 @ [LogException e] | Inr m \<Rightarrow> w2))"
proof -
  let ?E = "example_env reg\<lparr>model_save := sv\<rparr>"
  have nf: "\<not> truthy (dict_get example_kwargs ''file_only'' VNone)"
    by (simp add: example_kwargs_def dict_get_def)
  have qfa: "query_filters_arg (dict_pop example_kwargs ''file_only'') = Inr []"
    by (simp add: example_kwargs_def dict_get_def query_filters_arg_def dict_pop_def)
  have miss: "select_models ?E [] (db_filters ?E []) (db_conditions ?E (query_kwargs example_kwargs))
                = Inr []"
    by (simp add: example_env_simps)
  have ids: "list_all (\<lambda>kv. fst kv \<in> {''model_id'', ''model_version'', ''role'', ''party_id''})
                (dict_pop (query_kwargs example_kwargs) ''save_to_db'')"
    by (simp add: query_kwargs_def dict_pop_def example_kwargs_def)
  have found: "glob ?E [] (model_path_pattern (model_local_cache ?E)
                  (dict_get (dict_pop (query_kwargs example_kwargs) ''save_to_db'') ''role'' (VStr ''*''))
                  (dict_get (dict_pop (query_kwargs example_kwargs) ''save_to_db'') ''party_id'' (VStr ''*''))
                  (dict_get (dict_pop (query_kwargs example_kwargs) ''save_to_db'') ''model_id'' (VStr ''*''))
                  (dict_get (dict_pop (query_kwargs example_kwargs) ''save_to_db'') ''model_version'' (VStr ''*'')))
                = [example_fp]"
    by (simp add: example_env_simps example_fp_def)
  have init: "pm_init ?E (VStr ''guest#9999#guest-9999#host-10000#model'') (VStr ''v1'') = None"
    by (simp add: example_env_simps)
  have ex: "pm_exists ?E [] (PipelinedModel (VStr ''guest#9999#guest-9999#host-10000#model'') (VStr ''v1''))
              = Inr True"
    by (simp add: example_env_simps)
  have gather: "gather_model_info_data ?E
      (PipelinedModel (VStr ''guest#9999#guest-9999#host-10000#model'') (VStr ''v1''))
      (VStr ''guest'') (VStr ''9999'') [] [] = (Inr example_model_info, [])"
    using example_gather(2)[where reg = reg and sv = sv and w = "[]"] by (simp add: example_model_def)
  show ?thesis
    using query_model_info_backfill[OF nf qfa miss ids found example_parse_fp init ex gather assms]
    by simp
qed

text \<open>
  Claim C5, as amended. In the backfill of the query-from-file path, a duplicate-key error
  of the insert (an \<^verbatim>\<open>IntegrityError\<close> whose first argument is 1062) is swallowed inside
  \<^verbatim>\<open>save_model_info\<close> and logged as a warning: the insert the database refused is
  followed by no upload and no registration, the function returns \<^verbatim>\<open>None\<close>, and the
  record already present is not duplicated. Every other error of the insert, and a row
  count other than 1, leaves \<^verbatim>\<open>save_model_info\<close> as an exception. The query-from-file
  path catches whatever \<^verbatim>\<open>save_model_info\<close> raises, logs it and goes on with the
  model, whatever the query filters are: what one pass of its loop returns, and what
  \<^verbatim>\<open>query_model_info\<close> returns after a miss of the relational store, does not depend
  on the outcome of the backfill, which only shows in the log. No error of the backfill
  reaches the caller of the query.
\<close>

theorem backfill_errors_are_logged:
  "(model_save env w1 (new_mlmodel env w1 model_info) = Inl (IntegrityError 1062 msg)
      \<longrightarrow> save_model_info env model_info w1 =
            (Inr None, w1 @ [ModelSave (new_mlmodel env w1 model_info),
                             LogWarning (dict_get model_info ''job_id'' (VStr ''fate_flow''))
                                        (IntegrityError 1062 msg)]))
   \<and> (model_save env w1 (new_mlmodel env w1 model_info) = Inl e \<and> (\<forall>msg. e \<noteq> IntegrityError 1062 msg)
      \<longrightarrow> save_model_info env model_info w1 = (Inl e, w1 @ [ModelSave (new_mlmodel env w1 model_info)]))
   \<and> (model_save env w1 (new_mlmodel env w1 model_info) = Inr rows \<and> rows \<noteq> 1
      \<longrightarrow> save_model_info env model_info w1 =
            (Inl (Exception ''Save to database failed''),
             w1 @ [ModelSave (new_mlmodel env w1 model_info)]))
   \<and> (parse_fp fp = Inr (party_model_id, role, party_id, model_id, model_version)
      \<and> pm_init env (VStr party_model_id) (VStr model_version) = None
      \<and> pm_exists env w (PipelinedModel (VStr party_model_id) (VStr model_version)) = Inr True
      \<and> gather_model_info_data env (PipelinedModel (VStr party_model_id) (VStr model_version))
           (VStr role) (VStr party_id) [] w = (Inr model_info, w1)
      \<and> save_model_info env model_info w1 = (r, w2)
      \<longrightarrow> query_one_fp env query_filters True fp w =
            (case (case query_filters of
                     None \<Rightarrow> Inr model_info
                   | Some qf \<Rightarrow> if qf \<noteq> [] then filter_loop qf (map fst model_info) model_info
                               else Inr model_info) of
               Inl e \<Rightarrow> (Inl e, (case r of Inl e \<Rightarrow> w2 @ [LogException e] | Inr m \<Rightarrow> w2))
             | Inr filtered \<Rightarrow>
                 (Inr (Some filtered), (case r of Inl e \<Rightarrow> w2 @ [LogException e] | Inr m \<Rightarrow> w2))))
   \<and> (\<not> truthy (dict_get kwargs ''file_only'' VNone)
      \<and> query_filters_arg (dict_pop kwargs ''file_only'') = Inr qf
      \<and> select_models env w (db_filters env qf) (db_conditions env (query_kwargs kwargs)) = Inr []
      \<and> list_all (\<lambda>kv. fst kv \<in> {''model_id'', ''model_version'', ''role'', ''party_id''})
           (dict_pop (query_kwargs kwargs) ''save_to_db'')
      \<and> glob env w (model_path_pattern (model_local_cache env)
           (dict_get (dict_pop (query_kwargs kwargs) ''save_to_db'') ''role'' (VStr ''*''))
           (dict_get (dict_pop (query_kwargs kwargs) ''save_to_db'') ''party_id'' (VStr ''*''))
           (dict_get (dict_pop (query_kwargs kwargs) ''save_to_db'') ''model_id'' (VStr ''*''))
           (dict_get (dict_pop (query_kwargs kwargs) ''save_to_db'') ''model_version'' (VStr ''*'')))
         = [fp]
      \<and> parse_fp fp = Inr (party_model_id, role, party_id, model_id, model_version)
      \<and> pm_init env (VStr party_model_id) (VStr model_version) = None
      \<and> pm_exists env w (PipelinedModel (VStr party_model_id) (VStr model_version)) = Inr True
      \<and> gather_model_info_data env (PipelinedModel (VStr party_model_id) (VStr model_version))
           (VStr role) (VStr party_id) [] w = (Inr model_info, w1)
      \<and> save_model_info env model_info w1 = (r, w2)
      \<longrightarrow> query_model_info env kwargs w =
            (case (if qf \<noteq> [] then filter_loop qf (map fst model_info) model_info
                   else Inr model_info) of
               Inl e \<Rightarrow> (Inl e, (case r of Inl e \<Rightarrow> w2 @ [LogException e] | Inr m \<Rightarrow> w2))
             | Inr filtered \<Rightarrow>
                 (Inr (0, ''Query model info from local model success.'', [filtered]),
                  (case r of Inl e \<Rightarrow> w2 @ [LogException e] | Inr m \<Rightarrow> w2))))"
proof (intro conjI impI)
  assume "model_save env w1 (new_mlmodel env w1 model_info) = Inl (IntegrityError 1062 msg)"
  then show "save_model_info env model_info w1 =
            (Inr None, w1 @ [ModelSave (new_mlmodel env w1 model_info),
                             LogWarning (dict_get model_info ''job_id'' (VStr ''fate_flow''))
                                        (IntegrityError 1062 msg)])"
    by (rule save_model_info_duplicate)
next
  assume "model_save env w1 (new_mlmodel env w1 model_info) = Inl e \<and> (\<forall>msg. e \<noteq> IntegrityError 1062 msg)"
  then show "save_model_info env model_info w1 = (Inl e, w1 @ [ModelSave (new_mlmodel env w1 model_info)])"
    using save_model_info_raises[of env w1 model_info e] by blast
next
  assume "model_save env w1 (new_mlmodel env w1 model_info) = Inr rows \<and> rows \<noteq> 1"
  then show "save_model_info env model_info w1 =
            (Inl (Exception ''Save to database failed''),
             w1 @ [ModelSave (new_mlmodel env w1 model_info)])"
    using save_model_info_rows[of env w1 model_info rows] by blast
next
  assume a: "parse_fp fp = Inr (party_model_id, role, party_id, model_id, model_version)
      \<and> pm_init env (VStr party_model_id) (VStr model_version) = None
      \<and> pm_exists env w (PipelinedModel (VStr party_model_id) (VStr model_version)) = Inr True
      \<and> gather_model_info_data env (PipelinedModel (VStr party_model_id) (VStr model_version))
           (VStr role) (VStr party_id) [] w = (Inr model_info, w1)
      \<and> save_model_info env model_info w1 = (r, w2)"
  show "query_one_fp env query_filters True fp w =
            (case (case query_filters of
                     None \<Rightarrow> Inr model_info
                   | Some qf \<Rightarrow> if qf \<noteq> [] then filter_loop qf (map fst model_info) model_info
                               else Inr model_info) of
               Inl e \<Rightarrow> (Inl e, (case r of Inl e \<Rightarrow> w2 @ [LogException e] | Inr m \<Rightarrow> w2))
             | Inr filtered \<Rightarrow>
                 (Inr (Some filtered), (case r of Inl e \<Rightarrow> w2 @ [LogException e] | Inr m \<Rightarrow> w2)))"
    by (rule query_one_fp_backfill[where party_model_id = party_model_id and role = role and party_id = party_id
          and model_id = model_id and model_version = model_version and ?w1.0 = w1])
       (use a in simp_all)
next
  assume a: "\<not> truthy (dict_get kwargs ''file_only'' VNone)
      \<and> query_filters_arg (dict_pop kwargs ''file_only'') = Inr qf
      \<and> select_models env w (db_filters env qf) (db_conditions env (query_kwargs kwargs)) = Inr []
      \<and> list_all (\<lambda>kv. fst kv \<in> {''model_id'', ''model_version'', ''role'', ''party_id''})
           (dict_pop (query_kwargs kwargs) ''save_to_db'')
      \<and> glob env w (model_path_pattern (model_local_cache env)
           (dict_get (dict_pop (query_kwargs kwargs) ''save_to_db'') ''role'' (VStr ''*''))
           (dict_get (dict_pop (query_kwargs kwargs) ''save_to_db'') ''party_id'' (VStr ''*''))
           (dict_get (dict_pop (query_kwargs kwargs) ''save_to_db'') ''model_id'' (VStr ''*''))
           (dict_get (dict_pop (query_kwargs kwargs) ''save_to_db'') ''model_version'' (VStr ''*'')))
         = [fp]
      \<and> parse_fp fp = Inr (party_model_id, role, party_id, model_id, model_version)
      \<and> pm_init env (VStr party_model_id) (VStr model_version) = None
      \<and> pm_exists env w (PipelinedModel (VStr party_model_id) (VStr model_version)) = Inr True
      \<and> gather_model_info_data env (PipelinedModel (VStr party_model_id) (VStr model_version))
           (VStr role) (VStr party_id) [] w = (Inr model_info, w1)
      \<and> save_model_info env model_info w1 = (r, w2)"
  show "query_model_info env kwargs w =
            (case (if qf \<noteq> [] then filter_loop qf (map fst model_info) model_info
                   else Inr model_info) of
               Inl e \<Rightarrow> (Inl e, (case r of Inl e \<Rightarrow> w2 @ [LogException e] | Inr m \<Rightarrow> w2))
             | Inr filtered \<Rightarrow>
                 (Inr (0, ''Query model info from local model success.'', [filtered]),
                  (case r of Inl e \<Rightarrow> w2 @ [LogException e] | Inr m \<Rightarrow> w2)))"
    by (rule query_model_info_backfill[where fp = fp and party_model_id = party_model_id and role = role and party_id = party_id
          and model_id = model_id and model_version = model_version and ?w1.0 = w1])
       (use a in simp_all)
qed

theorem backfill_errors_are_logged_witness:
  "save_model_info (example_env []\<lparr>model_save := \<lambda>w m. Inl (IntegrityError 1062 ''Duplicate entry'')\<rparr>)
        example_model_info []
      = (Inr None,
         [ModelSave (new_mlmodel (example_env []\<lparr>model_save := \<lambda>w m. Inl (IntegrityError 1062 ''Duplicate entry'')\<rparr>)
                       [] example_model_info),
          LogWarning (VStr ''fate_flow'') (IntegrityError 1062 ''Duplicate entry'')])
   \<and> save_model_info (example_env []\<lparr>model_save := \<lambda>w m. Inl (IntegrityError 1048 ''Column cannot be null'')\<rparr>)
        example_model_info []
      = (Inl (IntegrityError 1048 ''Column cannot be null''),
         [ModelSave (new_mlmodel (example_env []\<lparr>model_save := \<lambda>w m. Inl (IntegrityError 1048 ''Column cannot be null'')\<rparr>)
                       [] example_model_info)])
   \<and> save_model_info (example_env []\<lparr>model_save := \<lambda>w m. Inr 0\<rparr>) example_model_info []
      = (Inl (Exception ''Save to database failed''),
         [ModelSave (new_mlmodel (example_env []\<lparr>model_save := \<lambda>w m. Inr 0\<rparr>) [] example_model_info)])
   \<and> query_one_fp (example_env []\<lparr>model_save := \<lambda>w m. Inr 0\<rparr>) (Some []) True example_fp []
      = (Inr (Some example_model_info),
         [ModelSave (new_mlmodel (example_env []\<lparr>model_save := \<lambda>w m. Inr 0\<rparr>) [] example_model_info),
          LogException (Exception ''Save to database failed'')])
   \<and> query_model_info
        (example_env []\<lparr>model_save := \<lambda>w m. Inl (IntegrityError 1062 ''Duplicate entry'')\<rparr>)
        example_kwargs []
      = (Inr (0, ''Query model info from local model success.'', [example_model_info]),
         [ModelSave (new_mlmodel (example_env []\<lparr>model_save := \<lambda>w m. Inl (IntegrityError 1062 ''Duplicate entry'')\<rparr>)
                       [] example_model_info),
          LogWarning (VStr ''fate_flow'') (IntegrityError 1062 ''Duplicate entry'')])
   \<and> query_model_info
        (example_env []\<lparr>model_save := \<lambda>w m. Inl (IntegrityError 1048 ''Column cannot be null'')\<rparr>)
        example_kwargs []
      = (Inr (0, ''Query model info from local model success.'', [example_model_info]),
         [ModelSave (new_mlmodel (example_env []\<lparr>model_save := \<lambda>w m. Inl (IntegrityError 1048 ''Column cannot be null'')\<rparr>)
                       [] example_model_info),
          LogException (IntegrityError 1048 ''Column cannot be null'')])"
proof -
  let ?D = "example_env []\<lparr>model_save := \<lambda>w m. Inl (IntegrityError 1062 ''Duplicate entry'')\<rparr>"
  let ?N = "example_env []\<lparr>model_save := \<lambda>w m. Inl (IntegrityError 1048 ''Column cannot be null'')\<rparr>"
  let ?Z = "example_env []\<lparr>model_save := \<lambda>w m. Inr 0\<rparr>"
  have j: "dict_get example_model_info ''job_id'' (VStr ''fate_flow'') = VStr ''fate_flow''"
    by (simp add: dict_get_def example_model_info_def)
  have d: "save_model_info ?D example_model_info []
      = (Inr None, [ModelSave (new_mlmodel ?D [] example_model_info),
                    LogWarning (VStr ''fate_flow'') (IntegrityError 1062 ''Duplicate entry'')])"
    using backfill_errors_are_logged[where env = ?D and ?w1.0 = "[]" and model_info = example_model_info
        and msg = "''Duplicate entry''"]
    by (simp add: j)
  have n: "save_model_info ?N example_model_info []
      = (Inl (IntegrityError 1048 ''Column cannot be null''),
         [ModelSave (new_mlmodel ?N [] example_model_info)])"
    using backfill_errors_are_logged[where env = ?N and ?w1.0 = "[]" and model_info = example_model_info
        and e = "IntegrityError 1048 ''Column cannot be null''"]
    by simp
  have z: "save_model_info ?Z example_model_info []
      = (Inl (Exception ''Save to database failed''),
         [ModelSave (new_mlmodel ?Z [] example_model_info)])"
    using backfill_errors_are_logged[where env = ?Z and ?w1.0 = "[]" and model_info = example_model_info
        and rows = 0]
    by simp
  have q: "query_one_fp ?Z (Some []) True example_fp []
      = (Inr (Some example_model_info),
         [ModelSave (new_mlmodel ?Z [] example_model_info),
          LogException (Exception ''Save to database failed'')])"
    using backfill_errors_are_logged[where env = ?Z and w = "[]" and ?w1.0 = "[]"
        and model_info = example_model_info and fp = example_fp
        and party_model_id = "''guest#9999#guest-9999#host-10000#model''" and role = "''guest''"
        and party_id = "''9999''" and model_id = "''guest-9999#host-10000#model''"
        and model_version = "''v1''" and query_filters = "Some []"
        and r = "Inl (Exception ''Save to database failed'')"
        and ?w2.0 = "[ModelSave (new_mlmodel ?Z [] example_model_info)]"]
      example_parse_fp example_gather(2)[where reg = "[]" and sv = "\<lambda>w m. Inr 0" and w = "[]"] z
    by (simp add: example_env_simps example_model_def)
  have kw: "\<not> truthy (dict_get example_kwargs ''file_only'' VNone)"
    "query_filters_arg (dict_pop example_kwargs ''file_only'') = Inr []"
    "list_all (\<lambda>kv. fst kv \<in> {''model_id'', ''model_version'', ''role'', ''party_id''})
                (dict_pop (query_kwargs example_kwargs) ''save_to_db'')"
    by (simp_all add: example_kwargs_def dict_get_def query_filters_arg_def dict_pop_def query_kwargs_def)
  have pat: "model_path_pattern ''/data/model_local_cache''
                  (dict_get (dict_pop (query_kwargs example_kwargs) ''save_to_db'') ''role'' (VStr ''*''))
                  (dict_get (dict_pop (query_kwargs example_kwargs) ''save_to_db'') ''party_id'' (VStr ''*''))
                  (dict_get (dict_pop (query_kwargs example_kwargs) ''save_to_db'') ''model_id'' (VStr ''*''))
                  (dict_get (dict_pop (query_kwargs example_kwargs) ''save_to_db'') ''model_version'' (VStr ''*''))
             = ''/data/model_local_cache/guest#*#*/v1''"
    by (simp add: example_kwargs_def dict_get_def dict_pop_def query_kwargs_def model_path_pattern_def
        py_str_def)
  have qd: "query_model_info ?D example_kwargs []
      = (Inr (0, ''Query model info from local model success.'', [example_model_info]),
         [ModelSave (new_mlmodel ?D [] example_model_info),
          LogWarning (VStr ''fate_flow'') (IntegrityError 1062 ''Duplicate entry'')])"
    using backfill_errors_are_logged[where env = ?D and w = "[]" and ?w1.0 = "[]"
        and model_info = example_model_info and fp = example_fp and kwargs = example_kwargs
        and qf = "[]"
        and party_model_id = "''guest#9999#guest-9999#host-10000#model''" and role = "''guest''"
        and party_id = "''9999''" and model_id = "''guest-9999#host-10000#model''"
        and model_version = "''v1''"
        and r = "Inr None"
        and ?w2.0 = "[ModelSave (new_mlmodel ?D [] example_model_info),
                      LogWarning (VStr ''fate_flow'') (IntegrityError 1062 ''Duplicate entry'')]"]
      example_parse_fp kw d
      example_gather(2)[where reg = "[]" and w = "[]"
        and sv = "\<lambda>w m. Inl (IntegrityError 1062 ''Duplicate entry'')"]
    by (simp add: example_env_simps example_model_def pat) (simp add: example_fp_def)
  have qn: "query_model_info ?N example_kwargs []
      = (Inr (0, ''Query model info from local model success.'', [example_model_info]),
         [ModelSave (new_mlmodel ?N [] example_model_info),
          LogException (IntegrityError 1048 ''Column cannot be null'')])"
    using backfill_errors_are_logged[where env = ?N and w = "[]" and ?w1.0 = "[]"
        and model_info = example_model_info and fp = example_fp and kwargs = example_kwargs
        and qf = "[]"
        and party_model_id = "''guest#9999#guest-9999#host-10000#model''" and role = "''guest''"
        and party_id = "''9999''" and model_id = "''guest-9999#host-10000#model''"
        and model_version = "''v1''"
        and r = "Inl (IntegrityError 1048 ''Column cannot be null'')"
        and ?w2.0 = "[ModelSave (new_mlmodel ?N [] example_model_info)]"]
      example_parse_fp kw n
      example_gather(2)[where reg = "[]" and w = "[]"
        and sv = "\<lambda>w m. Inl (IntegrityError 1048 ''Column cannot be null'')"]
    by (simp add: example_env_simps example_model_def pat) (simp add: example_fp_def)
  show ?thesis
    using d n z q qd qn by simp
qed

text \<open>
  Claim C5 as stated fails in its last part: an insert that fails with an error other than
  the duplicate key (here the code 1048) does not make the query raise. After a miss of
  the relational store, \<^verbatim>\<open>query_model_info\<close> returns the model found in the file store
  with retcode 0, and the error is in the log.
\<close>

theorem backfill_error_counterexample:
  "query_model_info
       (example_env []\<lparr>model_save := \<lambda>w m. Inl (IntegrityError 1048 ''Column cannot be null'')\<rparr>)
       example_kwargs []
     = (Inr (0, ''Query model info from local model success.'', [example_model_info]),
        [ModelSave (new_mlmodel
            (example_env []\<lparr>model_save := \<lambda>w m. Inl (IntegrityError 1048 ''Column cannot be null'')\<rparr>)
            [] example_model_info),
         LogException (IntegrityError 1048 ''Column cannot be null'')])"
proof -
  let ?N = "example_env []\<lparr>model_save := \<lambda>w m. Inl (IntegrityError 1048 ''Column cannot be null'')\<rparr>"
  have n: "save_model_info ?N example_model_info []
      = (Inl (IntegrityError 1048 ''Column cannot be null''),
         [ModelSave (new_mlmodel ?N [] example_model_info)])"
    using save_model_info_raises[where env = ?N and w = "[]" and model_info = example_model_info
        and e = "IntegrityError 1048 ''Column cannot be null''"]
    by simp
  show ?thesis
    using example_backfill_query[OF n] by simp
qed

section \<open>The steps of \<^verbatim>\<open>migration\<close>\<close>

lemma sync_source_eq:
  "sync_source env key w =
     (if ENABLE_MODEL_STORE env then
        (case remote_exists env w key of
           Inl e \<Rightarrow> (Inl e, w)
         | Inr re \<Rightarrow>
             if re then ((case download env w key of None \<Rightarrow> Inr () | Some e \<Rightarrow> Inl e),
                         w @ [SyncDownload key])
             else (Inr (), w))
      else (Inr (), w))"
  by (simp add: sync_source_def then_do_ask call_def ret_def split: sum.splits)

lemma sync_source_world:
  "snd (sync_source env key w) = w \<or> snd (sync_source env key w) = w @ [SyncDownload key]"
  by (simp add: sync_source_eq split: sum.splits)

lemma sync_source_succeeds:
  assumes "collaborators_succeed env"
  shows "sync_source env key w = (Inr (), w) \<or> sync_source env key w = (Inr (), w @ [SyncDownload key])"
proof (cases "ENABLE_MODEL_STORE env")
  case False
  then show ?thesis by (simp add: sync_source_eq)
next
  case True
  from assms True have "\<not> isl (remote_exists env w key)"
    by (cases key) (simp add: collaborators_succeed_def)
  moreover from assms True have d: "download env w key = None"
    by (cases key) (simp add: collaborators_succeed_def)
  ultimately obtain b where b: "remote_exists env w key = Inr b"
    by (cases "remote_exists env w key") auto
  with d True show ?thesis by (simp add: sync_source_eq)
qed

lemma new_model_eq:
  "new_model env model_id model_version w =
     (case pm_init env model_id model_version of
        Some e \<Rightarrow> (Inl e, w) | None \<Rightarrow> (Inr (PipelinedModel model_id model_version), w))"
  by (simp add: new_model_def raise_def ret_def split: option.splits)

lemma open_source_world: "open_source env model_id model_version local_role local_party_id w = (r, w') \<Longrightarrow> w' = w"
  by (auto simp: open_source_def action_simps new_model_def raise_def ret_def
      split: sum.splits option.splits if_splits)

lemma open_source_Inr:
  assumes "open_source env model_id model_version local_role local_party_id w = (Inr source_model, w')"
  shows "w' = w \<and> pm_exists env w source_model = Inr True
         \<and> (\<exists>party_model_id. gen_party_model_id model_id local_role local_party_id = Inr party_model_id
               \<and> source_model = PipelinedModel party_model_id model_version)"
  using assms
  by (auto simp: open_source_def action_simps new_model_def raise_def ret_def
      split: sum.splits option.splits if_splits)

lemma open_source_succeeds:
  assumes "gen_party_model_id model_id local_role local_party_id = Inr party_model_id"
    and "pm_init env party_model_id model_version = None"
    and "pm_exists env w (PipelinedModel party_model_id model_version) = Inr True"
  shows "open_source env model_id model_version local_role local_party_id w
           = (Inr (PipelinedModel party_model_id model_version), w)"
  using assms by (simp add: open_source_def action_simps new_model_def ret_def)

lemma check_unify_version_eq:
  "check_unify_version env local_role local_party_id model_id unify_model_version w =
     (case get_or_none env w (local_role, local_party_id, model_id, unify_model_version) of
        Inl e \<Rightarrow> (Inl e, w)
      | Inr found \<Rightarrow> if found then (Inl (occupied_error unify_model_version), w) else (Inr (), w))"
  by (simp add: check_unify_version_def action_simps raise_def ret_def split: sum.splits)

lemma new_migrate_model_eq:
  "new_migrate_model env config_data local_role unify_model_version w =
     (case migrate_party_model_id config_data local_role of
        Inl e \<Rightarrow> (Inl e, w)
      | Inr party_model_id \<Rightarrow>
          (case pm_init env party_model_id unify_model_version of
             Some e \<Rightarrow> (Inl e, w)
           | None \<Rightarrow> (Inr (PipelinedModel party_model_id unify_model_version), w)))"
  by (simp add: new_migrate_model_def action_simps new_model_eq split: sum.splits)

lemma migration_result_world: "migration_result env migrate_model adapter w = (r, w') \<Longrightarrow> w' = w"
  by (auto simp: migration_result_def action_simps ret_def split: sum.splits)

lemma migration_result_Inr:
  assumes "migration_result env migrate_model adapter w = (Inr (msg, data), w')"
  shows "w' = w \<and> (\<exists>path. archive_abspath env w migrate_model = Inr path
           \<and> data = [(''model_id'', pm_model_id migrate_model),
                      (''model_version'', pm_model_version migrate_model),
                      (''path'', VStr path)])"
  using assms by (auto simp: migration_result_def action_simps ret_def split: sum.splits)

lemma migrate_models_Inr:
  assumes "migrate_models env config_data source_model local_role unify_model_version w
             = (Inr migrate_model, w')"
  shows "\<exists>party_model_id query.
           migrate_party_model_id config_data local_role = Inr party_model_id
           \<and> migrate_model = PipelinedModel party_model_id unify_model_version
           \<and> get_define_meta_from_db env w source_model = Inr query
           \<and> migrate_components env config_data source_model migrate_model query w = (Inr (), w')"
proof -
  from assms obtain mm w1 where
    1: "new_migrate_model env config_data local_role unify_model_version w = (Inr mm, w1)"
    and r1: "then_do (ask (\<lambda>w. get_define_meta_from_db env w source_model)) (\<lambda>query.
               then_do (migrate_components env config_data source_model mm query) (\<lambda>u. ret mm)) w1
             = (Inr migrate_model, w')"
    unfolding migrate_models_def then_do_Inr
    by (auto simp: ask_def split: option.splits)
  from 1 obtain party_model_id where p: "migrate_party_model_id config_data local_role = Inr party_model_id"
    and m: "mm = PipelinedModel party_model_id unify_model_version" and w: "w1 = w"
    by (auto simp: new_migrate_model_eq split: sum.splits option.splits)
  from r1 obtain query u w2 where q: "get_define_meta_from_db env w1 source_model = Inr query"
    and c: "migrate_components env config_data source_model mm query w1 = (Inr u, w2)"
    and e: "ret mm w2 = (Inr migrate_model, w')"
    unfolding then_do_Inr by (auto simp: ask_def)
  from e have "mm = migrate_model" "w2 = w'" by (simp_all add: ret_def)
  with p m w q c show ?thesis by auto
qed

lemma migrate_pipeline_Inr:
  assumes "migrate_pipeline env config_data source_model migrate_model local_role local_party_id w
             = (Inr res, w')"
  shows "\<exists>pipeline_model blob adapter.
           read_pipeline_model env w source_model = Inr pipeline_model
           \<and> update_pipeline env config_data migrate_model pipeline_model = Inr (blob, adapter)
           \<and> w' = w @ closing_calls migrate_model blob local_role local_party_id
           \<and> migration_result env migrate_model adapter w' = (Inr res, w')"
proof -
  from assms obtain pipeline_model blob adapter where
    1: "read_pipeline_model env w source_model = Inr pipeline_model"
    and 2: "update_pipeline env config_data migrate_model pipeline_model = Inr (blob, adapter)"
    and 3: "migration_result env migrate_model adapter
              (w @ closing_calls migrate_model blob local_role local_party_id) = (Inr res, w')"
    by (auto simp: migrate_pipeline_def then_do_ask then_do_pure then_do_call closing_calls_def
        split: sum.splits option.splits)
  from migration_result_world[OF 3] 1 2 3 show ?thesis by auto
qed

text \<open>A successful run of the \<^verbatim>\<open>try\<close> body, step by step.\<close>

lemma migration_try_Inr:
  assumes "migration_try env config_data model_id model_version local_role local_party_id
             unify_model_version w = (Inr res, w')"
  shows "\<exists>source_model migrate_model w1 w2.
    sync_source env (local_role, local_party_id, model_id, model_version) w = (Inr (), w1)
    \<and> open_source env model_id model_version local_role local_party_id w1 = (Inr source_model, w1)
    \<and> get_or_none env w1 (local_role, local_party_id, model_id, unify_model_version) = Inr False
    \<and> migrate_models env config_data source_model local_role unify_model_version w1
        = (Inr migrate_model, w2)
    \<and> migrate_pipeline env config_data source_model migrate_model local_role local_party_id w2
        = (Inr res, w')"
proof -
  from assms obtain u w1 where 1: "sync_source env (local_role, local_party_id, model_id, model_version) w = (Inr u, w1)"
    and r1: "then_do (open_source env model_id model_version local_role local_party_id) (\<lambda>source_model.
     then_do (check_unify_version env local_role local_party_id model_id unify_model_version) (\<lambda>u.
     then_do (migrate_models env config_data source_model local_role unify_model_version)
       (\<lambda>migrate_model.
     migrate_pipeline env config_data source_model migrate_model local_role local_party_id))) w1
       = (Inr res, w')"
    unfolding migration_try_def then_do_Inr by blast
  from r1 obtain source_model w1' where 2: "open_source env model_id model_version local_role local_party_id w1 = (Inr source_model, w1')"
    and r2: "then_do (check_unify_version env local_role local_party_id model_id unify_model_version) (\<lambda>u.
     then_do (migrate_models env config_data source_model local_role unify_model_version)
       (\<lambda>migrate_model.
     migrate_pipeline env config_data source_model migrate_model local_role local_party_id)) w1'
       = (Inr res, w')"
    unfolding then_do_Inr by blast
  from open_source_world[OF 2] have e: "w1' = w1" .
  from r2 obtain u' w1'' where 3: "check_unify_version env local_role local_party_id model_id unify_model_version w1 = (Inr u', w1'')"
    and r3: "then_do (migrate_models env config_data source_model local_role unify_model_version)
       (\<lambda>migrate_model.
     migrate_pipeline env config_data source_model migrate_model local_role local_party_id) w1''
       = (Inr res, w')"
    unfolding then_do_Inr e by blast
  from 3 have c3: "get_or_none env w1 (local_role, local_party_id, model_id, unify_model_version) = Inr False"
    and e2: "w1'' = w1"
    by (auto simp: check_unify_version_eq split: sum.splits if_splits)
  from r3 obtain migrate_model w2 where 4: "migrate_models env config_data source_model local_role unify_model_version w1
        = (Inr migrate_model, w2)"
    and 5: "migrate_pipeline env config_data source_model migrate_model local_role local_party_id w2
        = (Inr res, w')"
    unfolding then_do_Inr e2 by blast
  from 1 2 e c3 4 5 show ?thesis by auto
qed

lemma not_isl_Inr: "\<not> isl x \<Longrightarrow> \<exists>a. x = Inr a"
  by (cases x) auto

lemma collaborators_succeedD:
  assumes "collaborators_succeed env"
  shows "\<exists>q. get_define_meta_from_db env w m = Inr q"
    and "\<exists>b. read_component_model env w m name alias = Inr b"
    and "\<exists>x. model_migration env buffer module og ng oh nh oa na = Inr x"
    and "\<exists>p. read_pipeline_model env w m = Inr p"
    and "\<exists>path. archive_abspath env w m = Inr path"
  using assms by (simp_all add: collaborators_succeed_def not_isl_Inr)

lemma update_pipeline_adapter:
  assumes "update_pipeline env config_data migrate_model pipeline_model = Inr (blob, adapter)"
  shows "\<exists>cp. common_parameters env adapter = Inr cp"
  using assms
  by (auto simp: update_pipeline_def and_then_Inr Let_def split: if_splits prod.splits)

lemma migrate_component_succeeds:
  assumes "collaborators_succeed env" and "migration_lists config_data = Inr ls"
  shows "\<exists>ev. migrate_component env config_data source_model migrate_model row w = (Inr (), w @ [ev])"
proof -
  obtain og ng oh nh oa na where ls: "ls = (og, ng, oh, nh, oa, na)" by (cases ls) auto
  from collaborators_succeedD(2)[OF assms(1)] obtain buffer where
    b: "read_component_model env w source_model (f_component_name row) (f_model_alias row) = Inr buffer"
    by blast
  from collaborators_succeedD(3)[OF assms(1)] obtain modified where
    m: "model_migration env buffer (f_component_module_name row) og ng oh nh oa na = Inr modified"
    by blast
  from assms(1) have s: "save_component_model env w migrate_model (f_component_name row)
      (f_component_module_name row) (f_model_alias row) modified (f_run_parameters row) = None"
    unfolding collaborators_succeed_def by simp
  show ?thesis
    using b m s assms(2) ls
    by (simp add: migrate_component_def then_do_ask then_do_pure and_then_def call_def)
qed

lemma migrate_components_succeed:
  assumes "collaborators_succeed env" and "migration_lists config_data = Inr ls"
  shows "\<exists>w2. migrate_components env config_data source_model migrate_model query w = (Inr (), w2)"
proof (induction query arbitrary: w)
  case Nil
  then show ?case by simp
next
  case (Cons row query)
  from migrate_component_succeeds[OF assms] obtain ev where
    "migrate_component env config_data source_model migrate_model row w = (Inr (), w @ [ev])"
    by blast
  with Cons.IH[of "w @ [ev]"] show ?case by simp
qed

lemma migrate_models_succeed:
  assumes "collaborators_succeed env" and "migration_lists config_data = Inr ls"
    and "migrate_party_model_id config_data local_role = Inr new_id"
  shows "\<exists>w2. migrate_models env config_data source_model local_role unify_model_version w
           = (Inr (PipelinedModel new_id unify_model_version), w2)"
proof -
  from assms(1) have t: "get_model_migrate_tool env w source_model = None"
    and i: "pm_init env new_id unify_model_version = None"
    unfolding collaborators_succeed_def by simp_all
  from collaborators_succeedD(1)[OF assms(1)] obtain query where
    q: "get_define_meta_from_db env w source_model = Inr query"
    by blast
  from migrate_components_succeed[OF assms(1,2)] obtain w2 where
    c: "migrate_components env config_data source_model (PipelinedModel new_id unify_model_version) query w
          = (Inr (), w2)"
    by blast
  have n: "new_migrate_model env config_data local_role unify_model_version w
             = (Inr (PipelinedModel new_id unify_model_version), w)"
    using assms(3) i by (simp add: new_migrate_model_eq)
  have n': "then_do (new_migrate_model env config_data local_role unify_model_version) k w
             = k (PipelinedModel new_id unify_model_version) w" for k :: "pmodel \<Rightarrow> pmodel action"
    using n by (rule then_do_step)
  have c': "then_do (migrate_components env config_data source_model
               (PipelinedModel new_id unify_model_version) query) k w = k () w2"
    for k :: "unit \<Rightarrow> pmodel action"
    using c by (rule then_do_step)
  show ?thesis
    using t q by (simp add: migrate_models_def then_do_ask n' c' ret_def)
qed

lemma migrate_pipeline_succeeds:
  assumes "collaborators_succeed env"
    and "\<forall>w p. read_pipeline_model env w source_model = Inr p
           \<longrightarrow> \<not> isl (update_pipeline env config_data migrate_model p)"
  shows "\<exists>msg path blob.
           migrate_pipeline env config_data source_model migrate_model local_role local_party_id w
           = (Inr (msg, [(''model_id'', pm_model_id migrate_model),
                         (''model_version'', pm_model_version migrate_model),
                         (''path'', VStr path)]),
              w @ closing_calls migrate_model blob local_role local_party_id)"
proof -
  from collaborators_succeedD(4)[OF assms(1)] obtain p where
    p: "read_pipeline_model env w source_model = Inr p"
    by blast
  with assms(2) have "\<not> isl (update_pipeline env config_data migrate_model p)" by blast
  from not_isl_Inr[OF this] obtain blob adapter where
    u: "update_pipeline env config_data migrate_model p = Inr (blob, adapter)"
    by auto
  from update_pipeline_adapter[OF u] obtain cp where cp: "common_parameters env adapter = Inr cp"
    by blast
  let ?w' = "w @ closing_calls migrate_model blob local_role local_party_id"
  from collaborators_succeedD(5)[OF assms(1)] obtain path where
    a: "archive_abspath env ?w' migrate_model = Inr path"
    by blast
  from assms(1) have s: "\<And>w. save_pipeline_model env w migrate_model blob = None"
    "\<And>w. gen_model_import_config env w migrate_model = None"
    "\<And>w. gather_and_save_model_info env w migrate_model local_role local_party_id = None"
    "\<And>w. packaging_model env w migrate_model = None"
    unfolding collaborators_succeed_def by simp_all
  have "migrate_pipeline env config_data source_model migrate_model local_role local_party_id w
        = migration_result env migrate_model adapter ?w'"
    using p u s by (simp add: migrate_pipeline_def then_do_ask then_do_pure then_do_call closing_calls_def)
  moreover have "\<exists>msg. migration_result env migrate_model adapter ?w'
        = (Inr (msg, [(''model_id'', pm_model_id migrate_model),
                      (''model_version'', pm_model_version migrate_model),
                      (''path'', VStr path)]), ?w')"
    using cp a by (simp add: migration_result_def then_do_ask then_do_pure and_then_def ret_def)
  ultimately show ?thesis by auto
qed

text \<open>When every step can be taken, the \<^verbatim>\<open>try\<close> body runs to its end.\<close>

lemma migration_try_succeeds:
  assumes cs: "collaborators_succeed env"
    and src: "gen_party_model_id model_id local_role local_party_id = Inr source_id"
    and present: "\<forall>w. pm_exists env w (PipelinedModel source_id model_version) = Inr True"
    and free: "\<forall>w. get_or_none env w (local_role, local_party_id, model_id, unify_model_version) = Inr False"
    and new: "migrate_party_model_id config_data local_role = Inr new_id"
    and lists: "migration_lists config_data = Inr ls"
    and upd: "\<forall>w p. read_pipeline_model env w (PipelinedModel source_id model_version) = Inr p
           \<longrightarrow> \<not> isl (update_pipeline env config_data (PipelinedModel new_id unify_model_version) p)"
  shows "\<exists>msg path blob w2.
           migration_try env config_data model_id model_version local_role local_party_id
             unify_model_version w
           = (Inr (msg, [(''model_id'', new_id), (''model_version'', unify_model_version),
                         (''path'', VStr path)]),
              w2 @ closing_calls (PipelinedModel new_id unify_model_version) blob
                     local_role local_party_id)"
proof -
  let ?key = "(local_role, local_party_id, model_id, model_version)"
  let ?sm = "PipelinedModel source_id model_version"
  let ?mm = "PipelinedModel new_id unify_model_version"
  from sync_source_succeeds[OF cs, of ?key w] obtain w1 where
    1: "sync_source env ?key w = (Inr (), w1)" by blast
  from cs have i: "pm_init env source_id model_version = None"
    unfolding collaborators_succeed_def by simp
  have 2: "open_source env model_id model_version local_role local_party_id w1 = (Inr ?sm, w1)"
    using src i present by (simp add: open_source_succeeds)
  have 3: "check_unify_version env local_role local_party_id model_id unify_model_version w1 = (Inr (), w1)"
    using free by (simp add: check_unify_version_eq)
  from migrate_models_succeed[OF cs lists new] obtain w2 where
    4: "migrate_models env config_data ?sm local_role unify_model_version w1 = (Inr ?mm, w2)"
    by blast
  from migrate_pipeline_succeeds[OF cs upd, of local_role local_party_id w2] obtain msg path blob where
    5: "migrate_pipeline env config_data ?sm ?mm local_role local_party_id w2
        = (Inr (msg, [(''model_id'', new_id), (''model_version'', unify_model_version),
                      (''path'', VStr path)]),
           w2 @ closing_calls ?mm blob local_role local_party_id)"
    by auto
  have s1: "then_do (sync_source env ?key) k w = k () w1" for k :: "unit \<Rightarrow> (string \<times> pydict) action"
    using 1 by (rule then_do_step)
  have s2: "then_do (open_source env model_id model_version local_role local_party_id) k w1 = k ?sm w1"
    for k :: "pmodel \<Rightarrow> (string \<times> pydict) action"
    using 2 by (rule then_do_step)
  have s3: "then_do (check_unify_version env local_role local_party_id model_id unify_model_version) k w1
              = k () w1" for k :: "unit \<Rightarrow> (string \<times> pydict) action"
    using 3 by (rule then_do_step)
  have s4: "then_do (migrate_models env config_data ?sm local_role unify_model_version) k w1 = k ?mm w2"
    for k :: "pmodel \<Rightarrow> (string \<times> pydict) action"
    using 4 by (rule then_do_step)
  have "migration_try env config_data model_id model_version local_role local_party_id
             unify_model_version w
        = migrate_pipeline env config_data ?sm ?mm local_role local_party_id w2"
    by (simp add: migration_try_def s1 s2 s3 s4)
  with 5 show ?thesis by metis
qed


section \<open>The example migration\<close>

lemma utf8_encode_ascii: "\<forall>c\<in>set s. (of_char c :: nat) < 128 \<Longrightarrow> utf8_encode s = s"
  by (induction s) (simp_all add: utf8_encode_def)

lemma example_read_identity:
  "read_identity (example_config u mp mr)
     = Inr (VStr ''guest-9999#host-10000#model'', VStr ''v1'', VStr ''guest'', VInt 9999, VStr u)"
  by (simp add: read_identity_def example_config_def and_then_def dict_getitem_def py_getitem_def)

lemma example_collaborators: "collaborators_succeed (example_env reg)"
  by (simp add: collaborators_succeed_def example_env_simps)

lemma example_source_id:
  "gen_party_model_id (VStr ''guest-9999#host-10000#model'') (VStr ''guest'') (VInt 9999)
     = Inr (VStr ''guest#9999#guest-9999#host-10000#model'')"
  by (simp add: gen_party_model_id_def str_join_def eval_simps)

lemma example_gen_model_id:
  "gen_model_id example_migrate_role = Inr (VStr ''guest-99#host-100#model'')"
  "gen_model_id example_role = Inr (VStr ''guest-9999#host-10000#model'')"
  by (simp_all add: example_migrate_role_def example_role_def gen_model_id_def all_party_key_def
      role_party_key_def dict_getitem_def sorted_set_def hashable_def str_join_def eval_simps)

lemma example_new_id:
  "migrate_party_model_id (example_config u 99 example_migrate_role) (VStr ''guest'')
     = Inr (VStr ''guest#99#guest-99#host-100#model'')"
  "migrate_party_model_id (example_config u 9999 example_role) (VStr ''guest'')
     = Inr (VStr ''guest#9999#guest-9999#host-10000#model'')"
  by (simp_all add: migrate_party_model_id_def example_config_def and_then_def dict_getitem_def
      py_getitem_def example_gen_model_id gen_party_model_id_def str_join_def eval_simps)

lemma example_lists:
  "migration_lists (example_config u mp example_migrate_role)
     = Inr (VList [VInt 9999], VList [VInt 99], VList [VInt 10000], VList [VInt 100], VNone, VNone)"
  "migration_lists (example_config u mp example_role)
     = Inr (VList [VInt 9999], VList [VInt 9999], VList [VInt 10000], VList [VInt 10000], VNone, VNone)"
  by (simp_all add: migration_lists_def example_config_def example_migrate_role_def example_role_def
      and_then_def dict_getitem_def py_getitem_def py_get_def dict_get_def)

lemma example_update_pipeline:
  assumes "gen_model_id mr = Inr (VStr new_id)" and "\<forall>c\<in>set new_id. (of_char c :: nat) < 128"
    and "\<forall>c\<in>set u. (of_char c :: nat) < 128"
  shows "update_pipeline (example_env reg) (example_config u mp mr) (PipelinedModel pmid (VStr u))
           example_pipeline
         = Inr (example_blob mr mp new_id u, example_new_conf mr mp new_id u)"
  using assms
  by (simp add: update_pipeline_def example_env_simps example_config_def example_pipeline_def
      pb_bytes_def pb_val_def and_then_def dict_getitem_def py_getitem_def py_setitem_def
      example_adapter_update_def example_adapter_parameters_def dict_get_def py_bytes_def
      utf8_encode_ascii example_blob_def example_new_conf_def Let_def)


lemma then_do_const:
  "then_do (ret a) f = f a"
  "then_do (pure (Inr b)) g = g b"
  "then_do (ask (\<lambda>w. Inr c)) h = h c"
  "then_do (raise e) k = raise e"
  "then_do (call ev (\<lambda>w. None)) l = (\<lambda>w. l () (w @ [ev]))"
  by (rule ext; simp add: then_do_def ret_def pure_def ask_def raise_def call_def)+

lemma migrate_components_one:
  "migrate_components env config_data source_model migrate_model [row]
     = then_do (migrate_component env config_data source_model migrate_model row) ret"
  by (rule ext) (simp add: then_do_def ret_def split: prod.splits sum.splits)

lemma example_migration_try:
  assumes free: "(VStr ''guest'', VInt 9999, VStr ''guest-9999#host-10000#model'', VStr u) \<notin> set reg"
    and new: "migrate_party_model_id (example_config u mp mr) (VStr ''guest'') = Inr new_id"
    and lists: "migration_lists (example_config u mp mr) = Inr (og, ng, oh, nh, oa, na)"
    and upd: "update_pipeline (example_env reg) (example_config u mp mr) (PipelinedModel new_id (VStr u))
                example_pipeline = Inr (blob, adapter)"
    and cp: "example_adapter_parameters adapter = Inr cp"
    and mid: "dict_get cp ''model_id'' VNone = VStr new_model_id"
  shows "migration_try (example_env reg) (example_config u mp mr) (VStr ''guest-9999#host-10000#model'')
           (VStr ''v1'') (VStr ''guest'') (VInt 9999) (VStr u) w
         = (Inr (example_message new_model_id u,
                 [(''model_id'', new_id), (''model_version'', VStr u), (''path'', VStr ''/data/model.zip'')]),
            w @ example_trace (PipelinedModel new_id (VStr u)) ng nh blob)"
  using free
  apply (simp add: migration_try_def sync_source_def example_env_simps
      open_source_def new_model_def example_source_id check_unify_version_def
      migrate_models_def new_migrate_model_def new migrate_component_def lists
      migrate_pipeline_def upd migration_result_def cp mid
      then_do_const migrate_components_one and_then_simps example_component_def py_str_def)
  apply (simp add: then_do_def pure_def ret_def upd cp mid and_then_simps
      example_message_def example_trace_def closing_calls_def)
  done

lemma example_parameters:
  "example_adapter_parameters (example_new_conf mr mp new_model_id u)
     = Inr [(''model_id'', VStr new_model_id), (''model_version'', VStr u)]"
  by (simp add: example_adapter_parameters_def example_new_conf_def py_getitem_def dict_getitem_def
      and_then_simps)

lemma example_migration:
  assumes free: "(VStr ''guest'', VInt 9999, VStr ''guest-9999#host-10000#model'', VStr u) \<notin> set reg"
    and gen: "gen_model_id mr = Inr (VStr new_model_id)"
    and new: "migrate_party_model_id (example_config u mp mr) (VStr ''guest'') = Inr new_id"
    and lists: "migration_lists (example_config u mp mr) = Inr (og, ng, oh, nh, oa, na)"
    and ascii: "\<forall>c\<in>set new_model_id. (of_char c :: nat) < 128" "\<forall>c\<in>set u. (of_char c :: nat) < 128"
  shows "migration (example_env reg) (example_config u mp mr) w
         = (Inr (0, Text (example_message new_model_id u),
                 [(''model_id'', new_id), (''model_version'', VStr u), (''path'', VStr ''/data/model.zip'')]),
            w @ example_trace (PipelinedModel new_id (VStr u)) ng nh (example_blob mr mp new_model_id u))"
proof -
  have "migration_try (example_env reg) (example_config u mp mr) (VStr ''guest-9999#host-10000#model'')
           (VStr ''v1'') (VStr ''guest'') (VInt 9999) (VStr u) w
         = (Inr (example_message new_model_id u,
                 [(''model_id'', new_id), (''model_version'', VStr u), (''path'', VStr ''/data/model.zip'')]),
            w @ example_trace (PipelinedModel new_id (VStr u)) ng nh (example_blob mr mp new_model_id u))"
    by (rule example_migration_try[OF free new lists example_update_pipeline[OF gen ascii]
          example_parameters]) (simp add: dict_get_def)
  then show ?thesis
    by (simp add: migration_def example_read_identity)
qed

lemma example_migration_try_occupied:
  assumes "(VStr ''guest'', VInt 9999, VStr ''guest-9999#host-10000#model'', VStr u) \<in> set reg"
  shows "migration_try (example_env reg) (example_config u mp mr) (VStr ''guest-9999#host-10000#model'')
           (VStr ''v1'') (VStr ''guest'') (VInt 9999) (VStr u) w
         = (Inl (occupied_error (VStr u)), w)"
  using assms
  apply (simp add: migration_try_def sync_source_def example_env_simps
      open_source_def new_model_def example_source_id check_unify_version_def then_do_const)
  apply (simp add: raise_def)
  done

lemma example_migration_occupied:
  assumes "(VStr ''guest'', VInt 9999, VStr ''guest-9999#host-10000#model'', VStr u) \<in> set reg"
  shows "migration (example_env reg) (example_config u mp mr) w
         = (Inr (100, StrOf (occupied_error (VStr u)), []), w @ [LogException (occupied_error (VStr u))])"
  by (simp add: migration_def example_read_identity example_migration_try_occupied[OF assms])

lemma migration_try_occupied:
  assumes occ: "\<forall>w. get_or_none env w (local_role, local_party_id, model_id, unify_model_version) = Inr True"
  shows "\<exists>e w1. migration_try env config_data model_id model_version local_role local_party_id
                    unify_model_version w = (Inl e, w1)
           \<and> (w1 = w \<or> w1 = w @ [SyncDownload (local_role, local_party_id, model_id, model_version)])
           \<and> (\<forall>source_model.
                 sync_source env (local_role, local_party_id, model_id, model_version) w = (Inr (), w1)
                 \<and> open_source env model_id model_version local_role local_party_id w1
                     = (Inr source_model, w1)
                 \<longrightarrow> e = occupied_error unify_model_version)"
proof -
  let ?key = "(local_role, local_party_id, model_id, model_version)"
  obtain r w1 where s: "sync_source env ?key w = (r, w1)" by (cases "sync_source env ?key w") auto
  with sync_source_world[of env ?key w] have w1: "w1 = w \<or> w1 = w @ [SyncDownload ?key]" by simp
  show ?thesis
  proof (cases r)
    case (Inl e)
    with s have "migration_try env config_data model_id model_version local_role local_party_id
                    unify_model_version w = (Inl e, w1)"
      by (simp add: migration_try_def then_do_def)
    with w1 s Inl show ?thesis by auto
  next
    case (Inr u)
    obtain r2 w2 where o: "open_source env model_id model_version local_role local_party_id w1 = (r2, w2)"
      by (cases "open_source env model_id model_version local_role local_party_id w1") auto
    from open_source_world[OF o] have w2: "w2 = w1" .
    show ?thesis
    proof (cases r2)
      case (Inl e)
      with s Inr o w2 have "migration_try env config_data model_id model_version local_role local_party_id
                    unify_model_version w = (Inl e, w1)"
        by (simp add: migration_try_def then_do_def)
      with w1 o Inl w2 show ?thesis by auto
    next
      case (Inr source_model)
      from occ have "check_unify_version env local_role local_party_id model_id unify_model_version w1
                       = (Inl (occupied_error unify_model_version), w1)"
        by (simp add: check_unify_version_eq)
      with s \<open>r = Inr u\<close> o w2 Inr
      have "migration_try env config_data model_id model_version local_role local_party_id
                    unify_model_version w = (Inl (occupied_error unify_model_version), w1)"
        by (simp add: migration_try_def then_do_def)
      with w1 show ?thesis by auto
    qed
  qed
qed

section \<open>The pipeline blob of the new model\<close>

lemma map_of_dict_setitem:
  "map_of (dict_setitem d k v) k' = (if k' = k then Some v else map_of d k')"
  by (induction d) auto

lemma pb_val_dict_setitem: "k' \<noteq> k \<Longrightarrow> pb_val (dict_setitem p k v) k' = pb_val p k'"
  by (simp add: pb_val_def map_of_dict_setitem)

lemma gen_model_id_str:
  assumes "gen_model_id r = Inr v"
  shows "\<exists>s. v = VStr s \<and> truthy v"
proof -
  from assms obtain k s where k: "all_party_key r = Inr k"
    and s: "str_join ''#'' [k, VStr ''model''] = Inr s" and v: "v = VStr s"
    by (auto simp: gen_model_id_def split: sum.splits)
  from s obtain a where "k = VStr a" by (cases k) (auto simp: str_join_def)
  with s have "s = a @ ''#model''" by (auto simp: str_join_def)
  with v show ?thesis by simp
qed

lemma py_bytes_Inr: "py_bytes v = Inr b \<Longrightarrow> \<exists>s. v = VStr s \<and> b = utf8_encode s"
  by (cases v) (auto simp: py_bytes_def)

lemma set_role_initiator:
  assumes "py_setitem conf0 ''role'' migrate_role = Inr conf1"
    and "py_setitem conf1 ''initiator'' migrate_initiator = Inr conf2"
  shows "py_getitem conf2 ''role'' = Inr migrate_role \<and> py_getitem conf2 ''initiator'' = Inr migrate_initiator"
  using assms
  by (cases conf0; cases conf1)
     (auto simp: py_setitem_def py_getitem_def dict_getitem_def map_of_dict_setitem)

lemma update_pipeline_Inr:
  assumes u: "update_pipeline env config_data migrate_model pipeline_model = Inr (blob, adapter)"
    and ac: "adapter_contract env"
    and tv: "truthy (pm_model_version migrate_model)"
  shows "\<exists>migrate_role migrate_initiator new_model_id conf dumped version.
           dict_getitem config_data ''migrate_role'' = Inr migrate_role
           \<and> dict_getitem config_data ''migrate_initiator'' = Inr migrate_initiator
           \<and> gen_model_id migrate_role = Inr (VStr new_model_id)
           \<and> pm_model_version migrate_model = VStr version
           \<and> py_getitem conf ''role'' = Inr migrate_role
           \<and> py_getitem conf ''initiator'' = Inr migrate_initiator
           \<and> json_dumps env conf = Inr dumped
           \<and> map_of blob ''train_runtime_conf'' = Some (PBytes dumped)
           \<and> map_of blob ''model_id'' = Some (PBytes (utf8_encode new_model_id))
           \<and> map_of blob ''model_version'' = Some (PBytes (utf8_encode version))
           \<and> (if compare_version env (pb_val pipeline_model ''fate_version'') (VStr ''1.5.0'')
                   = Inr (VStr ''gt'')
               then (\<exists>role party_id.
                       py_getitem migrate_initiator ''role'' = Inr role
                       \<and> py_getitem migrate_initiator ''party_id'' = Inr party_id
                       \<and> map_of blob ''initiator_role'' = Some (PVal role)
                       \<and> map_of blob ''initiator_party_id'' = Some (PVal party_id))
               else map_of blob ''initiator_role'' = map_of pipeline_model ''initiator_role''
                    \<and> map_of blob ''initiator_party_id'' = map_of pipeline_model ''initiator_party_id'')"
proof -
  from u obtain conf0 migrate_role conf1 migrate_initiator conf2 role2 new_id conf adapter' dumped
      cp b1 cp' b2 c where
    l: "json_loads env (pb_bytes pipeline_model ''train_runtime_conf'') = Inr conf0"
    and mr: "dict_getitem config_data ''migrate_role'' = Inr migrate_role"
    and s1: "py_setitem conf0 ''role'' migrate_role = Inr conf1"
    and mi: "dict_getitem config_data ''migrate_initiator'' = Inr migrate_initiator"
    and s2: "py_setitem conf1 ''initiator'' migrate_initiator = Inr conf2"
    and g1: "py_getitem conf2 ''role'' = Inr role2"
    and g2: "gen_model_id role2 = Inr new_id"
    and up: "update_model_id_version env conf2 new_id (pm_model_version migrate_model) = Inr (conf, adapter')"
    and d: "json_dumps env conf = Inr dumped"
    and cp: "common_parameters env adapter' = Inr cp"
    and b1: "py_bytes (dict_get cp ''model_id'' VNone) = Inr b1"
    and cp': "common_parameters env adapter' = Inr cp'"
    and b2: "py_bytes (dict_get cp' ''model_version'' VNone) = Inr b2"
    and c: "compare_version env
              (pb_val (dict_setitem (dict_setitem (dict_setitem pipeline_model
                 ''train_runtime_conf'' (PBytes dumped)) ''model_id'' (PBytes b1))
                 ''model_version'' (PBytes b2)) ''fate_version'') (VStr ''1.5.0'') = Inr c"
    and fin: "(if c = VStr ''gt'' then
       and_then (and_then (dict_getitem config_data ''migrate_initiator'') (\<lambda>i. py_getitem i ''role''))
         (\<lambda>initiator_role.
       and_then (and_then (dict_getitem config_data ''migrate_initiator'') (\<lambda>i. py_getitem i ''party_id''))
         (\<lambda>initiator_party_id.
       Inr (dict_setitem (dict_setitem (dict_setitem (dict_setitem (dict_setitem pipeline_model
                 ''train_runtime_conf'' (PBytes dumped)) ''model_id'' (PBytes b1))
                 ''model_version'' (PBytes b2)) ''initiator_role'' (PVal initiator_role))
              ''initiator_party_id'' (PVal initiator_party_id), adapter')))
     else Inr (dict_setitem (dict_setitem (dict_setitem pipeline_model
                 ''train_runtime_conf'' (PBytes dumped)) ''model_id'' (PBytes b1))
                 ''model_version'' (PBytes b2), adapter')) = Inr (blob, adapter)"
    by (auto simp: update_pipeline_def Let_def and_then_Inr split: prod.splits cong: if_cong)
  from set_role_initiator[OF s1 s2] have r: "py_getitem conf2 ''role'' = Inr migrate_role"
    and i: "py_getitem conf2 ''initiator'' = Inr migrate_initiator" by simp_all
  from r g1 have role2: "role2 = migrate_role" by simp
  from gen_model_id_str[OF g2] obtain new_model_id where n: "new_id = VStr new_model_id"
    and tn: "truthy new_id" by blast
  from ac up tn tv cp have k: "py_getitem conf ''role'' = py_getitem conf2 ''role''"
    "py_getitem conf ''initiator'' = py_getitem conf2 ''initiator''"
    "dict_get cp ''model_id'' VNone = new_id"
    "dict_get cp ''model_version'' VNone = pm_model_version migrate_model"
    unfolding adapter_contract_def by blast+
  from cp cp' have "cp' = cp" by simp
  with b1 b2 k n obtain version where ver: "pm_model_version migrate_model = VStr version"
    and b1': "b1 = utf8_encode new_model_id" and b2': "b2 = utf8_encode version"
    by (auto dest!: py_bytes_Inr)
  have fv: "pb_val (dict_setitem (dict_setitem (dict_setitem pipeline_model
                 ''train_runtime_conf'' (PBytes dumped)) ''model_id'' (PBytes b1))
                 ''model_version'' (PBytes b2)) ''fate_version'' = pb_val pipeline_model ''fate_version''"
    by (simp add: pb_val_dict_setitem)
  have tail: "(if compare_version env (pb_val pipeline_model ''fate_version'') (VStr ''1.5.0'')
                   = Inr (VStr ''gt'')
               then (\<exists>role party_id.
                       py_getitem migrate_initiator ''role'' = Inr role
                       \<and> py_getitem migrate_initiator ''party_id'' = Inr party_id
                       \<and> map_of blob ''initiator_role'' = Some (PVal role)
                       \<and> map_of blob ''initiator_party_id'' = Some (PVal party_id))
               else map_of blob ''initiator_role'' = map_of pipeline_model ''initiator_role''
                    \<and> map_of blob ''initiator_party_id'' = map_of pipeline_model ''initiator_party_id'')"
    using fin c mi unfolding fv
    by (auto simp: and_then_Inr map_of_dict_setitem split: if_splits)
  have heads: "map_of blob ''train_runtime_conf'' = Some (PBytes dumped)"
    "map_of blob ''model_id'' = Some (PBytes (utf8_encode new_model_id))"
    "map_of blob ''model_version'' = Some (PBytes (utf8_encode version))"
    using fin mi b1' b2'
    by (auto simp: and_then_Inr map_of_dict_setitem split: if_splits)
  from mr mi g2 role2 n ver k r i d heads tail show ?thesis by auto
qed
lemma migration_Inr_0:
  assumes "migration env config_data w = (Inr (0, msg, data), w')"
  shows "\<exists>model_id model_version local_role local_party_id unify_model_version m.
           read_identity config_data
             = Inr (model_id, model_version, local_role, local_party_id, unify_model_version)
           \<and> dict_getitem config_data ''unify_model_version'' = Inr unify_model_version
           \<and> migration_try env config_data model_id model_version local_role local_party_id
               unify_model_version w = (Inr (m, data), w')
           \<and> msg = Text m"
proof (cases "read_identity config_data")
  case (Inl e)
  with assms show ?thesis by (simp add: migration_def)
next
  case (Inr ids)
  obtain model_id model_version local_role local_party_id unify_model_version where
    ids: "ids = (model_id, model_version, local_role, local_party_id, unify_model_version)"
    by (cases ids) auto
  from Inr ids have u: "dict_getitem config_data ''unify_model_version'' = Inr unify_model_version"
    by (auto simp: read_identity_def and_then_Inr)
  obtain r w1 where t: "migration_try env config_data model_id model_version local_role local_party_id
               unify_model_version w = (r, w1)"
    by (cases "migration_try env config_data model_id model_version local_role local_party_id
               unify_model_version w") auto
  show ?thesis
  proof (cases r)
    case (Inl e)
    with assms Inr ids t show ?thesis by (simp add: migration_def)
  next
    case r: (Inr res)
    obtain m d where "res = (m, d)" by (cases res) auto
    with assms Inr ids t r u show ?thesis by (simp add: migration_def)
  qed
qed

lemma example_adapter_contract: "adapter_contract (example_env reg)"
  unfolding adapter_contract_def example_env_simps
proof (intro allI impI)
  fix conf model_id model_version conf' adapter
  assume a: "example_adapter_update conf model_id model_version = Inr (conf', adapter)
             \<and> truthy model_id \<and> truthy model_version"
  then obtain d where d: "conf = VDict d"
    by (cases conf) (auto simp: example_adapter_update_def py_setitem_def and_then_def)
  with a have c: "conf' = VDict (dict_setitem d ''job_parameters''
                      (VDict [(''model_id'', model_id), (''model_version'', model_version)]))"
    and ad: "adapter = conf'"
    by (auto simp: example_adapter_update_def py_setitem_def and_then_def)
  show "py_getitem conf' ''role'' = py_getitem conf ''role''
        \<and> py_getitem conf' ''initiator'' = py_getitem conf ''initiator''
        \<and> (\<forall>cp. example_adapter_parameters adapter = Inr cp \<longrightarrow>
               dict_get cp ''model_id'' VNone = model_id
               \<and> dict_get cp ''model_version'' VNone = model_version)"
    by (auto simp: c ad d py_getitem_def dict_getitem_def map_of_dict_setitem
        example_adapter_parameters_def and_then_def dict_get_def)
qed


section \<open>Migration of a well-formed configuration\<close>

lemma collect_Inr:
  "(\<And>x. x \<in> set xs \<Longrightarrow> \<exists>y. f x = Inr y) \<Longrightarrow> \<exists>ys. collect (map f xs) = Inr ys"
proof (induction xs)
  case Nil
  then show ?case by simp
next
  case (Cons x xs)
  from Cons.prems[of x] obtain y where y: "f x = Inr y" by auto
  from Cons.IH Cons.prems obtain ys where "collect (map f xs) = Inr ys" by auto
  with y show ?case by simp
qed

lemma sorted_set_party_list: "party_list v \<Longrightarrow> \<exists>ps. sorted_set v = Inr ps"
proof (cases v)
  case (VList xs)
  assume "party_list v"
  with VList have t: "list_all is_VInt xs \<or> list_all is_VStr xs" by (simp add: party_list_def)
  then have "list_all hashable xs"
    unfolding list_all_iff by (auto simp: hashable_def split: pyval.splits)
  with t VList show ?thesis by (auto simp: sorted_set_def)
qed (simp_all add: party_list_def)

lemma role_party_key_table:
  assumes "party_table d" and "k \<in> fst ` set d"
  shows "\<exists>s. role_party_key d k = Inr s"
proof -
  from assms(2) obtain v where v: "map_of d k = Some v"
    by (cases "map_of d k") (auto simp: map_of_eq_None_iff)
  then have "(k, v) \<in> set d" by (rule map_of_SomeD)
  with assms(1) have "party_list v" by (auto simp: party_table_def list_all_iff)
  from sorted_set_party_list[OF this] obtain ps where "sorted_set v = Inr ps" by blast
  with v show ?thesis by (simp add: role_party_key_def dict_getitem_def)
qed

lemma gen_model_id_table:
  assumes "party_table d"
  shows "\<exists>s. gen_model_id (VDict d) = Inr (VStr s)"
proof (cases "d = []")
  case True
  then show ?thesis by (simp add: gen_model_id_def all_party_key_def str_join_def)
next
  case False
  have "\<exists>ys. collect (map (role_party_key d) (sort (map fst d))) = Inr ys"
    by (rule collect_Inr) (use assms in \<open>auto intro: role_party_key_table\<close>)
  then obtain ys where "collect (map (role_party_key d) (sort (map fst d))) = Inr ys" by blast
  with False show ?thesis by (simp add: gen_model_id_def all_party_key_def str_join_def)
qed

lemma gen_party_model_id_str:
  "model_id \<noteq> [] \<Longrightarrow>
     gen_party_model_id (VStr model_id) (VStr role) party_id
       = Inr (VStr (role @ ''#'' @ py_str party_id @ ''#'' @ model_id))"
  by (simp add: gen_party_model_id_def str_join_def)

lemma party_model_id_inject:
  assumes "CHR ''#'' \<notin> set p1" and "CHR ''#'' \<notin> set p2"
  shows "role @ ''#'' @ p1 @ ''#'' @ m1 = role @ ''#'' @ p2 @ ''#'' @ m2 \<longleftrightarrow> p1 = p2 \<and> m1 = m2"
proof
  assume "role @ ''#'' @ p1 @ ''#'' @ m1 = role @ ''#'' @ p2 @ ''#'' @ m2"
  then have "p1 @ CHR ''#'' # m1 = p2 @ CHR ''#'' # m2" by simp
  then have "split_once CHR ''#'' (p1 @ CHR ''#'' # m1) = split_once CHR ''#'' (p2 @ CHR ''#'' # m2)"
    by simp
  with assms show "p1 = p2 \<and> m1 = m2" by (simp add: split_once_first)
qed simp

lemma migration_lists_succeed:
  assumes "dict_getitem config_data ''role'' = Inr (VDict role)"
    and "dict_getitem config_data ''migrate_role'' = Inr (VDict migrate_role)"
    and "''guest'' \<in> fst ` set role" and "''host'' \<in> fst ` set role"
    and "''guest'' \<in> fst ` set migrate_role" and "''host'' \<in> fst ` set migrate_role"
  shows "\<exists>ls. migration_lists config_data = Inr ls"
proof -
  from assms(3,4) obtain og oh where o: "map_of role ''guest'' = Some og" "map_of role ''host'' = Some oh"
    by (cases "map_of role ''guest''"; cases "map_of role ''host''") (auto simp: map_of_eq_None_iff)
  from assms(5,6) obtain ng nh where n: "map_of migrate_role ''guest'' = Some ng"
    "map_of migrate_role ''host'' = Some nh"
    by (cases "map_of migrate_role ''guest''"; cases "map_of migrate_role ''host''")
       (auto simp: map_of_eq_None_iff)
  from assms(1,2) have g: "dict_get config_data ''role'' (VDict []) = VDict role"
    "dict_get config_data ''migrate_role'' (VDict []) = VDict migrate_role"
    by (auto simp: dict_getitem_def dict_get_def split: option.splits)
  show ?thesis
    using assms(1,2) o n g
    by (simp add: migration_lists_def and_then_simps py_getitem_def dict_getitem_def py_get_def)
qed

lemma update_pipeline_succeeds:
  assumes ca: "codec_and_adapter_succeed env"
    and ac: "adapter_contract env"
    and rp: "read_pipeline_model env w m = Inr p"
    and mr: "dict_getitem config_data ''migrate_role'' = Inr role"
    and gm: "gen_model_id role = Inr new_model_id"
    and mi: "dict_getitem config_data ''migrate_initiator'' = Inr initiator"
    and ir: "py_getitem initiator ''role'' = Inr initiator_role"
    and ip: "py_getitem initiator ''party_id'' = Inr initiator_party_id"
    and v: "pm_model_version migrate_model = VStr unify" and u: "unify \<noteq> []"
  shows "\<not> isl (update_pipeline env config_data migrate_model p)"
proof -
  from ca rp obtain d where l: "json_loads env (pb_bytes p ''train_runtime_conf'') = Inr (VDict d)"
    unfolding codec_and_adapter_succeed_def by blast
  let ?d2 = "dict_setitem (dict_setitem d ''role'' role) ''initiator'' initiator"
  have s1: "py_setitem (VDict d) ''role'' role = Inr (VDict (dict_setitem d ''role'' role))"
    and s2: "py_setitem (VDict (dict_setitem d ''role'' role)) ''initiator'' initiator = Inr (VDict ?d2)"
    by (simp_all add: py_setitem_def)
  from set_role_initiator[OF s1 s2] have g: "py_getitem (VDict ?d2) ''role'' = Inr role" by simp
  from gen_model_id_str[OF gm] obtain s where n: "new_model_id = VStr s" and tn: "truthy new_model_id"
    by blast
  from ca obtain conf adapter cp where
    up: "update_model_id_version env (VDict ?d2) (VStr s) (VStr unify) = Inr (conf, adapter)"
    and cp: "common_parameters env adapter = Inr cp"
    unfolding codec_and_adapter_succeed_def by blast
  from ac up tn[unfolded n] u cp have k: "dict_get cp ''model_id'' VNone = VStr s"
    "dict_get cp ''model_version'' VNone = VStr unify"
    unfolding adapter_contract_def by (metis truthy.simps(3))+
  from ca obtain dumped where dm: "json_dumps env conf = Inr dumped"
    unfolding codec_and_adapter_succeed_def by (metis not_isl_Inr)
  from ca have "\<And>a b. \<exists>c. compare_version env a b = Inr c"
    unfolding codec_and_adapter_succeed_def by (metis not_isl_Inr)
  then have c: "\<exists>c. compare_version env (pb_val q ''fate_version'') (VStr ''1.5.0'') = Inr c" for q
    by blast
  show ?thesis
    using c[of "dict_setitem (dict_setitem (dict_setitem p ''train_runtime_conf'' (PBytes dumped))
              ''model_id'' (PBytes (utf8_encode s))) ''model_version'' (PBytes (utf8_encode unify))"]
    by (auto simp: update_pipeline_def l mr mi s1 s2 g gm[unfolded n] v up dm cp k ir ip py_bytes_def
        and_then_simps py_setitem_def Let_def split: if_splits)
qed

section \<open>C1: what migration returns\<close>

text \<open>
  C1 (amended). The five reads of the configuration stand before the \<^verbatim>\<open>try\<close>: an
  exception of one of them leaves \<^verbatim>\<open>migration\<close> and nothing is returned. Once they have
  succeeded, an exception \<open>e\<close> of any later step is logged and \<^verbatim>\<open>migration\<close> returns the
  code 100, \<^verbatim>\<open>str(e)\<close> and the empty dictionary; and when every step succeeds it returns
  the code 0, the message and the dictionary of the party model id of the new model, the
  unify model version and the path of the archive.
\<close>

theorem migration_outcomes:
  "(read_identity config_data = Inl e \<longrightarrow> migration env config_data w = (Inl e, w))
   \<and> (read_identity config_data
         = Inr (model_id, model_version, local_role, local_party_id, unify_model_version)
        \<and> migration_try env config_data model_id model_version local_role local_party_id
            unify_model_version w = (Inl e, w1)
        \<longrightarrow> migration env config_data w = (Inr (100, StrOf e, []), w1 @ [LogException e]))
   \<and> (read_identity config_data
         = Inr (model_id, model_version, local_role, local_party_id, unify_model_version)
        \<and> migration_try env config_data model_id model_version local_role local_party_id
            unify_model_version w = (Inr (msg, data), w1)
        \<longrightarrow> migration env config_data w = (Inr (0, Text msg, data), w1)
            \<and> (\<exists>new_id path.
                  migrate_party_model_id config_data local_role = Inr new_id
                  \<and> archive_abspath env w1 (PipelinedModel new_id unify_model_version) = Inr path
                  \<and> data = [(''model_id'', new_id), (''model_version'', unify_model_version),
                             (''path'', VStr path)]))"
proof (intro conjI impI)
  assume "read_identity config_data = Inl e"
  then show "migration env config_data w = (Inl e, w)" by (simp add: migration_def)
next
  assume "read_identity config_data
            = Inr (model_id, model_version, local_role, local_party_id, unify_model_version)
          \<and> migration_try env config_data model_id model_version local_role local_party_id
              unify_model_version w = (Inl e, w1)"
  then show "migration env config_data w = (Inr (100, StrOf e, []), w1 @ [LogException e])"
    by (simp add: migration_def)
next
  assume a: "read_identity config_data
            = Inr (model_id, model_version, local_role, local_party_id, unify_model_version)
          \<and> migration_try env config_data model_id model_version local_role local_party_id
              unify_model_version w = (Inr (msg, data), w1)"
  then show "migration env config_data w = (Inr (0, Text msg, data), w1)"
    by (simp add: migration_def)
  from a migration_try_Inr obtain source_model migrate_model w0 w2 where
    mm: "migrate_models env config_data source_model local_role unify_model_version w0
           = (Inr migrate_model, w2)"
    and mp: "migrate_pipeline env config_data source_model migrate_model local_role local_party_id w2
           = (Inr (msg, data), w1)"
    by blast
  from migrate_models_Inr[OF mm] obtain new_id where
    new: "migrate_party_model_id config_data local_role = Inr new_id"
    and m: "migrate_model = PipelinedModel new_id unify_model_version"
    by blast
  from migrate_pipeline_Inr[OF mp] obtain adapter where
    "migration_result env migrate_model adapter w1 = (Inr (msg, data), w1)"
    by blast
  from migration_result_Inr[OF this] m obtain path where
    "archive_abspath env w1 (PipelinedModel new_id unify_model_version) = Inr path"
    "data = [(''model_id'', new_id), (''model_version'', unify_model_version), (''path'', VStr path)]"
    by auto
  with new show "\<exists>new_id path.
      migrate_party_model_id config_data local_role = Inr new_id
      \<and> archive_abspath env w1 (PipelinedModel new_id unify_model_version) = Inr path
      \<and> data = [(''model_id'', new_id), (''model_version'', unify_model_version),
                 (''path'', VStr path)]"
    by blast
qed

theorem migration_outcomes_witness:
  "migration (example_env []) [(''model_id'', VStr ''m'')] [] = (Inl (KeyError ''model_version''), [])
   \<and> migration (example_env [(VStr ''guest'', VInt 9999, VStr ''guest-9999#host-10000#model'', VStr ''v2'')])
        (example_config ''v2'' 99 example_migrate_role) []
      = (Inr (100, StrOf (occupied_error (VStr ''v2'')), []), [LogException (occupied_error (VStr ''v2''))])
   \<and> migration (example_env []) (example_config ''v2'' 99 example_migrate_role) []
      = (Inr (0, Text (example_message ''guest-99#host-100#model'' ''v2''),
              [(''model_id'', VStr ''guest#99#guest-99#host-100#model''),
               (''model_version'', VStr ''v2''), (''path'', VStr ''/data/model.zip'')]),
         example_trace (PipelinedModel (VStr ''guest#99#guest-99#host-100#model'') (VStr ''v2''))
           (VList [VInt 99]) (VList [VInt 100])
           (example_blob example_migrate_role 99 ''guest-99#host-100#model'' ''v2''))"
proof (intro conjI)
  have r: "read_identity [(''model_id'', VStr ''m'')] = Inl (KeyError ''model_version'')"
    by (simp add: read_identity_def and_then_def dict_getitem_def)
  show "migration (example_env []) [(''model_id'', VStr ''m'')] [] = (Inl (KeyError ''model_version''), [])"
    using migration_outcomes[of "[(''model_id'', VStr ''m'')]" "KeyError ''model_version''" "example_env []" "[]"] r
    by simp
next
  let ?reg = "[(VStr ''guest'', VInt 9999, VStr ''guest-9999#host-10000#model'', VStr ''v2'')]"
  have t: "migration_try (example_env ?reg) (example_config ''v2'' 99 example_migrate_role)
             (VStr ''guest-9999#host-10000#model'') (VStr ''v1'') (VStr ''guest'') (VInt 9999) (VStr ''v2'') []
           = (Inl (occupied_error (VStr ''v2'')), [])"
    by (rule example_migration_try_occupied) simp
  show "migration (example_env ?reg) (example_config ''v2'' 99 example_migrate_role) []
      = (Inr (100, StrOf (occupied_error (VStr ''v2'')), []), [LogException (occupied_error (VStr ''v2''))])"
    using migration_outcomes[where config_data = "example_config ''v2'' 99 example_migrate_role"
        and env = "example_env ?reg" and w = "[]" and e = "occupied_error (VStr ''v2'')" and ?w1.0 = "[]"
        and model_id = "VStr ''guest-9999#host-10000#model''" and model_version = "VStr ''v1''"
        and local_role = "VStr ''guest''" and local_party_id = "VInt 9999"
        and unify_model_version = "VStr ''v2''"] t
    by (simp add: example_read_identity)
next
  let ?data = "[(''model_id'', VStr ''guest#99#guest-99#host-100#model''),
               (''model_version'', VStr ''v2''), (''path'', VStr ''/data/model.zip'')]"
  let ?trace = "example_trace (PipelinedModel (VStr ''guest#99#guest-99#host-100#model'') (VStr ''v2''))
           (VList [VInt 99]) (VList [VInt 100])
           (example_blob example_migrate_role 99 ''guest-99#host-100#model'' ''v2'')"
  have u: "update_pipeline (example_env []) (example_config ''v2'' 99 example_migrate_role)
             (PipelinedModel (VStr ''guest#99#guest-99#host-100#model'') (VStr ''v2'')) example_pipeline
           = Inr (example_blob example_migrate_role 99 ''guest-99#host-100#model'' ''v2'',
                  example_new_conf example_migrate_role 99 ''guest-99#host-100#model'' ''v2'')"
    by (rule example_update_pipeline[OF example_gen_model_id(1)]) simp_all
  have t: "migration_try (example_env []) (example_config ''v2'' 99 example_migrate_role)
             (VStr ''guest-9999#host-10000#model'') (VStr ''v1'') (VStr ''guest'') (VInt 9999) (VStr ''v2'') []
           = (Inr (example_message ''guest-99#host-100#model'' ''v2'', ?data), [] @ ?trace)"
    by (rule example_migration_try[OF _ example_new_id(1) example_lists(1) u example_parameters])
       (simp_all add: dict_get_def)
  show "migration (example_env []) (example_config ''v2'' 99 example_migrate_role) []
      = (Inr (0, Text (example_message ''guest-99#host-100#model'' ''v2''), ?data), ?trace)"
    using migration_outcomes[where config_data = "example_config ''v2'' 99 example_migrate_role"
        and env = "example_env []" and w = "[]" and ?w1.0 = "?trace"
        and msg = "example_message ''guest-99#host-100#model'' ''v2''" and data = "?data"
        and model_id = "VStr ''guest-9999#host-10000#model''" and model_version = "VStr ''v1''"
        and local_role = "VStr ''guest''" and local_party_id = "VInt 9999"
        and unify_model_version = "VStr ''v2''"] t
    by (simp add: example_read_identity)
qed

theorem migration_read_error_counterexample:
  "migration (example_env []) [] [] = (Inl (KeyError ''model_id''), [])"
  by (simp add: migration_def read_identity_def and_then_def dict_getitem_def)

section \<open>C2: the check of the unify model version\<close>

text \<open>
  C2 (amended). The key \<^verbatim>\<open>migration\<close> looks up before it writes is the local role, the
  local party id, the model id of the SOURCE and the unify model version. When that key is
  registered in the database, \<^verbatim>\<open>migration\<close> returns the code 100 and has made no call
  but, at most, the download of the source model: no component model and no pipeline blob
  is written. When the download and the opening of the source model succeed, the
  exception reported is the one of the occupied version.
\<close>

theorem occupied_version_stops_migration:
  assumes "read_identity config_data
             = Inr (model_id, model_version, local_role, local_party_id, unify_model_version)"
    and "\<forall>w. get_or_none env w (local_role, local_party_id, model_id, unify_model_version) = Inr True"
  shows "\<exists>e calls.
           migration env config_data w = (Inr (100, StrOf e, []), w @ calls @ [LogException e])
           \<and> (calls = [] \<or> calls = [SyncDownload (local_role, local_party_id, model_id, model_version)])
           \<and> \<not> list_ex is_save (calls @ [LogException e])
           \<and> (\<forall>source_model.
                 sync_source env (local_role, local_party_id, model_id, model_version) w
                   = (Inr (), w @ calls)
                 \<and> open_source env model_id model_version local_role local_party_id (w @ calls)
                     = (Inr source_model, w @ calls)
                 \<longrightarrow> e = occupied_error unify_model_version)"
proof -
  from migration_try_occupied[OF assms(2)] obtain e w1 where
    t: "migration_try env config_data model_id model_version local_role local_party_id
          unify_model_version w = (Inl e, w1)"
    and w1: "w1 = w \<or> w1 = w @ [SyncDownload (local_role, local_party_id, model_id, model_version)]"
    and o: "\<forall>source_model.
                 sync_source env (local_role, local_party_id, model_id, model_version) w = (Inr (), w1)
                 \<and> open_source env model_id model_version local_role local_party_id w1
                     = (Inr source_model, w1)
                 \<longrightarrow> e = occupied_error unify_model_version"
    by blast
  from assms(1) t have m: "migration env config_data w = (Inr (100, StrOf e, []), w1 @ [LogException e])"
    by (simp add: migration_def)
  from w1 show ?thesis
  proof
    assume "w1 = w"
    with m o show ?thesis by (intro exI[of _ e] exI[of _ "[]"]) simp
  next
    assume "w1 = w @ [SyncDownload (local_role, local_party_id, model_id, model_version)]"
    with m o show ?thesis
      by (intro exI[of _ e]
          exI[of _ "[SyncDownload (local_role, local_party_id, model_id, model_version)]"]) simp
  qed
qed

theorem occupied_version_stops_migration_witness:
  "(\<forall>w. get_or_none (example_env [(VStr ''guest'', VInt 9999, VStr ''guest-9999#host-10000#model'', VStr ''v2'')]) w
          (VStr ''guest'', VInt 9999, VStr ''guest-9999#host-10000#model'', VStr ''v2'') = Inr True)
   \<and> (\<exists>e calls.
         migration (example_env [(VStr ''guest'', VInt 9999, VStr ''guest-9999#host-10000#model'', VStr ''v2'')])
           (example_config ''v2'' 99 example_migrate_role) []
         = (Inr (100, StrOf e, []), calls @ [LogException e])
         \<and> \<not> list_ex is_save (calls @ [LogException e]))"
  using occupied_version_stops_migration[where config_data = "example_config ''v2'' 99 example_migrate_role"
      and env = "example_env [(VStr ''guest'', VInt 9999, VStr ''guest-9999#host-10000#model'', VStr ''v2'')]"
      and w = "[]"
      and model_id = "VStr ''guest-9999#host-10000#model''" and model_version = "VStr ''v1''"
      and local_role = "VStr ''guest''" and local_party_id = "VInt 9999"
      and unify_model_version = "VStr ''v2''"]
  by (simp add: example_read_identity example_env_simps) blast

theorem target_registered_counterexample:
  "get_or_none (example_env [(VStr ''guest'', VInt 99, VStr ''guest-99#host-100#model'', VStr ''v2''),
                             (VStr ''guest'', VInt 9999, VStr ''guest-99#host-100#model'', VStr ''v2'')]) []
      (VStr ''guest'', VInt 99, VStr ''guest-99#host-100#model'', VStr ''v2'') = Inr True
   \<and> migration (example_env [(VStr ''guest'', VInt 99, VStr ''guest-99#host-100#model'', VStr ''v2''),
                             (VStr ''guest'', VInt 9999, VStr ''guest-99#host-100#model'', VStr ''v2'')])
        (example_config ''v2'' 99 example_migrate_role) []
      = (Inr (0, Text (example_message ''guest-99#host-100#model'' ''v2''),
              [(''model_id'', VStr ''guest#99#guest-99#host-100#model''),
               (''model_version'', VStr ''v2''), (''path'', VStr ''/data/model.zip'')]),
         example_trace (PipelinedModel (VStr ''guest#99#guest-99#host-100#model'') (VStr ''v2''))
           (VList [VInt 99]) (VList [VInt 100])
           (example_blob example_migrate_role 99 ''guest-99#host-100#model'' ''v2''))
   \<and> list_ex is_save
        (example_trace (PipelinedModel (VStr ''guest#99#guest-99#host-100#model'') (VStr ''v2''))
           (VList [VInt 99]) (VList [VInt 100])
           (example_blob example_migrate_role 99 ''guest-99#host-100#model'' ''v2''))"
proof (intro conjI)
  show "get_or_none (example_env [(VStr ''guest'', VInt 99, VStr ''guest-99#host-100#model'', VStr ''v2''),
                             (VStr ''guest'', VInt 9999, VStr ''guest-99#host-100#model'', VStr ''v2'')]) []
      (VStr ''guest'', VInt 99, VStr ''guest-99#host-100#model'', VStr ''v2'') = Inr True"
    by (simp add: example_env_simps)
next
  show "migration (example_env [(VStr ''guest'', VInt 99, VStr ''guest-99#host-100#model'', VStr ''v2''),
                             (VStr ''guest'', VInt 9999, VStr ''guest-99#host-100#model'', VStr ''v2'')])
        (example_config ''v2'' 99 example_migrate_role) []
      = (Inr (0, Text (example_message ''guest-99#host-100#model'' ''v2''),
              [(''model_id'', VStr ''guest#99#guest-99#host-100#model''),
               (''model_version'', VStr ''v2''), (''path'', VStr ''/data/model.zip'')]),
         example_trace (PipelinedModel (VStr ''guest#99#guest-99#host-100#model'') (VStr ''v2''))
           (VList [VInt 99]) (VList [VInt 100])
           (example_blob example_migrate_role 99 ''guest-99#host-100#model'' ''v2''))"
    using example_migration[OF _ example_gen_model_id(1) example_new_id(1) example_lists(1),
        where w = "[]" and reg = "[(VStr ''guest'', VInt 99, VStr ''guest-99#host-100#model'', VStr ''v2''),
                             (VStr ''guest'', VInt 9999, VStr ''guest-99#host-100#model'', VStr ''v2'')]"]
    by simp
next
  show "list_ex is_save
        (example_trace (PipelinedModel (VStr ''guest#99#guest-99#host-100#model'') (VStr ''v2''))
           (VList [VInt 99]) (VList [VInt 100])
           (example_blob example_migrate_role 99 ''guest-99#host-100#model'' ''v2''))"
    by (simp add: example_trace_def)
qed

lemma example_codec_and_adapter: "codec_and_adapter_succeed (example_env reg)"
  by (simp add: codec_and_adapter_succeed_def example_env_simps example_pipeline_def pb_bytes_def
      example_adapter_update_def example_adapter_parameters_def py_setitem_def py_getitem_def
      dict_getitem_def map_of_dict_setitem and_then_simps)

lemma example_guest_only_migration:
  "migration (example_env []) (example_same_roles_config ''v2'' 9999 example_guest_only) []
     = (Inr (100, StrOf (KeyError ''host''), []), [LogException (KeyError ''host'')])"
proof -
  let ?cfg = "example_same_roles_config ''v2'' 9999 example_guest_only"
  have r: "read_identity ?cfg
     = Inr (VStr ''guest-9999#host-10000#model'', VStr ''v1'', VStr ''guest'', VInt 9999, VStr ''v2'')"
    by (simp add: read_identity_def example_same_roles_config_def example_config_def and_then_def
        dict_getitem_def py_getitem_def)
  have g: "gen_model_id example_guest_only = Inr (VStr ''guest-9999#model'')"
    by (simp add: example_guest_only_def gen_model_id_def all_party_key_def
      role_party_key_def dict_getitem_def sorted_set_def hashable_def str_join_def eval_simps)
  have new: "migrate_party_model_id ?cfg (VStr ''guest'') = Inr (VStr ''guest#9999#guest-9999#model'')"
    by (simp add: migrate_party_model_id_def example_same_roles_config_def example_config_def
        and_then_def dict_getitem_def py_getitem_def g gen_party_model_id_def str_join_def eval_simps)
  have lists: "migration_lists ?cfg = Inl (KeyError ''host'')"
    by (simp add: migration_lists_def example_same_roles_config_def example_config_def
        example_guest_only_def and_then_def dict_getitem_def py_getitem_def)
  have t: "migration_try (example_env []) ?cfg (VStr ''guest-9999#host-10000#model'')
           (VStr ''v1'') (VStr ''guest'') (VInt 9999) (VStr ''v2'') []
         = (Inl (KeyError ''host''), [])"
    apply (simp add: migration_try_def sync_source_def example_env_simps
      open_source_def new_model_def example_source_id check_unify_version_def
      migrate_models_def new_migrate_model_def new migrate_component_def lists
      then_do_const migrate_components_one and_then_simps example_component_def py_str_def)
    apply (simp add: then_do_def pure_def ret_def)
    done
  show ?thesis
    by (simp add: migration_def r t)
qed

section \<open>C8: migration with the roles unchanged\<close>

text \<open>
  C8 (amended). Let \<^verbatim>\<open>migrate_role\<close> equal \<^verbatim>\<open>role\<close>, a table of lists of party ids that
  holds the guest and the host; let the configuration hold the model id and the unify
  model version as non-empty strings, the local role as a string, the local party id and
  \<^verbatim>\<open>migrate_party_id\<close>, and the role and party id of \<^verbatim>\<open>migrate_initiator\<close>; let the
  source model be in the local cache, the unify model version be unoccupied, and the
  stores, the migrate tool, the codec and the adapter not fail. Then \<^verbatim>\<open>migration\<close>
  returns the code 0 and the identity of the new model: the party model id made of the
  local role, \<^verbatim>\<open>migrate_party_id\<close> and the model id generated from the roles, and the
  unify model version. Nothing compares this identity with the source's: it is the
  source's own exactly when the unify model version is the source's version,
  \<^verbatim>\<open>migrate_party_id\<close> prints as the local party id, and the source's model id is the one
  generated from the roles; in every other case it differs.
\<close>

theorem migration_same_roles:
  assumes cs: "collaborators_succeed env"
    and ca: "codec_and_adapter_succeed env"
    and ac: "adapter_contract env"
    and c_model_id: "dict_getitem config_data ''model_id'' = Inr (VStr model_id)"
    and m_ne: "model_id \<noteq> []"
    and c_version: "dict_getitem config_data ''model_version'' = Inr model_version"
    and c_local: "dict_getitem config_data ''local'' = Inr local"
    and l_role: "py_getitem local ''role'' = Inr (VStr local_role)"
    and l_party: "py_getitem local ''party_id'' = Inr local_party_id"
    and l_migrate: "py_getitem local ''migrate_party_id'' = Inr migrate_party_id"
    and c_unify: "dict_getitem config_data ''unify_model_version'' = Inr (VStr unify)"
    and u_ne: "unify \<noteq> []"
    and c_role: "dict_getitem config_data ''role'' = Inr (VDict role)"
    and same: "dict_getitem config_data ''migrate_role'' = dict_getitem config_data ''role''"
    and table: "party_table role"
    and guest: "''guest'' \<in> fst ` set role"
    and host: "''host'' \<in> fst ` set role"
    and c_init: "dict_getitem config_data ''migrate_initiator'' = Inr initiator"
    and i_role: "py_getitem initiator ''role'' = Inr initiator_role"
    and i_party: "py_getitem initiator ''party_id'' = Inr initiator_party_id"
    and h_local: "CHR ''#'' \<notin> set (py_str local_party_id)"
    and h_migrate: "CHR ''#'' \<notin> set (py_str migrate_party_id)"
    and present: "\<forall>w source_id.
                    gen_party_model_id (VStr model_id) (VStr local_role) local_party_id = Inr source_id
                    \<longrightarrow> pm_exists env w (PipelinedModel source_id model_version) = Inr True"
    and free: "\<forall>w. get_or_none env w (VStr local_role, local_party_id, VStr model_id, VStr unify)
                 = Inr False"
  shows "\<exists>new_model_id new_id source_id msg path calls.
           gen_model_id (VDict role) = Inr (VStr new_model_id)
           \<and> gen_party_model_id (VStr new_model_id) (VStr local_role) migrate_party_id = Inr new_id
           \<and> gen_party_model_id (VStr model_id) (VStr local_role) local_party_id = Inr source_id
           \<and> migration env config_data w
               = (Inr (0, Text msg,
                       [(''model_id'', new_id), (''model_version'', VStr unify),
                        (''path'', VStr path)]), calls)
           \<and> ((new_id, VStr unify) = (source_id, model_version)
               \<longleftrightarrow> model_version = VStr unify
                   \<and> py_str migrate_party_id = py_str local_party_id
                   \<and> new_model_id = model_id)"
proof -
  from gen_model_id_table[OF table] obtain new_model_id where
    g: "gen_model_id (VDict role) = Inr (VStr new_model_id)" by blast
  from gen_model_id_str[OF g] have n_ne: "new_model_id \<noteq> []" by simp
  let ?source_id = "VStr (local_role @ ''#'' @ py_str local_party_id @ ''#'' @ model_id)"
  let ?new_id = "VStr (local_role @ ''#'' @ py_str migrate_party_id @ ''#'' @ new_model_id)"
  have src: "gen_party_model_id (VStr model_id) (VStr local_role) local_party_id = Inr ?source_id"
    using m_ne by (rule gen_party_model_id_str)
  have mr: "dict_getitem config_data ''migrate_role'' = Inr (VDict role)"
    using same c_role by simp
  have gn: "gen_party_model_id (VStr new_model_id) (VStr local_role) migrate_party_id = Inr ?new_id"
    using n_ne by (rule gen_party_model_id_str)
  have new: "migrate_party_model_id config_data (VStr local_role) = Inr ?new_id"
    by (simp add: migrate_party_model_id_def mr g gn c_local l_migrate and_then_simps)
  from present src have present': "\<forall>w. pm_exists env w (PipelinedModel ?source_id model_version) = Inr True"
    by blast
  from migration_lists_succeed[OF c_role mr guest host guest host] obtain ls where
    lists: "migration_lists config_data = Inr ls" by blast
  have upd: "\<forall>w p. read_pipeline_model env w (PipelinedModel ?source_id model_version) = Inr p
           \<longrightarrow> \<not> isl (update_pipeline env config_data (PipelinedModel ?new_id (VStr unify)) p)"
    using update_pipeline_succeeds[OF ca ac _ mr g c_init i_role i_party _ u_ne] by simp
  have ids: "read_identity config_data
               = Inr (VStr model_id, model_version, VStr local_role, local_party_id, VStr unify)"
    by (simp add: read_identity_def c_model_id c_version c_local l_role l_party c_unify and_then_simps)
  from migration_try_succeeds[OF cs src present' free new lists upd] obtain msg path calls where
    t: "migration_try env config_data (VStr model_id) model_version (VStr local_role) local_party_id
          (VStr unify) w
        = (Inr (msg, [(''model_id'', ?new_id), (''model_version'', VStr unify),
                      (''path'', VStr path)]), calls)"
    by blast
  have m: "migration env config_data w
             = (Inr (0, Text msg, [(''model_id'', ?new_id), (''model_version'', VStr unify),
                                   (''path'', VStr path)]), calls)"
    by (simp add: migration_def ids t)
  have e: "(?new_id, VStr unify) = (?source_id, model_version)
             \<longleftrightarrow> model_version = VStr unify
                 \<and> py_str migrate_party_id = py_str local_party_id \<and> new_model_id = model_id"
    using party_model_id_inject[OF h_migrate h_local, of local_role new_model_id model_id] by auto
  from g gn src m e show ?thesis by blast
qed
theorem migration_same_roles_witness:
  "\<exists>msg path calls.
     migration (example_env [(VStr ''guest'', VInt 9999, VStr ''guest-9999#host-10000#model'', VStr ''v1'')])
       (example_config ''v2'' 9999 example_role) []
     = (Inr (0, Text msg, [(''model_id'', VStr ''guest#9999#guest-9999#host-10000#model''),
                           (''model_version'', VStr ''v2''), (''path'', VStr path)]), calls)
     \<and> (VStr ''guest#9999#guest-9999#host-10000#model'', VStr ''v2'')
         \<noteq> (VStr ''guest#9999#guest-9999#host-10000#model'', VStr ''v1'')"
proof -
  let ?reg = "[(VStr ''guest'', VInt 9999, VStr ''guest-9999#host-10000#model'', VStr ''v1'')]"
  let ?cfg = "example_config ''v2'' 9999 example_role"
  let ?role = "[(''guest'', VList [VInt 9999]), (''host'', VList [VInt 10000])]"
  let ?local = "VDict [(''role'', VStr ''guest''), (''party_id'', VInt 9999), (''migrate_party_id'', VInt 9999)]"
  let ?init = "VDict [(''role'', VStr ''guest''), (''party_id'', VInt 9999)]"
  have c: "dict_getitem ?cfg ''model_id'' = Inr (VStr ''guest-9999#host-10000#model'')"
    "dict_getitem ?cfg ''model_version'' = Inr (VStr ''v1'')"
    "dict_getitem ?cfg ''local'' = Inr ?local"
    "dict_getitem ?cfg ''unify_model_version'' = Inr (VStr ''v2'')"
    "dict_getitem ?cfg ''role'' = Inr (VDict ?role)"
    "dict_getitem ?cfg ''migrate_role'' = dict_getitem ?cfg ''role''"
    "dict_getitem ?cfg ''migrate_initiator'' = Inr ?init"
    by (simp_all add: example_config_def example_role_def dict_getitem_def)
  have l: "py_getitem ?local ''role'' = Inr (VStr ''guest'')"
    "py_getitem ?local ''party_id'' = Inr (VInt 9999)"
    "py_getitem ?local ''migrate_party_id'' = Inr (VInt 9999)"
    "py_getitem ?init ''role'' = Inr (VStr ''guest'')"
    "py_getitem ?init ''party_id'' = Inr (VInt 9999)"
    by (simp_all add: py_getitem_def dict_getitem_def)
  have t: "party_table ?role" "''guest'' \<in> fst ` set ?role" "''host'' \<in> fst ` set ?role"
    by (simp_all add: party_table_def party_list_def)
  have p: "py_str (VInt 9999) = ''9999''" by (simp add: eval_simps)
  have h: "CHR ''#'' \<notin> set (py_str (VInt 9999))" by (simp add: p)
  have g: "gen_model_id (VDict ?role) = Inr (VStr ''guest-9999#host-10000#model'')"
    using example_gen_model_id(2) by (simp add: example_role_def)
  show ?thesis
    using migration_same_roles[OF example_collaborators[of ?reg] example_codec_and_adapter[of ?reg]
        example_adapter_contract[of ?reg] c(1) _ c(2) c(3) l(1) l(2) l(3) c(4) _ c(5) c(6) t c(7)
        l(4) l(5) h h, where w = "[]"]
    by (simp add: example_env_simps p g example_source_id)
qed

text \<open>
  Claim C8 as stated fails in both its parts. A source model that is in the local cache
  and not in the database, migrated with the roles and the party id unchanged and its
  own version as the unify model version, passes the check of the unify model version:
  the migration succeeds with the identity of the source. And with the roles unchanged
  but holding no host, the source model present and the unify model version unoccupied,
  the migration of the first component model fails on \<^verbatim>\<open>config_data['role']['host']\<close>.
\<close>

theorem migration_same_roles_counterexample:
  "migration (example_env []) (example_config ''v1'' 9999 example_role) []
     = (Inr (0, Text (example_message ''guest-9999#host-10000#model'' ''v1''),
             [(''model_id'', VStr ''guest#9999#guest-9999#host-10000#model''),
              (''model_version'', VStr ''v1''), (''path'', VStr ''/data/model.zip'')]),
        example_trace (PipelinedModel (VStr ''guest#9999#guest-9999#host-10000#model'') (VStr ''v1''))
          (VList [VInt 9999]) (VList [VInt 10000])
          (example_blob example_role 9999 ''guest-9999#host-10000#model'' ''v1''))
   \<and> gen_party_model_id (VStr ''guest-9999#host-10000#model'') (VStr ''guest'') (VInt 9999)
       = Inr (VStr ''guest#9999#guest-9999#host-10000#model'')
   \<and> pm_exists (example_env []) []
        (PipelinedModel (VStr ''guest#9999#guest-9999#host-10000#model'') (VStr ''v1'')) = Inr True
   \<and> get_or_none (example_env []) []
        (VStr ''guest'', VInt 9999, VStr ''guest-9999#host-10000#model'', VStr ''v1'') = Inr False
   \<and> dict_getitem (example_same_roles_config ''v2'' 9999 example_guest_only) ''migrate_role''
       = dict_getitem (example_same_roles_config ''v2'' 9999 example_guest_only) ''role''
   \<and> get_or_none (example_env []) []
        (VStr ''guest'', VInt 9999, VStr ''guest-9999#host-10000#model'', VStr ''v2'') = Inr False
   \<and> migration (example_env []) (example_same_roles_config ''v2'' 9999 example_guest_only) []
       = (Inr (100, StrOf (KeyError ''host''), []), [LogException (KeyError ''host'')])"
proof (intro conjI)
  show "migration (example_env []) (example_config ''v1'' 9999 example_role) []
     = (Inr (0, Text (example_message ''guest-9999#host-10000#model'' ''v1''),
             [(''model_id'', VStr ''guest#9999#guest-9999#host-10000#model''),
              (''model_version'', VStr ''v1''), (''path'', VStr ''/data/model.zip'')]),
        example_trace (PipelinedModel (VStr ''guest#9999#guest-9999#host-10000#model'') (VStr ''v1''))
          (VList [VInt 9999]) (VList [VInt 10000])
          (example_blob example_role 9999 ''guest-9999#host-10000#model'' ''v1''))"
    using example_migration[OF _ example_gen_model_id(2) example_new_id(2) example_lists(2),
        where w = "[]" and reg = "[]"]
    by simp
next
  show "migration (example_env []) (example_same_roles_config ''v2'' 9999 example_guest_only) []
       = (Inr (100, StrOf (KeyError ''host''), []), [LogException (KeyError ''host'')])"
    by (rule example_guest_only_migration)
qed (simp_all add: example_source_id example_env_simps example_same_roles_config_def
      example_config_def dict_getitem_def)

section \<open>C6: the pipeline blob that is stored\<close>

text \<open>
  C6. Let \<^verbatim>\<open>JobRuntimeConfigAdapter\<close> do what \<^verbatim>\<open>migration\<close> relies on, and the unify
  model version be truthy. When \<^verbatim>\<open>migration\<close> returns the code 0, the last calls made are
  the save of the pipeline blob, then the import configuration, the registration and the
  archive, and the blob that is saved holds: as \<^verbatim>\<open>train_runtime_conf\<close> the dump of a
  configuration whose role and initiator are \<^verbatim>\<open>migrate_role\<close> and \<^verbatim>\<open>migrate_initiator\<close>
  of the config; as model id the bytes of the id generated from \<^verbatim>\<open>migrate_role\<close>; as
  model version the bytes of the unify model version; and as \<^verbatim>\<open>initiator_role\<close> and
  \<^verbatim>\<open>initiator_party_id\<close> the role and party id of \<^verbatim>\<open>migrate_initiator\<close> if the FATE
  version of the blob compares greater than 1.5.0, and what the source blob holds
  otherwise.
\<close>

theorem pipeline_blob_updated:
  assumes ac: "adapter_contract env"
    and uv: "dict_getitem config_data ''unify_model_version'' = Inr unify_model_version"
    and tv: "truthy unify_model_version"
    and ok: "migration env config_data w = (Inr (0, msg, data), w')"
  shows "\<exists>source_model migrate_model pipeline_model blob calls local_role local_party_id
            migrate_role migrate_initiator new_model_id conf dumped version.
           w' = calls @ closing_calls migrate_model blob local_role local_party_id
           \<and> read_pipeline_model env calls source_model = Inr pipeline_model
           \<and> dict_getitem config_data ''migrate_role'' = Inr migrate_role
           \<and> dict_getitem config_data ''migrate_initiator'' = Inr migrate_initiator
           \<and> gen_model_id migrate_role = Inr (VStr new_model_id)
           \<and> unify_model_version = VStr version
           \<and> py_getitem conf ''role'' = Inr migrate_role
           \<and> py_getitem conf ''initiator'' = Inr migrate_initiator
           \<and> json_dumps env conf = Inr dumped
           \<and> map_of blob ''train_runtime_conf'' = Some (PBytes dumped)
           \<and> map_of blob ''model_id'' = Some (PBytes (utf8_encode new_model_id))
           \<and> map_of blob ''model_version'' = Some (PBytes (utf8_encode version))
           \<and> (if compare_version env (pb_val pipeline_model ''fate_version'') (VStr ''1.5.0'')
                   = Inr (VStr ''gt'')
               then (\<exists>role party_id.
                       py_getitem migrate_initiator ''role'' = Inr role
                       \<and> py_getitem migrate_initiator ''party_id'' = Inr party_id
                       \<and> map_of blob ''initiator_role'' = Some (PVal role)
                       \<and> map_of blob ''initiator_party_id'' = Some (PVal party_id))
               else map_of blob ''initiator_role'' = map_of pipeline_model ''initiator_role''
                    \<and> map_of blob ''initiator_party_id'' = map_of pipeline_model ''initiator_party_id'')"
proof -
  from migration_Inr_0[OF ok] uv obtain model_id model_version local_role local_party_id m where
    t: "migration_try env config_data model_id model_version local_role local_party_id
          unify_model_version w = (Inr (m, data), w')"
    by auto
  from migration_try_Inr[OF t] obtain source_model migrate_model w1 w2 where
    mm: "migrate_models env config_data source_model local_role unify_model_version w1
           = (Inr migrate_model, w2)"
    and mp: "migrate_pipeline env config_data source_model migrate_model local_role local_party_id w2
           = (Inr (m, data), w')"
    by blast
  from migrate_models_Inr[OF mm] have v: "pm_model_version migrate_model = unify_model_version"
    by auto
  from migrate_pipeline_Inr[OF mp] obtain pipeline_model blob adapter where
    r: "read_pipeline_model env w2 source_model = Inr pipeline_model"
    and u: "update_pipeline env config_data migrate_model pipeline_model = Inr (blob, adapter)"
    and w': "w' = w2 @ closing_calls migrate_model blob local_role local_party_id"
    by blast
  from tv v have "truthy (pm_model_version migrate_model)" by simp
  from update_pipeline_Inr[OF u ac this] r w' show ?thesis
    unfolding v by blast
qed

theorem pipeline_blob_updated_witness:
  "\<exists>source_model migrate_model pipeline_model blob calls local_role local_party_id
      migrate_role migrate_initiator new_model_id conf dumped version.
     example_trace (PipelinedModel (VStr ''guest#99#guest-99#host-100#model'') (VStr ''v2''))
       (VList [VInt 99]) (VList [VInt 100])
       (example_blob example_migrate_role 99 ''guest-99#host-100#model'' ''v2'')
     = calls @ closing_calls migrate_model blob local_role local_party_id
     \<and> example_pipeline = pipeline_model
     \<and> example_migrate_role = migrate_role
     \<and> VDict [(''role'', VStr ''guest''), (''party_id'', VInt 99)] = migrate_initiator
     \<and> gen_model_id migrate_role = Inr (VStr new_model_id)
     \<and> ''v2'' = version
     \<and> py_getitem conf ''role'' = Inr migrate_role
     \<and> py_getitem conf ''initiator'' = Inr migrate_initiator
     \<and> example_dumps conf = dumped
     \<and> map_of blob ''train_runtime_conf'' = Some (PBytes dumped)
     \<and> map_of blob ''model_id'' = Some (PBytes (utf8_encode new_model_id))
     \<and> map_of blob ''model_version'' = Some (PBytes (utf8_encode version))
     \<and> map_of blob ''initiator_role'' = Some (PVal (VStr ''guest''))
     \<and> map_of blob ''initiator_party_id'' = Some (PVal (VInt 99))"
proof -
  have u: "dict_getitem (example_config ''v2'' 99 example_migrate_role) ''unify_model_version''
             = Inr (VStr ''v2'')"
    by (simp add: example_config_def dict_getitem_def)
  have m: "migration (example_env []) (example_config ''v2'' 99 example_migrate_role) []
         = (Inr (0, Text (example_message ''guest-99#host-100#model'' ''v2''),
                 [(''model_id'', VStr ''guest#99#guest-99#host-100#model''),
                  (''model_version'', VStr ''v2''), (''path'', VStr ''/data/model.zip'')]),
            [] @ example_trace (PipelinedModel (VStr ''guest#99#guest-99#host-100#model'') (VStr ''v2''))
              (VList [VInt 99]) (VList [VInt 100])
              (example_blob example_migrate_role 99 ''guest-99#host-100#model'' ''v2''))"
    by (rule example_migration[OF _ example_gen_model_id(1) example_new_id(1) example_lists(1)])
       simp_all
  have c: "compare_version (example_env []) (pb_val example_pipeline ''fate_version'') (VStr ''1.5.0'')
             = Inr (VStr ''gt'')"
    by (simp add: example_env_simps example_pipeline_def pb_val_def)
  show ?thesis
    using pipeline_blob_updated[OF example_adapter_contract u _ m]
    by (simp add: example_env_simps example_config_def dict_getitem_def py_getitem_def
        example_pipeline_def pb_val_def)
qed

end
